(* ===== verification/Prelude.thy ===== *)
theory Prelude
  imports Main "HOL-Library.Sublist"
begin

text \<open>
  The Python string builtins the application relies on, over strings of Unicode code
  points.  A Python \<open>str\<close> is a sequence of code points, so it is modelled as a
  \<open>nat list\<close> (\<open>ustr\<close>); ASCII literals of the source are written \<open>u ''...''\<close>.
  Whitespace (\<open>str.isspace\<close>, regex \<open>\s\<close>, \<open>str.strip()\<close>, \<open>str.split()\<close>) is
  the fixed set of Python's \<open>Py_UNICODE_ISSPACE\<close>.  Letters and digits (regex \<open>\w\<close>)
  and lower-casing are exact on ASCII and read from a Unicode character database
  (\<open>unicode_db\<close>, a parameter of every operation) above it, so that every theorem
  holds whatever the Unicode tables of the running interpreter say.
\<close>

named_theorems py_str "characteristic facts about the Python string builtins"

type_synonym uchar = nat
type_synonym ustr = "uchar list"

definition u :: "string \<Rightarrow> ustr" where
  "u s = map of_char s"

text \<open>
  The exceptions the modelled code raises or catches; a fallible operation returns
  \<open>py_exc + 'a\<close>, \<open>Inl\<close> the exception.  \<open>RequestException\<close> stands for every failure
  of \<open>requests\<close> (connection, timeout, HTTP status, undecodable body).
\<close>

datatype py_exc = ValueError | TypeError | KeyError | AttributeError | IndexError
  | OverflowError | UnicodeEncodeError | RequestException

abbreviation NL :: uchar where "NL \<equiv> 10"
abbreviation SP :: uchar where "SP \<equiv> 32"

subsection \<open>Character classes\<close>

definition py_isspace :: "uchar \<Rightarrow> bool" where
  "py_isspace c \<longleftrightarrow>
     (9 \<le> c \<and> c \<le> 13) \<or> (28 \<le> c \<and> c \<le> 32) \<or> c = 133 \<or> c = 160 \<or> c = 5760 \<or>
     (8192 \<le> c \<and> c \<le> 8202) \<or> c = 8232 \<or> c = 8233 \<or> c = 8239 \<or> c = 8287 \<or> c = 12288"

record unicode_db =
  ucd_alnum :: "uchar \<Rightarrow> bool"
  ucd_lower :: "uchar \<Rightarrow> ustr"
  ucd_decimal :: "uchar \<Rightarrow> nat option"
  ucd_printable :: "uchar \<Rightarrow> bool"

text \<open>
  A character database under which no code point above ASCII is a letter, a digit or
  printable, and lower-casing keeps it: the interpreter the concrete examples of the
  development run on.
\<close>

definition ascii_db :: unicode_db where
  "ascii_db = \<lparr>ucd_alnum = (\<lambda>_. False), ucd_lower = (\<lambda>c. [c]), ucd_decimal = (\<lambda>_. None),
     ucd_printable = (\<lambda>_. False)\<rparr>"

definition ascii_alnum :: "uchar \<Rightarrow> bool" where
  "ascii_alnum c \<longleftrightarrow> (48 \<le> c \<and> c \<le> 57) \<or> (65 \<le> c \<and> c \<le> 90) \<or> (97 \<le> c \<and> c \<le> 122)"

text \<open>Regex \<open>\w\<close> on a \<open>str\<close> pattern: alphanumeric or underscore.\<close>

definition is_word :: "unicode_db \<Rightarrow> uchar \<Rightarrow> bool" where
  "is_word db c = (if c < 128 then ascii_alnum c \<or> c = 95 else ucd_alnum db c)"

definition lower_cp :: "unicode_db \<Rightarrow> uchar \<Rightarrow> ustr" where
  "lower_cp db c = (if c < 128 then [if 65 \<le> c \<and> c \<le> 90 then c + 32 else c] else ucd_lower db c)"

definition py_lower :: "unicode_db \<Rightarrow> ustr \<Rightarrow> ustr" where
  "py_lower db s = concat (map (lower_cp db) s)"

subsection \<open>\<open>str()\<close> of an integer\<close>

fun nat_str :: "nat \<Rightarrow> ustr" where
  "nat_str n = (if n < 10 then [48 + n] else nat_str (n div 10) @ [48 + n mod 10])"

definition py_str_int :: "int \<Rightarrow> ustr" where
  "py_str_int i = (if i < 0 then 45 # nat_str (nat (- i)) else nat_str (nat i))"

declare nat_str.simps [simp del]

subsection \<open>Strip, split, join, replace\<close>

definition py_strip :: "ustr \<Rightarrow> ustr" where
  "py_strip s = rev (dropWhile py_isspace (rev (dropWhile py_isspace s)))"

definition py_strip_chars :: "ustr \<Rightarrow> ustr \<Rightarrow> ustr" where
  "py_strip_chars cs s = rev (dropWhile (\<lambda>c. c \<in> set cs) (rev (dropWhile (\<lambda>c. c \<in> set cs) s)))"

text \<open>\<open>s.split()\<close>: the maximal runs of non-whitespace; \<open>cur\<close> is the current word, reversed.\<close>

fun split_ws_acc :: "ustr \<Rightarrow> ustr \<Rightarrow> ustr list" where
  "split_ws_acc cur [] = (if cur = [] then [] else [rev cur])"
| "split_ws_acc cur (c # s) =
     (if py_isspace c then (if cur = [] then split_ws_acc [] s else rev cur # split_ws_acc [] s)
      else split_ws_acc (c # cur) s)"

definition py_split_ws :: "ustr \<Rightarrow> ustr list" where
  "py_split_ws s = split_ws_acc [] s"

text \<open>
  \<open>s.split(sep)\<close> for a non-empty separator: cut at every occurrence, left to right,
  without overlap.  Python raises \<open>ValueError\<close> on an empty separator; every call
  of the application passes a non-empty literal.
\<close>

fun split_acc :: "ustr \<Rightarrow> ustr \<Rightarrow> ustr \<Rightarrow> ustr list" where
  "split_acc sep cur [] = [rev cur]"
| "split_acc sep cur (c # s) =
     (if prefix sep (c # s) then rev cur # split_acc sep [] (drop (length sep - 1) s)
      else split_acc sep (c # cur) s)"

definition py_split :: "ustr \<Rightarrow> ustr \<Rightarrow> ustr list" where
  "py_split sep s = (if sep = [] then [s] else split_acc sep [] s)"

fun py_join :: "ustr \<Rightarrow> ustr list \<Rightarrow> ustr" where
  "py_join sep [] = []"
| "py_join sep [w] = w"
| "py_join sep (w # v # ws) = w @ sep @ py_join sep (v # ws)"

fun replace_acc :: "ustr \<Rightarrow> ustr \<Rightarrow> ustr \<Rightarrow> ustr" where
  "replace_acc old new [] = []"
| "replace_acc old new (c # s) =
     (if prefix old (c # s) then new @ replace_acc old new (drop (length old - 1) s)
      else c # replace_acc old new s)"

definition py_replace :: "ustr \<Rightarrow> ustr \<Rightarrow> ustr \<Rightarrow> ustr" where
  "py_replace old new s =
     (if old = [] then new @ concat (map (\<lambda>c. c # new) s) else replace_acc old new s)"

text \<open>\<open>x in s\<close> for strings is \<open>sublist\<close> of HOL-Library.Sublist (executable).\<close>

subsection \<open>The two regex substitutions of the source\<close>

text \<open>\<open>re.sub(r'[^\w\s\'-]', '', s)\<close>: keep word characters, whitespace, apostrophe, hyphen.\<close>

definition keep_char :: "unicode_db \<Rightarrow> uchar \<Rightarrow> bool" where
  "keep_char db c \<longleftrightarrow> is_word db c \<or> py_isspace c \<or> c = 39 \<or> c = 45"

definition keep_chars :: "unicode_db \<Rightarrow> ustr \<Rightarrow> ustr" where
  "keep_chars db s = filter (keep_char db) s"

text \<open>\<open>re.sub(r'\s+', ' ', s)\<close>: every maximal run of whitespace becomes one space.\<close>

function collapse_ws :: "ustr \<Rightarrow> ustr" where
  "collapse_ws [] = []"
| "collapse_ws (c # s) =
     (if py_isspace c then SP # collapse_ws (dropWhile py_isspace s) else c # collapse_ws s)"
  by pat_completeness auto
termination
  by (relation "measure length") (auto simp: le_imp_less_Suc length_dropWhile_le)

subsection \<open>The normal form of a cleaned name\<close>

text \<open>
  A string is tidy when the cleaning of the source leaves it as it is: only kept
  characters, no whitespace at either end, and every whitespace run a single space.
\<close>
definition tidy :: "unicode_db \<Rightarrow> ustr \<Rightarrow> bool" where
  "tidy db x \<longleftrightarrow> list_all (keep_char db) x \<and> py_strip x = x \<and> collapse_ws x = x"

text \<open>A word of \<open>str.split()\<close>: non-empty, without whitespace.\<close>

definition word_ok :: "ustr \<Rightarrow> bool" where
  "word_ok w \<longleftrightarrow> w \<noteq> [] \<and> list_all (\<lambda>c. \<not> py_isspace c) w"

subsection \<open>Lemmas on the builtins\<close>

lemma dropWhile_hd_keep [py_str]: "\<not> P (hd x) \<Longrightarrow> dropWhile P x = x"
  by (cases x) auto

lemma last_dropWhile [py_str]: "dropWhile P x \<noteq> [] \<Longrightarrow> last (dropWhile P x) = last x"
  by (metis last_appendR takeWhile_dropWhile_id)

lemma py_strip_id [py_str]:
  "\<not> py_isspace (hd x) \<Longrightarrow> \<not> py_isspace (last x) \<Longrightarrow> py_strip x = x"
  by (cases "x = []") (simp_all add: py_strip_def dropWhile_hd_keep hd_rev)

lemma py_strip_edges [py_str]:
  assumes "py_strip x \<noteq> []"
  shows "\<not> py_isspace (hd (py_strip x)) \<and> \<not> py_isspace (last (py_strip x))"
proof -
  let ?y = "dropWhile py_isspace x"
  let ?z = "dropWhile py_isspace (rev ?y)"
  have eq: "py_strip x = rev ?z" by (simp add: py_strip_def)
  with assms have z: "?z \<noteq> []" by simp
  then have y: "?y \<noteq> []" by (metis dropWhile.simps(1) rev.simps(1))
  have "last ?z = hd ?y" using z by (simp add: last_dropWhile last_rev)
  then have "\<not> py_isspace (hd (rev ?z))" using y by (simp add: hd_rev hd_dropWhile)
  moreover have "\<not> py_isspace (last (rev ?z))" using z by (simp add: last_rev hd_dropWhile)
  ultimately show ?thesis by (simp add: eq)
qed

lemma set_py_strip [py_str]: "set (py_strip x) \<subseteq> set x"
  by (auto simp: py_strip_def dest!: set_dropWhileD)

lemma py_strip_Nil [simp]: "py_strip [] = []"
  by (simp add: py_strip_def)

lemma py_strip_idem [py_str]: "py_strip (py_strip x) = py_strip x"
  by (cases "py_strip x = []") (simp_all add: py_strip_id py_strip_edges)

lemma set_collapse_ws [py_str]: "set (collapse_ws x) \<subseteq> insert SP (set x)"
  by (induction x rule: collapse_ws.induct) (auto dest: set_dropWhileD)

lemma collapse_ws_space [py_str]: "c \<in> set (collapse_ws x) \<Longrightarrow> py_isspace c \<Longrightarrow> c = SP"
  by (induction x rule: collapse_ws.induct) (auto split: if_splits)

lemma collapse_ws_Nil_iff [py_str]: "collapse_ws x = [] \<longleftrightarrow> x = []"
  by (cases x) auto

lemma collapse_ws_hd [py_str]:
  "x \<noteq> [] \<Longrightarrow> \<not> py_isspace (hd x) \<Longrightarrow> collapse_ws x = hd x # collapse_ws (tl x)"
  by (cases x) auto

lemma collapse_ws_last [py_str]:
  "x \<noteq> [] \<Longrightarrow> \<not> py_isspace (last x) \<Longrightarrow> last (collapse_ws x) = last x"
proof (induction x rule: collapse_ws.induct)
  case 1 then show ?case by simp
next
  case (2 c s)
  show ?case
  proof (cases "py_isspace c")
    case True
    with "2.prems" have "s \<noteq> []" by auto
    let ?t = "dropWhile py_isspace s"
    have ne: "?t \<noteq> []"
      using \<open>s \<noteq> []\<close> "2.prems" True by (metis dropWhile_eq_Nil_conv last_ConsR last_in_set)
    have "collapse_ws (c # s) = SP # collapse_ws ?t" using True by simp
    moreover have "collapse_ws ?t \<noteq> []" using ne collapse_ws_Nil_iff by blast
    moreover have "last (collapse_ws ?t) = last ?t"
      using ne "2.IH"(1) True "2.prems" \<open>s \<noteq> []\<close> by (simp add: last_dropWhile)
    moreover have "last ?t = last s" using ne by (rule last_dropWhile)
    ultimately show ?thesis using \<open>s \<noteq> []\<close> by simp
  next
    case False
    then show ?thesis using "2.IH"(2) "2.prems" by (cases "s = []") (auto simp: collapse_ws_Nil_iff)
  qed
qed

lemma dropWhile_collapse_ws [py_str]:
  "dropWhile py_isspace (collapse_ws (dropWhile py_isspace s)) = collapse_ws (dropWhile py_isspace s)"
proof (cases "dropWhile py_isspace s")
  case Nil then show ?thesis unfolding Nil by simp
next
  case (Cons a t)
  then have "\<not> py_isspace a" using hd_dropWhile by (metis list.sel(1) list.simps(3))
  with Cons show ?thesis by simp
qed

lemma collapse_ws_idem [py_str]: "collapse_ws (collapse_ws x) = collapse_ws x"
proof (induction x rule: collapse_ws.induct)
  case 1 then show ?case by simp
next
  case (2 c s)
  with dropWhile_collapse_ws [of s] show ?case by (cases "py_isspace c") simp_all
qed
lemma keep_char_space [py_str]: "py_isspace c \<Longrightarrow> keep_char db c"
  by (simp add: keep_char_def)

lemma keep_char_colon [py_str]: "\<not> keep_char db 58"
  by (simp add: keep_char_def is_word_def ascii_alnum_def py_isspace_def)

lemma keep_chars_all [py_str]: "list_all (keep_char db) (keep_chars db x)"
  by (simp add: keep_chars_def list_all_iff)

lemma keep_chars_id [py_str]: "list_all (keep_char db) x \<Longrightarrow> keep_chars db x = x"
  by (simp add: keep_chars_def list_all_iff)

lemma list_all_py_strip [py_str]: "list_all P x \<Longrightarrow> list_all P (py_strip x)"
  using set_py_strip by (fastforce simp: list_all_iff)

lemma list_all_collapse_ws [py_str]:
  "list_all P x \<Longrightarrow> P SP \<Longrightarrow> list_all P (collapse_ws x)"
  using set_collapse_ws by (fastforce simp: list_all_iff)

text \<open>Collapsing a stripped string gives the normal form.\<close>

lemma tidy_collapse_ws [py_str]:
  assumes "list_all (keep_char db) y" and "py_strip y = y"
  shows "tidy db (collapse_ws y) \<and> py_strip (collapse_ws y) = collapse_ws y"
proof (cases "y = []")
  case True then show ?thesis by (simp add: tidy_def)
next
  case False
  have e: "\<not> py_isspace (hd y) \<and> \<not> py_isspace (last y)"
    using False assms(2) py_strip_edges [of y] by simp
  then have "hd (collapse_ws y) = hd y" using False by (simp add: collapse_ws_hd)
  moreover have "last (collapse_ws y) = last y" using False e collapse_ws_last by blast
  ultimately have s: "py_strip (collapse_ws y) = collapse_ws y"
    using e by (simp add: py_strip_id)
  have "list_all (keep_char db) (collapse_ws y)"
    using assms(1) by (simp add: list_all_collapse_ws keep_char_def py_isspace_def)
  with s show ?thesis by (simp add: tidy_def collapse_ws_idem)
qed

lemma tidy_Nil [simp]: "tidy db []"
  by (simp add: tidy_def)

lemma tidy_no_NL [py_str]: "tidy db x \<Longrightarrow> NL \<notin> set x"
  unfolding tidy_def using collapse_ws_space [of NL x] by (auto simp: py_isspace_def)

lemma tidy_no_colon [py_str]: "tidy db x \<Longrightarrow> 58 \<notin> set x"
  unfolding tidy_def using keep_char_colon by (auto simp: list_all_iff)

lemma tidy_edges [py_str]:
  "tidy db x \<Longrightarrow> x \<noteq> [] \<Longrightarrow> \<not> py_isspace (hd x) \<and> \<not> py_isspace (last x)"
  unfolding tidy_def using py_strip_edges [of x] by simp

subsection \<open>Words, split and join\<close>

lemma split_ws_acc_words:
  "list_all (\<lambda>c. \<not> py_isspace c) cur \<Longrightarrow> list_all word_ok (split_ws_acc cur s)"
  by (induction cur s rule: split_ws_acc.induct) (auto simp: word_ok_def)

lemma py_split_ws_words [py_str]: "list_all word_ok (py_split_ws s)"
  by (simp add: py_split_ws_def split_ws_acc_words)

lemma split_ws_acc_set: "set (concat (split_ws_acc cur s)) \<subseteq> set cur \<union> set s"
  by (induction cur s rule: split_ws_acc.induct) auto

lemma py_split_ws_set [py_str]: "set (concat (py_split_ws s)) \<subseteq> set s"
  using split_ws_acc_set [of "[]" s] by (simp add: py_split_ws_def)

lemma split_ws_acc_word:
  "list_all (\<lambda>c. \<not> py_isspace c) w \<Longrightarrow> split_ws_acc cur (w @ s) = split_ws_acc (rev w @ cur) s"
  by (induction w arbitrary: cur) auto

lemma split_ws_acc_join:
  "list_all word_ok ws \<Longrightarrow> ws \<noteq> [] \<Longrightarrow> list_all (\<lambda>c. \<not> py_isspace c) cur \<Longrightarrow>
   split_ws_acc cur (py_join [SP] ws) = (rev cur @ hd ws) # tl ws"
proof (induction ws arbitrary: cur rule: induct_list012)
  case (2 w)
  then show ?case using split_ws_acc_word [of w cur "[]"] by (simp add: word_ok_def)
next
  case (3 w v ws)
  have w: "list_all (\<lambda>c. \<not> py_isspace c) w" "w \<noteq> []" using "3.prems"(1) by (simp_all add: word_ok_def)
  have "split_ws_acc cur (py_join [SP] (w # v # ws)) = split_ws_acc (rev w @ cur) (SP # py_join [SP] (v # ws))"
    using w(1) by (simp add: split_ws_acc_word)
  also have "\<dots> = (rev cur @ w) # split_ws_acc [] (py_join [SP] (v # ws))"
    using w(2) by (simp add: py_isspace_def)
  also have "split_ws_acc [] (py_join [SP] (v # ws)) = v # ws"
    using "3.IH"(2) [of "[]"] "3.prems"(1) by simp
  finally show ?case by simp
qed simp

lemma py_split_ws_join [py_str]: "list_all word_ok ws \<Longrightarrow> py_split_ws (py_join [SP] ws) = ws"
  by (cases "ws = []") (simp_all add: py_split_ws_def split_ws_acc_join)

lemma collapse_ws_word: "list_all (\<lambda>c. \<not> py_isspace c) w \<Longrightarrow> collapse_ws (w @ s) = w @ collapse_ws s"
  by (induction w) auto

lemma join_hd_last:
  "list_all word_ok ws \<Longrightarrow> ws \<noteq> [] \<Longrightarrow>
   py_join [SP] ws \<noteq> [] \<and> hd (py_join [SP] ws) = hd (hd ws) \<and> last (py_join [SP] ws) = last (last ws)"
  by (induction ws rule: induct_list012) (auto simp: word_ok_def)

lemma collapse_ws_join [py_str]: "list_all word_ok ws \<Longrightarrow> collapse_ws (py_join [SP] ws) = py_join [SP] ws"
proof (induction ws rule: induct_list012)
  case (2 w)
  then show ?case using collapse_ws_word [of w "[]"] by (simp add: word_ok_def)
next
  case (3 w v ws)
  have w: "list_all (\<lambda>c. \<not> py_isspace c) w" using "3.prems" by (simp add: word_ok_def)
  have v: "\<not> py_isspace (hd (py_join [SP] (v # ws)))"
    using join_hd_last [of "v # ws"] "3.prems" by (auto simp: word_ok_def list_all_iff)
  have "collapse_ws (py_join [SP] (w # v # ws)) = w @ SP # collapse_ws (py_join [SP] (v # ws))"
    using w v by (simp add: collapse_ws_word py_isspace_def dropWhile_hd_keep)
  then show ?case using "3.IH"(2) "3.prems" by simp
qed simp

lemma py_strip_join [py_str]: "list_all word_ok ws \<Longrightarrow> py_strip (py_join [SP] ws) = py_join [SP] ws"
proof (cases "ws = []")
  case False
  assume ok: "list_all word_ok ws"
  have "word_ok (hd ws)" "word_ok (last ws)" using ok False by (simp_all add: list_all_iff)
  then have "\<not> py_isspace (hd (hd ws))" "\<not> py_isspace (last (last ws))"
    by (auto simp: word_ok_def list_all_iff)
  with join_hd_last [OF ok False] show ?thesis by (simp add: py_strip_id)
qed simp

subsection \<open>Occurrences, splitting and stripping\<close>

lemma sublist_set: "sublist xs ys \<Longrightarrow> set xs \<subseteq> set ys"
  by (auto simp: sublist_def)

lemma replace_acc_no_occ: "\<not> sublist old s \<Longrightarrow> replace_acc old new s = s"
proof (induction s)
  case (Cons c s)
  then have "\<not> prefix old (c # s)" "\<not> sublist old s"
    by (auto simp: sublist_Cons_right)
  with Cons.IH show ?case by simp
qed simp

lemma split_acc_set: "set (concat (split_acc sep cur s)) \<subseteq> set cur \<union> set s"
  by (induction sep cur s rule: split_acc.induct) (auto dest: in_set_dropD)

lemma py_split_set [py_str]: "set (concat (py_split sep s)) \<subseteq> set s"
  using split_acc_set [of sep "[]" s] by (auto simp: py_split_def)

lemma split_acc_skip:
  "\<forall>i<length x. \<not> prefix sep (drop i x @ z) \<Longrightarrow> split_acc sep cur (x @ z) = split_acc sep (rev x @ cur) z"
proof (induction x arbitrary: cur)
  case (Cons c x)
  have "\<not> prefix sep (c # x @ z)" using Cons.prems by (auto dest: spec [of _ 0])
  moreover have "\<forall>i<length x. \<not> prefix sep (drop i x @ z)"
    using Cons.prems by (auto dest: spec [of _ "Suc _"])
  ultimately show ?case using Cons.IH by simp
qed simp

lemma occ_free_char: "c \<notin> set x \<Longrightarrow> \<forall>i<length x. \<not> prefix (c # p) (drop i x @ z)"
  by (auto simp: Cons_nth_drop_Suc [symmetric] dest: nth_mem)

lemma py_split_char_none: "c \<notin> set x \<Longrightarrow> py_split [c] x = [x]"
proof -
  assume "c \<notin> set x"
  then have "\<forall>i<length x. \<not> prefix [c] (drop i x @ [])" by (rule occ_free_char)
  from split_acc_skip [OF this, of "[]"] show ?thesis by (simp add: py_split_def)
qed

lemma py_split_char_one:
  assumes "c \<notin> set x" "c \<notin> set y"
  shows "py_split [c] (x @ c # y) = [x, y]"
proof -
  have "\<forall>i<length x. \<not> prefix [c] (drop i x @ c # y)" by (rule occ_free_char [OF assms(1)])
  have "\<forall>i<length y. \<not> prefix [c] (drop i y @ [])" by (rule occ_free_char [OF assms(2)])
  from split_acc_skip [OF \<open>\<forall>i<length x. _\<close>, of "[]"] split_acc_skip [OF this, of "[]"]
  show ?thesis by (simp add: py_split_def)
qed

lemma py_strip_space_Cons: "py_isspace c \<Longrightarrow> py_strip (c # x) = py_strip x"
  by (simp add: py_strip_def)

lemma py_strip_chars_id:
  "x \<noteq> [] \<Longrightarrow> hd x \<notin> set cs \<Longrightarrow> last x \<notin> set cs \<Longrightarrow> py_strip_chars cs x = x"
  by (simp add: py_strip_chars_def dropWhile_hd_keep hd_rev)

lemma keep_char_ascii_punct: "c \<in> {42, 44, 46} \<Longrightarrow> \<not> keep_char db c"
  by (auto simp: keep_char_def is_word_def ascii_alnum_def py_isspace_def)

lemma tidy_no_punct: "tidy db x \<Longrightarrow> c \<in> {42, 44, 46} \<Longrightarrow> c \<notin> set x"
  unfolding tidy_def using keep_char_ascii_punct by (auto simp: list_all_iff)

lemma prefix_before: "prefix p (xs @ c # z) \<Longrightarrow> length p \<le> Suc (length xs) \<Longrightarrow> prefix p (xs @ [c])"
  using prefix_length_prefix [of p "xs @ c # z" "xs @ [c]"] by simp

lemma dash_occ_free:
  assumes "\<not> sublist (u '' - '') (a @ [SP])" "\<not> py_isspace (last a)"
  shows "\<forall>i<length a. \<not> prefix (u '' - '') (drop i a @ SP # z)"
proof (intro allI impI notI)
  fix i assume i: "i < length a" and p: "prefix (u '' - '') (drop i a @ SP # z)"
  show False
  proof (cases "Suc i < length a")
    case True
    then have "length (u '' - '') \<le> Suc (length (drop i a))" by (simp add: u_def)
    from prefix_before [OF p this] have "sublist (u '' - '') (drop i a @ [SP])"
      by (rule prefix_imp_sublist)
    moreover have "suffix (drop i a @ [SP]) (a @ [SP])"
      using suffix_drop [of i a] by (auto simp: suffix_def)
    ultimately have "sublist (u '' - '') (a @ [SP])"
      using suffix_imp_sublist sublist_order.order.trans by blast
    with assms(1) show False ..
  next
    case False
    with i have n: "i = length (butlast a)" by simp
    from i have "a = butlast a @ [last a]" by (metis append_butlast_last_id list.size(3) not_less_zero)
    then have "drop i a = [last a]" using n by (metis append_eq_conv_conj)
    with p assms(2) show False by (simp add: u_def py_isspace_def)
  qed
qed

lemma takeWhile_ne: "c \<notin> set xs \<Longrightarrow> takeWhile (\<lambda>x. x \<noteq> c) (xs @ c # ys) = xs"
  by (induction xs) auto

lemma single_colon_sublist:
  assumes "sublist (t0 @ [58]) (x @ 58 # y)" "(58::uchar) \<notin> set x" "(58::uchar) \<notin> set y"
    "(58::uchar) \<notin> set t0"
  shows "suffix t0 x"
proof -
  from assms(1) obtain p q where eq: "x @ 58 # y = p @ t0 @ 58 # q" by (auto simp: sublist_def)
  have "count_list (x @ 58 # y) 58 = 1" using assms(2,3) by (simp add: count_list_0_iff)
  then have "count_list p 58 = 0" unfolding eq by simp
  then have "(58::uchar) \<notin> set p" by (simp add: count_list_0_iff)
  then have "takeWhile (\<lambda>c. c \<noteq> 58) ((p @ t0) @ 58 # q) = p @ t0" using assms(4)
    by (intro takeWhile_ne) simp
  moreover have "takeWhile (\<lambda>c. c \<noteq> 58) (x @ 58 # y) = x" using assms(2) by (rule takeWhile_ne)
  ultimately show ?thesis unfolding eq by (auto simp: suffix_def)
qed

lemma sublist_line_break:
  "NL \<notin> set t \<Longrightarrow> sublist t (x @ NL # y) \<Longrightarrow> sublist t x \<or> sublist t y"
  by (auto simp: sublist_append sublist_Cons_right prefix_Cons)

lemma tidy_word_prefix:
  assumes "tidy db b" "b \<noteq> []" "w \<noteq> []" "list_all ascii_alnum w"
  shows "tidy db (w @ SP # b)"
proof -
  have e: "\<not> py_isspace (hd b)" "\<not> py_isspace (last b)" using tidy_edges [OF assms(1,2)] by auto
  have ws: "list_all (\<lambda>c. \<not> py_isspace c) w" "list_all (keep_char db) w"
    using assms(4) by (auto simp: list_all_iff ascii_alnum_def py_isspace_def keep_char_def is_word_def)
  have "collapse_ws (w @ SP # b) = w @ SP # b"
    using collapse_ws_word [OF ws(1)] e(1) dropWhile_hd_keep [of py_isspace b] assms(1)
    by (simp add: py_isspace_def tidy_def)
  moreover have "py_strip (w @ SP # b) = w @ SP # b"
    using assms(2,3) ws(1) e(2) by (intro py_strip_id) (auto simp: list_all_iff)
  ultimately show ?thesis using assms(1) ws(2) by (simp add: tidy_def keep_char_space py_isspace_def)
qed

end
