(* ===== verification/Regex.thy ===== *)
theory Regex
  imports Prelude
begin

text \<open>
  The backtracking search of Python's \<open>re.search\<close> for the three patterns
  \<open>LABEL:\s*(.+?)(?:\s*A:|\s*B:|\n|$)\<close> of \<open>extract_dish_name\<close>
  (src/app/main.py, lines 451--453): start positions left to right (\<open>re_search\<close>),
  at each the greedy \<open>\s*\<close> from its longest run down (\<open>try_ws\<close>), for each
  the lazy \<open>.+?\<close> from one character up (\<open>lazy_dot\<close>), stopping where the
  alternation matches (\<open>stop_at\<close>).  \<open>.\<close> matches anything but a newline;
  \<open>$\<close> (no MULTILINE flag) matches at the end or before a final newline, which the
  \<open>\n\<close> alternative already covers.  The lemmas characterise a match at a label
  followed by a tidy value, and skipping text in which a colon-terminated label
  cannot start.
\<close>

subsection \<open>The pattern, piece by piece\<close>

text \<open>\<open>\s*t\<close> matches at the start of \<open>r\<close>.\<close>

fun ws_lit :: "ustr \<Rightarrow> ustr \<Rightarrow> bool" where
  "ws_lit t [] = (t = [])"
| "ws_lit t (c # r) = (prefix t (c # r) \<or> (py_isspace c \<and> ws_lit t r))"

text \<open>The alternation \<open>(?:\s*A:|\s*B:|\n|$)\<close> at the start of the rest \<open>r\<close>.\<close>

definition stop_at :: "ustr list \<Rightarrow> ustr \<Rightarrow> bool" where
  "stop_at stops r = (case r of [] \<Rightarrow> True | c # _ \<Rightarrow> c = NL \<or> list_ex (\<lambda>t. ws_lit t r) stops)"

text \<open>The lazy group \<open>(.+?)\<close>, with the characters taken so far reversed in \<open>acc\<close>.\<close>

fun lazy_dot :: "ustr list \<Rightarrow> ustr \<Rightarrow> ustr \<Rightarrow> ustr option" where
  "lazy_dot stops acc [] = None"
| "lazy_dot stops acc (c # r) =
     (if c = NL then None
      else if stop_at stops r then Some (rev (c # acc))
      else lazy_dot stops (c # acc) r)"

text \<open>The greedy \<open>\s*\<close> after the label: \<open>k\<close> whitespace characters taken, then fewer.\<close>

fun try_ws :: "ustr list \<Rightarrow> ustr \<Rightarrow> nat \<Rightarrow> ustr option" where
  "try_ws stops t 0 = lazy_dot stops [] t"
| "try_ws stops t (Suc k) =
     (case lazy_dot stops [] (drop (Suc k) t) of None \<Rightarrow> try_ws stops t k | Some g \<Rightarrow> Some g)"

definition match_at :: "ustr \<Rightarrow> ustr list \<Rightarrow> ustr \<Rightarrow> ustr option" where
  "match_at pat stops s =
     (if prefix pat s
      then (let t = drop (length pat) s in try_ws stops t (length (takeWhile py_isspace t)))
      else None)"

fun re_search :: "ustr \<Rightarrow> ustr list \<Rightarrow> ustr \<Rightarrow> ustr option" where
  "re_search pat stops [] = match_at pat stops []"
| "re_search pat stops (c # s) =
     (case match_at pat stops (c # s) of None \<Rightarrow> re_search pat stops s | Some g \<Rightarrow> Some g)"

subsection \<open>Proof vocabulary\<close>

text \<open>A label ending in its only colon, and a rest of the text in which no proper
  suffix of the label can begin.\<close>

definition colon_label :: "ustr \<Rightarrow> bool" where
  "colon_label t \<longleftrightarrow> t \<noteq> [] \<and> last t = 58 \<and> 58 \<notin> set (butlast t)"

definition no_stop_inside :: "ustr \<Rightarrow> ustr \<Rightarrow> bool" where
  "no_stop_inside t r \<longleftrightarrow> list_all (\<lambda>k. \<not> prefix (drop k t) r) [1..<length t]"

subsection \<open>Lemmas\<close>

lemma ex_le_Suc_iff: "(\<exists>i\<le>Suc n. P i) \<longleftrightarrow> P 0 \<or> (\<exists>i\<le>n. P (Suc i))"
proof
  assume "\<exists>i\<le>Suc n. P i"
  then obtain i where "i \<le> Suc n" "P i" by blast
  then show "P 0 \<or> (\<exists>i\<le>n. P (Suc i))" by (cases i) auto
qed auto

lemma ws_lit_iff:
  "ws_lit t s \<longleftrightarrow> (\<exists>i\<le>length s. list_all py_isspace (take i s) \<and> prefix t (drop i s))"
  by (induction s) (auto simp: ex_le_Suc_iff)

lemma colon_prefix_takeWhile:
  "(58::uchar) \<notin> set t0 \<Longrightarrow> prefix (t0 @ [58::uchar]) z \<Longrightarrow> takeWhile (\<lambda>c. c \<noteq> (58::uchar)) z = t0"
proof -
  assume n: "(58::uchar) \<notin> set t0" and "prefix (t0 @ [58::uchar]) z"
  then obtain zs where z: "z = t0 @ 58 # zs" by (auto simp: prefix_def)
  have "takeWhile (\<lambda>c. c \<noteq> (58::uchar)) (t0 @ 58 # zs) = t0 @ takeWhile (\<lambda>c. c \<noteq> (58::uchar)) (58 # zs)"
    by (rule takeWhile_append2) (use n in auto)
  then show ?thesis by (simp add: z)
qed

lemma colon_prefix_split:
  assumes "(58::uchar) \<notin> set t0" "(58::uchar) \<notin> set y" "prefix (t0 @ [58::uchar]) (y @ zs)"
  shows "t0 = y @ takeWhile (\<lambda>c. c \<noteq> (58::uchar)) zs"
proof -
  have "takeWhile (\<lambda>c. c \<noteq> (58::uchar)) (y @ zs) = t0" using assms(1,3) by (rule colon_prefix_takeWhile)
  moreover have "takeWhile (\<lambda>c. c \<noteq> (58::uchar)) (y @ zs) = y @ takeWhile (\<lambda>c. c \<noteq> (58::uchar)) zs"
    using assms(2) by (auto intro: takeWhile_append2)
  ultimately show ?thesis by simp
qed

text \<open>A colon-terminated label cannot start inside colon-free text followed by the end,
  a character foreign to the label, or the label itself.\<close>

lemma colon_label_no_occ:
  assumes "(58::uchar) \<notin> set t0" "y \<noteq> []" "(58::uchar) \<notin> set y"
    and "(58::uchar) \<notin> set zs \<or> \<not> suffix (takeWhile (\<lambda>c. c \<noteq> (58::uchar)) zs) t0 \<or> prefix (t0 @ [58::uchar]) zs"
  shows "\<not> prefix (t0 @ [58::uchar]) (y @ zs)"
proof
  assume p: "prefix (t0 @ [58::uchar]) (y @ zs)"
  have t0: "t0 = y @ takeWhile (\<lambda>c. c \<noteq> (58::uchar)) zs"
    using assms(1) assms(3) p by (rule colon_prefix_split)
  consider "(58::uchar) \<notin> set zs" | "\<not> suffix (takeWhile (\<lambda>c. c \<noteq> (58::uchar)) zs) t0"
    | "prefix (t0 @ [58::uchar]) zs"
    using assms(4) by blast
  then show False
  proof cases
    case 1
    from p obtain z where "y @ zs = t0 @ 58 # z" by (auto simp: prefix_def)
    then have "(58::uchar) \<in> set (y @ zs)" by (metis in_set_conv_decomp)
    with 1 assms(3) show False by simp
  next
    case 2
    with t0 show False by (simp add: suffix_def)
  next
    case 3
    have "takeWhile (\<lambda>c. c \<noteq> (58::uchar)) zs = t0"
      using assms(1) 3 by (rule colon_prefix_takeWhile)
    with t0 assms(2) show False by simp
  qed
qed

lemma ws_lit_inner:
  assumes y: "y \<noteq> []" "(58::uchar) \<notin> set y" "\<not> py_isspace (last y)"
    and t: "t = t0 @ [58::uchar]" "(58::uchar) \<notin> set t0"
    and guard: "\<forall>k. 0 < k \<longrightarrow> k < length t \<longrightarrow> \<not> prefix (drop k t) r"
  shows "\<not> ws_lit t (y @ r)"
proof
  assume "ws_lit t (y @ r)"
  then obtain i where i: "list_all py_isspace (take i (y @ r))" "prefix t (drop i (y @ r))"
    by (auto simp: ws_lit_iff)
  have "i < length y"
  proof (rule ccontr)
    assume "\<not> i < length y"
    then have "last y \<in> set (take i (y @ r))" using y(1) by simp
    with i(1) y(3) show False by (simp add: list_all_iff)
  qed
  let ?y = "drop i y"
  have y': "?y \<noteq> []" "(58::uchar) \<notin> set ?y" using \<open>i < length y\<close> y(2) by (auto dest: in_set_dropD)
  have p: "prefix (t0 @ [58]) (?y @ r)" using i(2) \<open>i < length y\<close> t(1) by simp
  have t0: "t0 = ?y @ takeWhile (\<lambda>c. c \<noteq> (58::uchar)) r"
    using t(2) y'(2) p by (rule colon_prefix_split)
  from p have "prefix (t0 @ [58]) ?y \<or> (\<exists>us. t0 @ [58] = ?y @ us \<and> prefix us r)"
    by (simp add: prefix_append)
  moreover have "\<not> prefix (t0 @ [58]) ?y" using y'(2) by (auto simp: prefix_def)
  ultimately obtain us where us: "t0 @ [58] = ?y @ us" "prefix us r" by blast
  then have "us = drop (length ?y) t" using t(1) by simp
  moreover have "0 < length ?y" "length ?y < length t" using y'(1) t0 t(1) by simp_all
  ultimately show False using guard us(2) by blast
qed

lemma lazy_dot_append:
  assumes "x \<noteq> []" "NL \<notin> set x" "stop_at stops r"
    and "\<forall>j. 0 < j \<longrightarrow> j < length x \<longrightarrow> \<not> stop_at stops (drop j x @ r)"
  shows "lazy_dot stops acc (x @ r) = Some (rev acc @ x)"
  using assms
proof (induction x arbitrary: acc)
  case Nil then show ?case by simp
next
  case (Cons c x)
  show ?case
  proof (cases "x = []")
    case True with Cons.prems show ?thesis by simp
  next
    case False
    have "\<not> stop_at stops (x @ r)" using Cons.prems(4) [rule_format, of 1] False by simp
    moreover have "lazy_dot stops (c # acc) (x @ r) = Some (rev (c # acc) @ x)"
    proof (rule Cons.IH)
      show "\<forall>j. 0 < j \<longrightarrow> j < length x \<longrightarrow> \<not> stop_at stops (drop j x @ r)"
      proof (intro allI impI)
        fix j assume "0 < j" "j < length x"
        then show "\<not> stop_at stops (drop j x @ r)" using Cons.prems(4) [rule_format, of "Suc j"] by simp
      qed
    qed (use False Cons.prems in auto)
    ultimately show ?thesis using Cons.prems(2) by simp
  qed
qed

lemma match_at_label:
  assumes "x \<noteq> []" "\<not> py_isspace (hd x)" "NL \<notin> set x" "stop_at stops r"
    and "\<forall>j. 0 < j \<longrightarrow> j < length x \<longrightarrow> \<not> stop_at stops (drop j x @ r)"
  shows "match_at pat stops (pat @ SP # x @ r) = Some x"
proof -
  have "takeWhile py_isspace (SP # x @ r) = [SP]"
    using assms(1,2) by (cases x) (simp_all add: py_isspace_def)
  moreover have "lazy_dot stops [] (x @ r) = Some x"
    using lazy_dot_append [OF assms(1,3,4,5), of "[]"] by simp
  ultimately show ?thesis by (simp add: match_at_def)
qed

lemma re_search_found: "match_at pat stops s = Some g \<Longrightarrow> re_search pat stops s = Some g"
  by (cases s) simp_all

lemma re_search_skip:
  "\<forall>i<length xs. \<not> prefix pat (drop i xs @ ys) \<Longrightarrow> re_search pat stops (xs @ ys) = re_search pat stops ys"
proof (induction xs)
  case Nil then show ?case by simp
next
  case (Cons x xs)
  have "\<not> prefix pat (x # xs @ ys)" using Cons.prems [rule_format, of 0] by simp
  then have "match_at pat stops (x # xs @ ys) = None" by (simp add: match_at_def)
  moreover have "re_search pat stops (xs @ ys) = re_search pat stops ys"
    using Cons.prems by (intro Cons.IH) (metis Suc_mono drop_Suc_Cons length_Cons)
  ultimately show ?case by simp
qed

lemma replace_acc_skip:
  "\<forall>i<length xs. \<not> prefix old (drop i xs @ ys) \<Longrightarrow> replace_acc old new (xs @ ys) = xs @ replace_acc old new ys"
proof (induction xs)
  case Nil then show ?case by simp
next
  case (Cons x xs)
  have "\<not> prefix old (x # xs @ ys)" using Cons.prems [rule_format, of 0] by simp
  moreover have "replace_acc old new (xs @ ys) = xs @ replace_acc old new ys"
    using Cons.prems by (intro Cons.IH) (metis Suc_mono drop_Suc_Cons length_Cons)
  ultimately show ?case by simp
qed

lemma colon_free_skip:
  assumes "(58::uchar) \<notin> set t0" "(58::uchar) \<notin> set y"
    and "(58::uchar) \<notin> set zs \<or> \<not> suffix (takeWhile (\<lambda>c. c \<noteq> (58::uchar)) zs) t0 \<or> prefix (t0 @ [58::uchar]) zs"
  shows "\<forall>i<length y. \<not> prefix (t0 @ [58::uchar]) (drop i y @ zs)"
proof (intro allI impI)
  fix i assume "i < length y"
  then have "drop i y \<noteq> []" "(58::uchar) \<notin> set (drop i y)" using assms(2) by (auto dest: in_set_dropD)
  then show "\<not> prefix (t0 @ [58::uchar]) (drop i y @ zs)"
    using assms(1,3) colon_label_no_occ by blast
qed
lemma colon_labelD: "colon_label t \<Longrightarrow> t = butlast t @ [58] \<and> (58::uchar) \<notin> set (butlast t)"
  by (metis append_butlast_last_id colon_label_def)

lemma no_stop_inside_hd:
  assumes "r = [] \<or> hd r \<notin> set t" shows "no_stop_inside t r"
  unfolding no_stop_inside_def list_all_iff
proof
  fix k assume "k \<in> set [1..<length t]"
  then have "drop k t \<noteq> []" by simp
  then obtain a zs where d: "drop k t = a # zs" by (cases "drop k t") auto
  then have "a \<in> set t" by (metis in_set_dropD list.set_intros(1))
  with assms d show "\<not> prefix (drop k t) r" by (cases r) auto
qed

lemma inner_no_stop:
  assumes x: "NL \<notin> set x" "(58::uchar) \<notin> set x" "\<not> py_isspace (last x)"
    and stops: "\<forall>t\<in>set stops. colon_label t \<and> no_stop_inside t r"
  shows "\<forall>j. 0 < j \<longrightarrow> j < length x \<longrightarrow> \<not> stop_at stops (drop j x @ r)"
proof (intro allI impI)
  fix j assume j: "0 < j" "j < length x"
  let ?y = "drop j x"
  have y: "?y \<noteq> []" "(58::uchar) \<notin> set ?y" "\<not> py_isspace (last ?y)" "NL \<notin> set ?y"
    using j x by (auto dest: in_set_dropD)
  have "\<not> ws_lit t (?y @ r)" if "t \<in> set stops" for t
  proof -
    have "colon_label t" "no_stop_inside t r" using stops that by auto
    then show ?thesis
      using ws_lit_inner [OF y(1-3), of t "butlast t" r] colon_labelD [of t]
      by (auto simp: no_stop_inside_def list_all_iff)
  qed
  moreover have "hd ?y \<noteq> NL" using y(1,4) by (metis hd_in_set)
  ultimately show "\<not> stop_at stops (?y @ r)"
    using y(1) by (cases ?y) (auto simp: stop_at_def list_ex_iff)
qed

lemma match_at_tidy:
  assumes "tidy db x" "x \<noteq> []" "stop_at stops r"
    and "\<forall>t\<in>set stops. colon_label t \<and> no_stop_inside t r"
  shows "match_at pat stops (pat @ SP # x @ r) = Some x"
proof (rule match_at_label)
  show "\<not> py_isspace (hd x)" using tidy_edges [OF assms(1,2)] by simp
  show "\<forall>j. 0 < j \<longrightarrow> j < length x \<longrightarrow> \<not> stop_at stops (drop j x @ r)"
    using inner_no_stop tidy_no_NL tidy_no_colon tidy_edges assms by blast
qed (use assms tidy_no_NL in auto)


lemma occ_free_Cons:
  "(\<forall>i<length (x # xs). \<not> prefix p (drop i (x # xs) @ zs)) \<longleftrightarrow>
   \<not> prefix p (x # xs @ zs) \<and> (\<forall>i<length xs. \<not> prefix p (drop i xs @ zs))"
  by (auto simp: less_Suc_eq_0_disj)

lemma occ_free_Nil: "\<forall>i<length []. \<not> prefix p (drop i [] @ zs)"
  by simp

lemma occ_free_append:
  assumes "\<forall>i<length xs. \<not> prefix p (drop i xs @ ys @ zs)"
    and "\<forall>i<length ys. \<not> prefix p (drop i ys @ zs)"
  shows "\<forall>i<length (xs @ ys). \<not> prefix p (drop i (xs @ ys) @ zs)"
proof (intro allI impI)
  fix i assume i: "i < length (xs @ ys)"
  show "\<not> prefix p (drop i (xs @ ys) @ zs)"
  proof (cases "i < length xs")
    case True with assms(1) show ?thesis by simp
  next
    case False
    with i assms(2) [rule_format, of "i - length xs"] show ?thesis by simp
  qed
qed

lemma takeWhile_hd_not_suffix:
  "zs \<noteq> [] \<Longrightarrow> hd zs \<notin> set t0 \<Longrightarrow> hd zs \<noteq> 58 \<Longrightarrow>
   \<not> suffix (takeWhile (\<lambda>c. c \<noteq> (58::uchar)) zs) t0"
  by (cases zs) (auto dest: set_mono_suffix)

lemma ws_lit_prefix: "prefix t s \<Longrightarrow> ws_lit t s"
  by (cases s) auto

lemma stop_at_NL: "stop_at stops (NL # r)"
  by (simp add: stop_at_def)

lemma stop_at_Nil: "stop_at stops []"
  by (simp add: stop_at_def)

lemma re_search_no_occ: "\<not> sublist pat s \<Longrightarrow> re_search pat stops s = None"
proof (induction s)
  case Nil
  then have "\<not> prefix pat []" by auto
  then show ?case by (simp add: match_at_def)
next
  case (Cons c s)
  then have "\<not> prefix pat (c # s)" "\<not> sublist pat s"
    by (auto simp: sublist_Cons_right)
  with Cons.IH show ?case by (simp add: match_at_def)
qed

lemma lazy_dot_space_tidy:
  assumes "tidy db b" "b \<noteq> []" "\<forall>t\<in>set stops. colon_label t"
  shows "lazy_dot stops acc (SP # b) = Some (rev acc @ SP # b) \<and> \<not> stop_at stops (SP # b)"
proof -
  have st: "\<forall>t\<in>set stops. colon_label t \<and> no_stop_inside t []"
    using assms(3) no_stop_inside_hd by auto
  have b: "NL \<notin> set b" "(58::uchar) \<notin> set b" "\<not> py_isspace (last b)"
    using tidy_no_NL tidy_no_colon tidy_edges assms(1,2) by auto
  have "NL \<notin> set (65 # SP # b)" "(58::uchar) \<notin> set (65 # SP # b)" "\<not> py_isspace (last (65 # SP # b))"
    using b assms(2) by auto
  from inner_no_stop [OF this st] have in2: "\<forall>j. 0 < j \<longrightarrow> j < length (SP # b) \<longrightarrow> \<not> stop_at stops (drop j (SP # b) @ [])"
    and n1: "\<not> stop_at stops (SP # b)"
    using assms(2) by (auto dest: spec [of _ "Suc _"] spec [of _ 1])
  have "lazy_dot stops acc ((SP # b) @ []) = Some (rev acc @ SP # b)"
    using b by (intro lazy_dot_append in2 stop_at_Nil) auto
  with n1 show ?thesis by simp
qed

end
