(* ===== verification/Extract.thy ===== *)
theory Extract
  imports Regex
begin

text \<open>
  The dish-field extractor \<open>extract_dish_name\<close> (src/app/main.py, lines 442--494; the
  copy in src/app/cloud_app.py, lines 286--334, is the same code).  It reads the
  language model's free text in two passes: three \<open>re.search\<close> calls on the text with
  \<open>MAIN_DISH:\<close> normalised, then, only when no main dish was found, a line scan for
  markdown labels; every non-empty field is cleaned at the end.

  The three regular expressions are the search \<open>re_search\<close> of theory Regex.
\<close>

record dishes =
  main :: ustr
  drink :: ustr
  snack :: ustr

definition no_dishes :: dishes where
  "no_dishes = \<lparr>main = [], drink = [], snack = []\<rparr>"

subsection \<open>The primary pass\<close>

definition main_lbl :: ustr where "main_lbl = u ''MAIN DISH:''"
definition drink_lbl :: ustr where "drink_lbl = u ''DRINK:''"
definition snack_lbl :: ustr where "snack_lbl = u ''SNACK:''"

definition primary_pass :: "ustr \<Rightarrow> dishes" where
  "primary_pass response =
     (let normalized = py_replace (u ''MAIN_DISH:'') main_lbl response;
          main_match = re_search main_lbl [drink_lbl, snack_lbl] normalized;
          drink_match = re_search drink_lbl [snack_lbl, main_lbl] normalized;
          snack_match = re_search snack_lbl [main_lbl, drink_lbl] normalized
      in \<lparr>main = (case main_match of None \<Rightarrow> [] | Some g \<Rightarrow> py_strip g),
          drink = (case drink_match of None \<Rightarrow> [] | Some g \<Rightarrow> py_strip g),
          snack = (case snack_match of None \<Rightarrow> [] | Some g \<Rightarrow> py_strip g)\<rparr>)"

subsection \<open>The markdown fallback\<close>

text \<open>The separators, in the order they are tried; the second is an en dash (U+2013).\<close>

definition fallback_seps :: "ustr list" where
  "fallback_seps = [u '' - '', [32, 8211, 32], u ''. '', u '', a '', u '', this '', u '', an '']"

fun cut_at_sep :: "ustr list \<Rightarrow> ustr \<Rightarrow> ustr" where
  "cut_at_sep [] raw = raw"
| "cut_at_sep (sep # seps) raw =
     (if sublist sep raw then py_strip (hd (py_split sep raw)) else cut_at_sep seps raw)"

definition label_value :: "ustr \<Rightarrow> ustr" where
  "label_value line =
     cut_at_sep fallback_seps
       (py_strip (py_strip_chars (u ''*'') (py_strip (last (py_split (u '':'') line)))))"

definition fallback_line :: "dishes \<Rightarrow> ustr \<Rightarrow> dishes" where
  "fallback_line d line0 =
     (let line = py_strip line0 in
      if sublist (u ''Main Dish'') line \<and> sublist (u '':'') line
        then d\<lparr>main := label_value line\<rparr>
      else if sublist (u ''Drink'') line \<and> sublist (u '':'') line \<and> drink d = []
        then d\<lparr>drink := label_value line\<rparr>
      else if sublist (u ''Snack'') line \<and> sublist (u '':'') line \<and> snack d = []
        then d\<lparr>snack := label_value line\<rparr>
      else d)"

definition fallback_pass :: "ustr \<Rightarrow> dishes \<Rightarrow> dishes" where
  "fallback_pass response d =
     (if main d = [] then fold (\<lambda>line d. fallback_line d line) (py_split [NL] response) d else d)"

subsection \<open>Cleaning and the whole extractor\<close>

definition clean_field :: "unicode_db \<Rightarrow> ustr \<Rightarrow> ustr" where
  "clean_field db x =
     (if x = [] then x else py_strip (collapse_ws (py_strip (keep_chars db x))))"

definition post_clean :: "unicode_db \<Rightarrow> dishes \<Rightarrow> dishes" where
  "post_clean db d =
     \<lparr>main = clean_field db (main d), drink = clean_field db (drink d),
      snack = clean_field db (snack d)\<rparr>"

definition extract_dish_name :: "unicode_db \<Rightarrow> ustr \<Rightarrow> dishes" where
  "extract_dish_name db response = post_clean db (fallback_pass response (primary_pass response))"

text \<open>The markdown label of the fallback, with its colon and a space.\<close>

abbreviation md_main :: ustr where "md_main \<equiv> u ''**Main Dish**: ''"

subsection \<open>The labels\<close>

lemma colon_label_lbls: "colon_label main_lbl" "colon_label drink_lbl" "colon_label snack_lbl"
  "colon_label (u ''MAIN_DISH:'')"
  by (simp_all add: colon_label_def main_lbl_def drink_lbl_def snack_lbl_def u_def)

lemma lbl_sp: "u ''MAIN DISH: '' = main_lbl @ [SP]" "u ''DRINK: '' = drink_lbl @ [SP]"
  "u ''SNACK: '' = snack_lbl @ [SP]"
  by (simp_all add: u_def main_lbl_def drink_lbl_def snack_lbl_def)

lemma old_lbl: "u ''MAIN_DISH:'' = u ''MAIN_DISH'' @ [58]" "(58::uchar) \<notin> set (u ''MAIN_DISH'')"
  by (simp_all add: u_def)

lemma rest_replace:
  assumes "rest = [] \<or> hd rest = NL"
  shows "replace_acc (u ''MAIN_DISH:'') new rest = [] \<or> hd (replace_acc (u ''MAIN_DISH:'') new rest) = NL"
  using assms by (cases rest) (auto simp: u_def)

lemma lbl_chars: "main_lbl = [77, 65, 73, 78, 32, 68, 73, 83, 72, 58]"
  "drink_lbl = [68, 82, 73, 78, 75, 58]" "snack_lbl = [83, 78, 65, 67, 75, 58]"
  by (simp_all add: main_lbl_def drink_lbl_def snack_lbl_def u_def)

lemma clean_field_tidy_id: "tidy db x \<Longrightarrow> clean_field db x = x"
  by (simp add: clean_field_def tidy_def keep_chars_id)

subsection \<open>The three label lines\<close>

lemma fields_occ_free:
  assumes a: "tidy db a" and b: "tidy db b" and c: "tidy db c" and sep: "sep = NL \<or> sep = SP"
    and rest: "rest = [] \<or> hd rest = NL"
  shows "\<forall>i<length ((SP # a @ [sep]) @ drink_lbl @ (SP # b @ [sep]) @ snack_lbl @ (SP # c)).
     \<not> prefix (u ''MAIN_DISH:'') (drop i ((SP # a @ [sep]) @ drink_lbl @ (SP # b @ [sep]) @ snack_lbl @ (SP # c)) @ rest)"
proof -
  let ?t0 = "u ''MAIN_DISH''"
  have cf: "(58::uchar) \<notin> set (SP # x @ [sep])" if "tidy db x" for x
    using tidy_no_colon [OF that] sep by auto
  have o6: "\<forall>i<length (SP # c). \<not> prefix (u ''MAIN_DISH:'') (drop i (SP # c) @ rest)"
  proof -
    have "(58::uchar) \<notin> set rest \<or> \<not> suffix (takeWhile (\<lambda>c. c \<noteq> (58::uchar)) rest) ?t0"
    proof (cases "rest = []")
      case False
      with rest have "hd rest = NL" by simp
      with False show ?thesis using takeWhile_hd_not_suffix [of rest ?t0] by (simp add: u_def)
    qed simp
    then have d: "(58::uchar) \<notin> set rest \<or> \<not> suffix (takeWhile (\<lambda>c. c \<noteq> (58::uchar)) rest) ?t0
        \<or> prefix (?t0 @ [58]) rest" by blast
    have "(58::uchar) \<notin> set (SP # c)" using tidy_no_colon [OF c] by simp
    from colon_free_skip [OF old_lbl(2) this d] show ?thesis by (simp only: old_lbl(1))
  qed
  have o5: "\<forall>i<length snack_lbl. \<not> prefix (u ''MAIN_DISH:'') (drop i snack_lbl @ (SP # c) @ rest)"
    unfolding lbl_chars by (simp only: occ_free_Cons occ_free_Nil) (simp add: u_def)
  have o4: "\<forall>i<length (SP # b @ [sep]). \<not> prefix (u ''MAIN_DISH:'') (drop i (SP # b @ [sep]) @ (snack_lbl @ SP # c) @ rest)"
    using colon_free_skip [OF old_lbl(2) cf [OF b], of "(snack_lbl @ SP # c) @ rest"]
    by (simp add: old_lbl(1) lbl_chars suffix_to_prefix u_def)
  have o3: "\<forall>i<length drink_lbl. \<not> prefix (u ''MAIN_DISH:'') (drop i drink_lbl @ ((SP # b @ [sep]) @ snack_lbl @ SP # c) @ rest)"
    unfolding lbl_chars by (simp only: occ_free_Cons occ_free_Nil) (simp add: u_def)
  have o2: "\<forall>i<length (SP # a @ [sep]). \<not> prefix (u ''MAIN_DISH:'') (drop i (SP # a @ [sep]) @ (drink_lbl @ (SP # b @ [sep]) @ snack_lbl @ SP # c) @ rest)"
    using colon_free_skip [OF old_lbl(2) cf [OF a], of "(drink_lbl @ (SP # b @ [sep]) @ snack_lbl @ SP # c) @ rest"]
    by (simp add: old_lbl(1) lbl_chars suffix_to_prefix u_def)
  show ?thesis
    by (intro occ_free_append o2 o3 o4 o5 o6)
qed

text \<open>The text after the main label; \<open>lbl\<close> is \<open>MAIN DISH:\<close> or \<open>MAIN_DISH:\<close>.\<close>

lemma normalize_fields:
  assumes a: "tidy db a" and b: "tidy db b" and c: "tidy db c" and sep: "sep = NL \<or> sep = SP"
    and rest: "rest = [] \<or> hd rest = NL" and lbl: "lbl = main_lbl \<or> lbl = u ''MAIN_DISH:''"
  shows "py_replace (u ''MAIN_DISH:'') main_lbl (lbl @ SP # a @ sep # drink_lbl @ SP # b @ sep # snack_lbl @ SP # c @ rest)
    = main_lbl @ SP # a @ sep # drink_lbl @ SP # b @ sep # snack_lbl @ SP # c @ replace_acc (u ''MAIN_DISH:'') main_lbl rest"
proof -
  let ?X = "(SP # a @ [sep]) @ drink_lbl @ (SP # b @ [sep]) @ snack_lbl @ (SP # c)"
  have x: "replace_acc (u ''MAIN_DISH:'') main_lbl (?X @ rest) = ?X @ replace_acc (u ''MAIN_DISH:'') main_lbl rest"
    by (rule replace_acc_skip [OF fields_occ_free [OF a b c sep rest]])
  have "replace_acc (u ''MAIN_DISH:'') main_lbl (lbl @ ?X @ rest) = main_lbl @ replace_acc (u ''MAIN_DISH:'') main_lbl (?X @ rest)"
    using lbl by (auto simp: lbl_chars u_def)
  with x show ?thesis by (simp add: py_replace_def u_def)
qed
lemma stop_at_sep_lbl:
  "sep = NL \<or> sep = SP \<Longrightarrow> list_ex (\<lambda>l. prefix l (t @ r)) stops \<Longrightarrow> stop_at stops (sep # t @ r)"
  by (auto simp: stop_at_def list_ex_iff py_isspace_def intro: ws_lit_prefix)

lemma no_stop_inside_main_sep:
  "sep = NL \<or> sep = SP \<Longrightarrow> no_stop_inside main_lbl (sep # snack_lbl @ r)"
  by (auto simp: no_stop_inside_def lbl_chars upt_rec)

lemma no_stop_inside_sep:
  "sep = NL \<or> sep = SP \<Longrightarrow> no_stop_inside drink_lbl (sep # r) \<and> no_stop_inside snack_lbl (sep # r)"
  by (intro conjI no_stop_inside_hd) (auto simp: lbl_chars)

lemma extract_fields:
  assumes a: "tidy db a" "a \<noteq> []" and b: "tidy db b" "b \<noteq> []" and c: "tidy db c" "c \<noteq> []"
    and sep: "sep = NL \<or> sep = SP" and rest: "rest = [] \<or> hd rest = NL"
    and lbl: "lbl = main_lbl \<or> lbl = u ''MAIN_DISH:''"
  shows "extract_dish_name db (lbl @ SP # a @ sep # drink_lbl @ SP # b @ sep # snack_lbl @ SP # c @ rest)
         = \<lparr>main = a, drink = b, snack = c\<rparr>"
proof -
  define r' where "r' = replace_acc (u ''MAIN_DISH:'') main_lbl rest"
  have r': "r' = [] \<or> hd r' = NL" using rest_replace [OF rest] by (simp add: r'_def)
  let ?R2 = "sep # snack_lbl @ SP # c @ r'"
  let ?R1 = "sep # drink_lbl @ SP # b @ ?R2"
  let ?N = "main_lbl @ SP # a @ ?R1"
  have norm: "py_replace (u ''MAIN_DISH:'') main_lbl (lbl @ SP # a @ sep # drink_lbl @ SP # b @ sep # snack_lbl @ SP # c @ rest) = ?N"
    using normalize_fields [OF a(1) b(1) c(1) sep rest lbl] by (simp add: r'_def)
  have cf: "(58::uchar) \<notin> set (SP # x @ [sep])" if "tidy db x" for x
    using tidy_no_colon [OF that] sep by auto
  have ns: "no_stop_inside drink_lbl ?R1" "no_stop_inside snack_lbl ?R1" "no_stop_inside snack_lbl ?R2"
    using no_stop_inside_sep [OF sep] by simp_all
  have m: "re_search main_lbl [drink_lbl, snack_lbl] ?N = Some a"
  proof (rule re_search_found, rule match_at_tidy [OF a])
    show "stop_at [drink_lbl, snack_lbl] ?R1" by (rule stop_at_sep_lbl [OF sep]) simp
    show "\<forall>t\<in>set [drink_lbl, snack_lbl]. colon_label t \<and> no_stop_inside t ?R1"
      using ns colon_label_lbls by simp
  qed
  have d: "re_search drink_lbl [snack_lbl, main_lbl] ?N = Some b"
  proof -
    have "re_search drink_lbl [snack_lbl, main_lbl] ((main_lbl @ (SP # a @ [sep])) @ drink_lbl @ SP # b @ ?R2)
        = re_search drink_lbl [snack_lbl, main_lbl] (drink_lbl @ SP # b @ ?R2)"
    proof (rule re_search_skip, rule occ_free_append)
      show "\<forall>i<length main_lbl. \<not> prefix drink_lbl (drop i main_lbl @ (SP # a @ [sep]) @ drink_lbl @ SP # b @ ?R2)"
        unfolding lbl_chars by (simp only: occ_free_Cons occ_free_Nil) simp
      from colon_free_skip [OF _ cf [OF a(1)], of "u ''DRINK''" "drink_lbl @ SP # b @ ?R2"]
      show "\<forall>i<length (SP # a @ [sep]). \<not> prefix drink_lbl (drop i (SP # a @ [sep]) @ drink_lbl @ SP # b @ ?R2)"
        by (simp add: lbl_chars u_def)
    qed
    moreover have "match_at drink_lbl [snack_lbl, main_lbl] (drink_lbl @ SP # b @ ?R2) = Some b"
    proof (rule match_at_tidy [OF b])
      show "stop_at [snack_lbl, main_lbl] ?R2" by (rule stop_at_sep_lbl [OF sep]) simp
      show "\<forall>t\<in>set [snack_lbl, main_lbl]. colon_label t \<and> no_stop_inside t ?R2"
        using ns(3) no_stop_inside_main_sep [OF sep] colon_label_lbls by simp
    qed
    ultimately show ?thesis by (simp add: re_search_found)
  qed
  have s: "re_search snack_lbl [main_lbl, drink_lbl] ?N = Some c"
  proof -
    have "re_search snack_lbl [main_lbl, drink_lbl]
          ((main_lbl @ (SP # a @ [sep]) @ drink_lbl @ (SP # b @ [sep])) @ snack_lbl @ SP # c @ r')
        = re_search snack_lbl [main_lbl, drink_lbl] (snack_lbl @ SP # c @ r')"
    proof (rule re_search_skip, intro occ_free_append)
      show "\<forall>i<length main_lbl. \<not> prefix snack_lbl (drop i main_lbl @ ((SP # a @ [sep]) @ drink_lbl @ (SP # b @ [sep])) @ snack_lbl @ SP # c @ r')"
        unfolding lbl_chars by (simp only: occ_free_Cons occ_free_Nil) simp
      show "\<forall>i<length drink_lbl. \<not> prefix snack_lbl (drop i drink_lbl @ (SP # b @ [sep]) @ snack_lbl @ SP # c @ r')"
        unfolding lbl_chars by (simp only: occ_free_Cons occ_free_Nil) simp
      from colon_free_skip [OF _ cf [OF a(1)], of "u ''SNACK''" "(drink_lbl @ (SP # b @ [sep])) @ snack_lbl @ SP # c @ r'"]
      show "\<forall>i<length (SP # a @ [sep]). \<not> prefix snack_lbl (drop i (SP # a @ [sep]) @ (drink_lbl @ (SP # b @ [sep])) @ snack_lbl @ SP # c @ r')"
        by (simp add: lbl_chars u_def suffix_to_prefix)
      from colon_free_skip [OF _ cf [OF b(1)], of "u ''SNACK''" "snack_lbl @ SP # c @ r'"]
      show "\<forall>i<length (SP # b @ [sep]). \<not> prefix snack_lbl (drop i (SP # b @ [sep]) @ snack_lbl @ SP # c @ r')"
        by (simp add: lbl_chars u_def)
    qed
    moreover have "match_at snack_lbl [main_lbl, drink_lbl] (snack_lbl @ SP # c @ r') = Some c"
    proof (rule match_at_tidy [OF c])
      show "stop_at [main_lbl, drink_lbl] r'" using r' by (cases r') (auto simp: stop_at_def)
      show "\<forall>t\<in>set [main_lbl, drink_lbl]. colon_label t \<and> no_stop_inside t r'"
        using r' colon_label_lbls by (auto intro!: no_stop_inside_hd simp: lbl_chars)
    qed
    ultimately show ?thesis by (simp add: re_search_found)
  qed
  have "primary_pass (lbl @ SP # a @ sep # drink_lbl @ SP # b @ sep # snack_lbl @ SP # c @ rest)
      = \<lparr>main = a, drink = b, snack = c\<rparr>"
    unfolding primary_pass_def Let_def norm using m d s a b c by (simp add: tidy_def)
  then show ?thesis
    using a b c by (simp add: extract_dish_name_def fallback_pass_def post_clean_def clean_field_tidy_id)
qed

subsection \<open>The markdown fallback and the empty cases\<close>

lemma clean_field_tidy: "tidy db (clean_field db x)"
proof (cases "x = []")
  case False
  let ?y = "py_strip (keep_chars db x)"
  have "list_all (keep_char db) ?y" by (rule list_all_py_strip [OF keep_chars_all])
  moreover have "py_strip ?y = ?y" by (rule py_strip_idem)
  ultimately have "tidy db (collapse_ws ?y) \<and> py_strip (collapse_ws ?y) = collapse_ws ?y"
    by (rule tidy_collapse_ws)
  with False show ?thesis by (simp add: clean_field_def)
qed (simp add: clean_field_def)

lemma clean_field_keep:
  assumes "keep_chars db x = y" "tidy db y" "y \<noteq> []"
  shows "clean_field db x = y"
proof -
  have "x \<noteq> []" using assms(1,3) by (auto simp: keep_chars_def)
  moreover have "keep_chars db y = y" using assms(2) by (simp add: tidy_def keep_chars_id)
  ultimately show ?thesis
    using clean_field_tidy_id [OF assms(2)] assms(1,3) by (simp add: clean_field_def)
qed

lemma fallback_line_no_colon: "(58::uchar) \<notin> set line \<Longrightarrow> fallback_line d line = d"
proof -
  assume "(58::uchar) \<notin> set line"
  then have "\<not> sublist (u '':'') (py_strip line)"
    using set_py_strip [of line] by (auto simp: u_def sublist_def)
  then show ?thesis by (simp add: fallback_line_def Let_def)
qed

lemma primary_pass_none:
  assumes "\<forall>l\<in>{main_lbl, drink_lbl, snack_lbl, u ''MAIN_DISH:''}. \<not> sublist l response"
  shows "primary_pass response = no_dishes"
proof -
  have norm: "py_replace (u ''MAIN_DISH:'') main_lbl response = response"
    using assms by (simp add: py_replace_def replace_acc_no_occ u_def)
  show ?thesis using assms
    unfolding primary_pass_def Let_def norm by (simp add: no_dishes_def re_search_no_occ)
qed

lemma md_main_split: "md_main @ w = u ''**Main Dish**'' @ 58 # SP # w"
  by (simp add: u_def)

lemma md_main_sublists: "sublist (u ''Main Dish'') (md_main @ w) \<and> sublist (u '':'') (md_main @ w)"
proof -
  have "md_main @ w = u ''**'' @ u ''Main Dish'' @ (u ''**: '' @ w)"
    "md_main @ w = u ''**Main Dish**'' @ u '':'' @ (u '' '' @ w)" by (simp_all add: u_def)
  then show ?thesis by (metis sublist_appendI)
qed

lemma md_main_no_label:
  assumes "(58::uchar) \<notin> set w"
  shows "\<forall>l\<in>{main_lbl, drink_lbl, snack_lbl, u ''MAIN_DISH:''}. \<not> sublist l (md_main @ w)"
proof -
  have nl: "\<not> sublist (t0 @ [58]) (md_main @ w)"
    if "(58::uchar) \<notin> set t0" "\<not> suffix t0 (u ''**Main Dish**'')" for t0
    using single_colon_sublist [of t0 "u ''**Main Dish**''" "SP # w"] that assms
    unfolding md_main_split by (auto simp: u_def)
  have "\<not> sublist (u ''MAIN DISH'' @ [58]) (md_main @ w)" "\<not> sublist (u ''DRINK'' @ [58]) (md_main @ w)"
    "\<not> sublist (u ''SNACK'' @ [58]) (md_main @ w)" "\<not> sublist (u ''MAIN_DISH'' @ [58]) (md_main @ w)"
    by (rule nl; simp add: u_def suffix_to_prefix)+
  moreover have "main_lbl = u ''MAIN DISH'' @ [58]" "drink_lbl = u ''DRINK'' @ [58]"
    "snack_lbl = u ''SNACK'' @ [58]" "u ''MAIN_DISH:'' = u ''MAIN_DISH'' @ [58]"
    by (simp_all add: lbl_chars u_def)
  ultimately show ?thesis by simp
qed

lemma md_tail_ok:
  assumes a: "tidy db a" "a \<noteq> []"
    and z: "(z = u '' - '' @ d \<and> tidy db d \<and> d \<noteq> []) \<or> (z = [] \<and> \<not> sublist [32, 8211, 32] a)"
  shows "(58::uchar) \<notin> set z \<and> (z \<noteq> [] \<longrightarrow> \<not> py_isspace (last z) \<and> (42::uchar) \<noteq> last z)"
proof (cases "z = []")
  case False
  with z have zd: "z = u '' - '' @ d" "tidy db d" "d \<noteq> []" by auto
  then have "(58::uchar) \<notin> set d" "\<not> py_isspace (last d)" "(42::uchar) \<notin> set d"
    using tidy_no_colon tidy_edges tidy_no_punct by auto
  moreover have "last d \<noteq> 42" using last_in_set [OF zd(3)] \<open>(42::uchar) \<notin> set d\<close> by metis
  ultimately show ?thesis using zd by (simp add: u_def)
qed simp

lemma md_colon_split:
  assumes "(58::uchar) \<notin> set a" "(58::uchar) \<notin> set z"
  shows "py_split (u '':'') (md_main @ a @ z) = [u ''**Main Dish**'', SP # a @ z]"
proof -
  have "(58::uchar) \<notin> set (u ''**Main Dish**'')" "(58::uchar) \<notin> set (SP # a @ z)"
    using assms by (simp_all add: u_def)
  from py_split_char_one [OF this] show ?thesis by (simp only: md_main_split) (simp add: u_def)
qed

lemma py_strip_space_edges:
  assumes "a \<noteq> []" "\<not> py_isspace (hd a)" "\<not> py_isspace (last a)"
    "z \<noteq> [] \<longrightarrow> \<not> py_isspace (last z)"
  shows "py_strip (SP # a @ z) = a @ z"
proof -
  have "py_strip (SP # a @ z) = py_strip (a @ z)" by (rule py_strip_space_Cons) (simp add: py_isspace_def)
  also have "\<dots> = a @ z" using assms by (intro py_strip_id) (simp_all add: last_append)
  finally show ?thesis .
qed

lemma strip_star_id:
  assumes "a \<noteq> []" "(42::uchar) \<notin> set a" "z \<noteq> [] \<longrightarrow> (42::uchar) \<noteq> last z"
  shows "py_strip_chars (u ''*'') (a @ z) = a @ z"
proof (rule py_strip_chars_id)
  show "hd (a @ z) \<notin> set (u ''*'')" "last (a @ z) \<notin> set (u ''*'')"
  proof -
    have "hd a \<noteq> 42" "last a \<noteq> 42"
      using hd_in_set [OF assms(1)] last_in_set [OF assms(1)] assms(2) by metis+
    then show "hd (a @ z) \<notin> set (u ''*'')" "last (a @ z) \<notin> set (u ''*'')"
      using assms(1,3) by (simp_all add: u_def last_append)
  qed
qed (simp add: assms(1))

lemma cut_at_sep_plain:
  assumes "\<not> sublist (u '' - '') (a @ [SP])" "\<not> sublist [32, 8211, 32] a"
    "(44::uchar) \<notin> set a" "(46::uchar) \<notin> set a"
  shows "cut_at_sep fallback_seps a = a"
proof -
  have nm: "\<not> sublist s a" if "(44::uchar) \<in> set s \<or> (46::uchar) \<in> set s" for s
    using that assms(3,4) sublist_set [of s a] by blast
  have "\<not> sublist (u '' - '') a" using assms(1) by (simp add: sublist_append)
  moreover have "\<not> sublist (u ''. '') a" "\<not> sublist (u '', a '') a" "\<not> sublist (u '', this '') a"
    "\<not> sublist (u '', an '') a" by (rule nm; simp add: u_def)+
  ultimately show ?thesis using assms(2)
    by (simp only: fallback_seps_def cut_at_sep.simps if_False)
qed

lemma cut_at_sep_dash:
  assumes "\<not> sublist (u '' - '') (a @ [SP])" "\<not> py_isspace (last a)" "py_strip a = a"
  shows "cut_at_sep fallback_seps (a @ u '' - '' @ d) = a"
proof -
  have "\<forall>i<length a. \<not> prefix (u '' - '') (drop i a @ SP # u ''- '' @ d)"
    by (rule dash_occ_free [OF assms(1,2)])
  from split_acc_skip [OF this, of "[]"]
  have "split_acc (u '' - '') [] (a @ u '' - '' @ d) = a # split_acc (u '' - '') [] d"
    by (simp add: u_def)
  moreover have "sublist (u '' - '') (a @ u '' - '' @ d)" by (rule sublist_appendI)
  moreover have "u '' - '' \<noteq> []" by (simp add: u_def)
  ultimately show ?thesis using assms(3)
    by (simp only: fallback_seps_def cut_at_sep.simps if_True if_False py_split_def list.sel(1))
qed

lemma label_value_md:
  assumes a: "tidy db a" "a \<noteq> []" "\<not> sublist (u '' - '') (a @ [SP])"
    and z: "(z = u '' - '' @ d \<and> tidy db d \<and> d \<noteq> []) \<or> (z = [] \<and> \<not> sublist [32, 8211, 32] a)"
  shows "label_value (md_main @ a @ z) = a"
proof -
  have ea: "\<not> py_isspace (hd a)" "\<not> py_isspace (last a)" using tidy_edges [OF a(1,2)] by auto
  have pa: "(58::uchar) \<notin> set a" "(42::uchar) \<notin> set a" "(44::uchar) \<notin> set a" "(46::uchar) \<notin> set a"
    using a(1) tidy_no_colon tidy_no_punct by auto
  have zo: "(58::uchar) \<notin> set z" "z \<noteq> [] \<longrightarrow> \<not> py_isspace (last z)" "z \<noteq> [] \<longrightarrow> (42::uchar) \<noteq> last z"
    using md_tail_ok [OF a(1,2) z] by auto
  have raw: "py_strip (py_strip_chars (u ''*'') (py_strip (last (py_split (u '':'') (md_main @ a @ z))))) = a @ z"
    using md_colon_split [OF pa(1) zo(1)] py_strip_space_edges [OF a(2) ea zo(2)] strip_star_id [OF a(2) pa(2) zo(3)] py_strip_space_edges [OF a(2) ea zo(2)]
      py_strip_space_Cons [of SP "a @ z"] by (simp add: py_isspace_def)
  have "cut_at_sep fallback_seps (a @ z) = a"
  proof (cases "z = []")
    case True
    with z have "\<not> sublist [32, 8211, 32] a" by auto
    with True cut_at_sep_plain [OF a(3) _ pa(3,4)] show ?thesis by simp
  next
    case False
    with z cut_at_sep_dash [OF a(3) ea(2)] a(1) show ?thesis by (auto simp: tidy_def)
  qed
  with raw show ?thesis by (simp add: label_value_def)
qed

lemma fallback_line_md:
  assumes a: "tidy db a" "a \<noteq> []" "\<not> sublist (u '' - '') (a @ [SP])"
    and z: "(z = u '' - '' @ d \<and> tidy db d \<and> d \<noteq> []) \<or> (z = [] \<and> \<not> sublist [32, 8211, 32] a)"
  shows "fallback_line r (md_main @ a @ z) = r\<lparr>main := a\<rparr>"
proof -
  have "z \<noteq> [] \<longrightarrow> \<not> py_isspace (last z)" using md_tail_ok [OF a(1,2) z] by simp
  then have "py_strip (md_main @ a @ z) = md_main @ a @ z"
    using tidy_edges [OF a(1,2)] a(2) by (intro py_strip_id) (simp_all add: u_def py_isspace_def last_append)
  with md_main_sublists [of "a @ z"] label_value_md [OF a z] show ?thesis
    by (simp add: fallback_line_def)
qed

lemma no_label_lines:
  assumes "\<forall>l\<in>{main_lbl, drink_lbl, snack_lbl, u ''MAIN_DISH:''}. \<not> sublist l x"
    and "\<forall>l\<in>{main_lbl, drink_lbl, snack_lbl, u ''MAIN_DISH:''}. \<not> sublist l y"
  shows "\<forall>l\<in>{main_lbl, drink_lbl, snack_lbl, u ''MAIN_DISH:''}. \<not> sublist l (x @ NL # y)"
proof -
  have "NL \<notin> set main_lbl" "NL \<notin> set drink_lbl" "NL \<notin> set snack_lbl" "NL \<notin> set (u ''MAIN_DISH:'')"
    by (simp_all add: lbl_chars u_def)
  with assms show ?thesis by (auto dest: sublist_line_break)
qed

subsection \<open>Properties of the extractor\<close>

text \<open>
  C1. A response that starts with the three label lines the prompt asks for,
  \<open>MAIN DISH: a\<close>, \<open>DRINK: b\<close>, \<open>SNACK: c\<close>, each value non-empty and already in the
  form the cleaning produces, and goes on with anything after a line break (or ends),
  yields exactly the triple (a, b, c).
\<close>

theorem extract_labelled_lines:
  assumes "tidy db a" "a \<noteq> []" "tidy db b" "b \<noteq> []" "tidy db c" "c \<noteq> []"
    and "rest = [] \<or> hd rest = NL"
  shows "extract_dish_name db
           (u ''MAIN DISH: '' @ a @ NL # u ''DRINK: '' @ b @ NL # u ''SNACK: '' @ c @ rest)
         = \<lparr>main = a, drink = b, snack = c\<rparr>"
  using extract_fields [of db a b c NL rest main_lbl] assms by (simp add: lbl_sp)

theorem extract_labelled_lines_witness:
  "tidy ascii_db (u ''Spaghetti Carbonara'') \<and> tidy ascii_db (u ''Chianti'') \<and>
   tidy ascii_db (u ''Garlic Bread'') \<and>
   extract_dish_name ascii_db (u ''MAIN DISH: '' @ u ''Spaghetti Carbonara'' @ NL # u ''DRINK: '' @
     u ''Chianti'' @ NL # u ''SNACK: '' @ u ''Garlic Bread'' @ NL # u ''Enjoy!'')
   = \<lparr>main = u ''Spaghetti Carbonara'', drink = u ''Chianti'', snack = u ''Garlic Bread''\<rparr>"
proof -
  have t: "tidy ascii_db (u ''Spaghetti Carbonara'')" "tidy ascii_db (u ''Chianti'')"
    "tidy ascii_db (u ''Garlic Bread'')"
    by (simp_all add: tidy_def u_def keep_char_def is_word_def ascii_alnum_def py_isspace_def py_strip_def)
  have n: "u ''Spaghetti Carbonara'' \<noteq> []" "u ''Chianti'' \<noteq> []" "u ''Garlic Bread'' \<noteq> []"
    by (simp_all add: u_def)
  show ?thesis
    using t extract_labelled_lines [OF t(1) n(1) t(2) n(2) t(3) n(3), of "NL # u ''Enjoy!''"] by simp
qed

text \<open>
  C2. The three labels on one line, \<open>MAIN DISH: a DRINK: b SNACK: c\<close>, split at the
  label boundaries: the values are again exactly (a, b, c).
\<close>

theorem extract_single_line:
  assumes "tidy db a" "a \<noteq> []" "tidy db b" "b \<noteq> []" "tidy db c" "c \<noteq> []"
    and "rest = [] \<or> hd rest = NL"
  shows "extract_dish_name db
           (u ''MAIN DISH: '' @ a @ SP # u ''DRINK: '' @ b @ SP # u ''SNACK: '' @ c @ rest)
         = \<lparr>main = a, drink = b, snack = c\<rparr>"
  using extract_fields [of db a b c SP rest main_lbl] assms by (simp add: lbl_sp)

theorem extract_single_line_witness:
  "tidy ascii_db (u ''Kung Pao Chicken'') \<and> tidy ascii_db (u ''Lychee Tea'') \<and>
   tidy ascii_db (u ''Edamame'') \<and>
   extract_dish_name ascii_db (u ''MAIN DISH: '' @ u ''Kung Pao Chicken'' @ SP # u ''DRINK: '' @
     u ''Lychee Tea'' @ SP # u ''SNACK: '' @ u ''Edamame'' @ [])
   = \<lparr>main = u ''Kung Pao Chicken'', drink = u ''Lychee Tea'', snack = u ''Edamame''\<rparr>"
proof -
  have t: "tidy ascii_db (u ''Kung Pao Chicken'')" "tidy ascii_db (u ''Lychee Tea'')"
    "tidy ascii_db (u ''Edamame'')"
    by (simp_all add: tidy_def u_def keep_char_def is_word_def ascii_alnum_def py_isspace_def py_strip_def)
  have n: "u ''Kung Pao Chicken'' \<noteq> []" "u ''Lychee Tea'' \<noteq> []" "u ''Edamame'' \<noteq> []"
    by (simp_all add: u_def)
  show ?thesis
    using t extract_single_line [OF t(1) n(1) t(2) n(2) t(3) n(3), of "[]"] by simp
qed

text \<open>
  The label variant \<open>MAIN_DISH:\<close> is treated exactly as \<open>MAIN DISH:\<close>: for label
  lines separated by line breaks or spaces, both spellings give the same triple, the
  values themselves.
\<close>

theorem extract_main_dish_underscore:
  assumes "tidy db a" "a \<noteq> []" "tidy db b" "b \<noteq> []" "tidy db c" "c \<noteq> []"
    and "sep = NL \<or> sep = SP" and "rest = [] \<or> hd rest = NL"
  shows "extract_dish_name db
           (u ''MAIN_DISH: '' @ a @ sep # u ''DRINK: '' @ b @ sep # u ''SNACK: '' @ c @ rest)
       = extract_dish_name db
           (u ''MAIN DISH: '' @ a @ sep # u ''DRINK: '' @ b @ sep # u ''SNACK: '' @ c @ rest)
     \<and> extract_dish_name db
           (u ''MAIN_DISH: '' @ a @ sep # u ''DRINK: '' @ b @ sep # u ''SNACK: '' @ c @ rest)
       = \<lparr>main = a, drink = b, snack = c\<rparr>"
proof -
  have "u ''MAIN_DISH: '' = u ''MAIN_DISH:'' @ [SP]" by (simp add: u_def)
  then show ?thesis
    using extract_fields [OF assms, of main_lbl] extract_fields [OF assms, of "u ''MAIN_DISH:''"]
    by (simp add: lbl_sp)
qed

theorem extract_main_dish_underscore_witness:
  "tidy ascii_db (u ''Tacos'') \<and> tidy ascii_db (u ''Horchata'') \<and> tidy ascii_db (u ''Churros'') \<and>
   extract_dish_name ascii_db (u ''MAIN_DISH: '' @ u ''Tacos'' @ NL # u ''DRINK: '' @ u ''Horchata'' @
     NL # u ''SNACK: '' @ u ''Churros'' @ [])
   = extract_dish_name ascii_db (u ''MAIN DISH: '' @ u ''Tacos'' @ NL # u ''DRINK: '' @ u ''Horchata'' @
     NL # u ''SNACK: '' @ u ''Churros'' @ []) \<and>
   extract_dish_name ascii_db (u ''MAIN_DISH: '' @ u ''Tacos'' @ NL # u ''DRINK: '' @ u ''Horchata'' @
     NL # u ''SNACK: '' @ u ''Churros'' @ [])
   = \<lparr>main = u ''Tacos'', drink = u ''Horchata'', snack = u ''Churros''\<rparr>"
proof -
  have t: "tidy ascii_db (u ''Tacos'')" "tidy ascii_db (u ''Horchata'')" "tidy ascii_db (u ''Churros'')"
    by (simp_all add: tidy_def u_def keep_char_def is_word_def ascii_alnum_def py_isspace_def py_strip_def)
  have n: "u ''Tacos'' \<noteq> []" "u ''Horchata'' \<noteq> []" "u ''Churros'' \<noteq> []"
    by (simp_all add: u_def)
  note e = extract_main_dish_underscore [OF t(1) n(1) t(2) n(2) t(3) n(3) disjI1 [OF refl] disjI1 [OF refl]]
  from t e show ?thesis by blast
qed

text \<open>
  C5. Whatever the response, each of the three fields the extractor returns is tidy:
  only word characters, whitespace, apostrophes and hyphens, no whitespace at either
  end, and every run of whitespace a single space.
\<close>

theorem extract_tidy:
  "tidy db (main (extract_dish_name db response)) \<and> tidy db (drink (extract_dish_name db response))
   \<and> tidy db (snack (extract_dish_name db response))"
  by (simp add: extract_dish_name_def post_clean_def clean_field_tidy)

text \<open>
  A response without any colon yields three empty fields: no label of the primary
  pass can match and no line qualifies for the fallback.
\<close>

theorem extract_no_colon:
  assumes "(58::uchar) \<notin> set response"
  shows "extract_dish_name db response = no_dishes"
proof -
  have nl: "\<not> sublist l response" if "(58::uchar) \<in> set l" for l
    using assms that sublist_set by blast
  have "\<not> sublist (u ''MAIN_DISH:'') response" by (rule nl) (simp add: u_def)
  then have norm: "py_replace (u ''MAIN_DISH:'') main_lbl response = response"
    by (simp add: py_replace_def replace_acc_no_occ u_def)
  have "re_search l stops response = None" if "(58::uchar) \<in> set l" for l stops
    using nl [OF that] by (rule re_search_no_occ)
  then have pp: "primary_pass response = no_dishes"
    unfolding primary_pass_def Let_def norm by (simp add: no_dishes_def lbl_chars)
  have lines: "(58::uchar) \<notin> set line" if "line \<in> set (py_split [NL] response)" for line
    using assms that py_split_set [of "[NL]" response] by auto
  have "fold (\<lambda>line d. fallback_line d line) ls d = d" if "\<forall>l\<in>set ls. (58::uchar) \<notin> set l" for ls d
    using that by (induction ls) (simp_all add: fallback_line_no_colon)
  with lines have "fallback_pass response no_dishes = no_dishes"
    by (simp add: fallback_pass_def no_dishes_def)
  with pp show ?thesis
    by (simp add: extract_dish_name_def post_clean_def clean_field_def no_dishes_def)
qed

theorem extract_no_colon_witness:
  "(58::uchar) \<notin> set (u ''Enjoy the movie'') \<and> extract_dish_name ascii_db (u ''Enjoy the movie'') = no_dishes"
  using extract_no_colon [of "u ''Enjoy the movie''" ascii_db] by (simp add: u_def)

text \<open>
  C9. A response that is only the markdown line \<open>**Main Dish**: a - d\<close>, with a tidy
  non-empty dish a and a tidy non-empty description d, where \<open> - \<close> does not occur in a
  followed by a space, yields main = a (the line is cut at the first separator) and
  empty drink and snack.
\<close>

theorem extract_markdown_main:
  assumes a: "tidy db a" "a \<noteq> []" "\<not> sublist (u '' - '') (a @ [SP])" and d: "tidy db d" "d \<noteq> []"
  shows "extract_dish_name db (u ''**Main Dish**: '' @ a @ u '' - '' @ d) = \<lparr>main = a, drink = [], snack = []\<rparr>"
proof -
  have "(58::uchar) \<notin> set (a @ u '' - '' @ d)" using tidy_no_colon a(1) d(1) by (auto simp: u_def)
  from primary_pass_none [OF md_main_no_label [OF this]]
  have pp: "primary_pass (md_main @ a @ u '' - '' @ d) = no_dishes" .
  have "NL \<notin> set (md_main @ a @ u '' - '' @ d)" using tidy_no_NL a(1) d(1) by (auto simp: u_def)
  then have "py_split [NL] (md_main @ a @ u '' - '' @ d) = [md_main @ a @ u '' - '' @ d]"
    by (rule py_split_char_none)
  moreover have "fallback_line no_dishes (md_main @ a @ u '' - '' @ d) = no_dishes\<lparr>main := a\<rparr>"
    using d by (intro fallback_line_md [OF a]) simp
  ultimately show ?thesis using pp clean_field_tidy_id [OF a(1)] clean_field_tidy_id [OF tidy_Nil]
    by (simp add: extract_dish_name_def fallback_pass_def post_clean_def no_dishes_def)
qed

theorem extract_markdown_main_witness:
  "extract_dish_name ascii_db (u ''**Main Dish**: Tacos - so good'') = \<lparr>main = u ''Tacos'', drink = [], snack = []\<rparr>"
proof -
  have "tidy ascii_db (u ''Tacos'') \<and> tidy ascii_db (u ''so good'')"
    by (simp add: tidy_def u_def keep_char_def is_word_def ascii_alnum_def py_isspace_def py_strip_def)
  moreover have "\<not> sublist (u '' - '') (u ''Tacos'' @ [SP])" by (simp add: u_def sublist_code)
  moreover have "u ''**Main Dish**: Tacos - so good'' = u ''**Main Dish**: '' @ u ''Tacos'' @ u '' - '' @ u ''so good''"
    by (simp add: u_def)
  ultimately show ?thesis using extract_markdown_main [of ascii_db "u ''Tacos''" "u ''so good''"]
    by (simp add: u_def)
qed

text \<open>
  C11. When the \<open>MAIN DISH:\<close> line has no value, the \<open>\s*\<close> after the label runs over
  the line break and the lazy group captures the next line: for the response
  \<open>MAIN DISH:\<close>, line break, \<open>DRINK: b\<close> the main field is \<open>DRINK b\<close> (the colon removed by
  the cleaning) while the drink field is b.
\<close>

theorem extract_empty_main_value:
  assumes b: "tidy db b" "b \<noteq> []"
  shows "extract_dish_name db (u ''MAIN DISH:'' @ NL # u ''DRINK: '' @ b)
    = \<lparr>main = u ''DRINK '' @ b, drink = b, snack = []\<rparr>"
proof -
  let ?r = "main_lbl @ NL # drink_lbl @ SP # b"
  have r: "u ''MAIN DISH:'' @ NL # u ''DRINK: '' @ b = ?r" by (simp add: lbl_sp main_lbl_def)
  have cb: "(58::uchar) \<notin> set (SP # b)" using tidy_no_colon [OF b(1)] by simp
  have nl: "\<not> sublist (t0 @ [58]) ?r"
    if "(58::uchar) \<notin> set t0" "NL \<notin> set t0" "\<not> suffix t0 (u ''DRINK'')"
       "\<not> sublist (t0 @ [58]) main_lbl" for t0
  proof -
    have eq: "drink_lbl @ SP # b = u ''DRINK'' @ 58 # SP # b" by (simp add: lbl_chars u_def)
    have "\<not> sublist (t0 @ [58]) (u ''DRINK'' @ 58 # SP # b)"
      using single_colon_sublist [of t0 "u ''DRINK''" "SP # b"] that(1,3) cb by (auto simp: u_def)
    then have "\<not> sublist (t0 @ [58]) (drink_lbl @ SP # b)" unfolding eq .
    with that(2,4) show ?thesis using sublist_line_break [of "t0 @ [58]"] by auto
  qed
  have old: "\<not> sublist (u ''MAIN_DISH:'') ?r" "\<not> sublist snack_lbl ?r"
    using nl [of "u ''MAIN_DISH''"] nl [of "u ''SNACK''"]
    by (simp_all add: lbl_chars u_def suffix_to_prefix sublist_code)
  then have norm: "py_replace (u ''MAIN_DISH:'') main_lbl ?r = ?r"
    by (simp add: py_replace_def replace_acc_no_occ u_def)
  have cl: "\<forall>t\<in>set [drink_lbl, snack_lbl]. colon_label t" "\<forall>t\<in>set [snack_lbl, main_lbl]. colon_label t"
    using colon_label_lbls by auto
  have sp1: "lazy_dot [drink_lbl, snack_lbl] acc (SP # b) = Some (rev acc @ SP # b)"
    "\<not> stop_at [drink_lbl, snack_lbl] (SP # b)" for acc
    using lazy_dot_space_tidy [OF b cl(1)] by auto
  have "lazy_dot [drink_lbl, snack_lbl] [] (drink_lbl @ SP # b) = Some (drink_lbl @ SP # b)"
    using sp1 unfolding lbl_chars by (simp add: stop_at_def py_isspace_def)
  then have m: "match_at main_lbl [drink_lbl, snack_lbl] ?r = Some (drink_lbl @ SP # b)"
    by (simp add: match_at_def lbl_chars py_isspace_def)
  have st: "\<forall>t\<in>set [snack_lbl, main_lbl]. colon_label t \<and> no_stop_inside t []"
    using cl(2) no_stop_inside_hd by auto
  have "match_at drink_lbl [snack_lbl, main_lbl] (drink_lbl @ SP # b @ []) = Some b"
    by (rule match_at_tidy [OF b stop_at_Nil st])
  moreover have "\<forall>i<length (main_lbl @ [NL]). \<not> prefix drink_lbl (drop i (main_lbl @ [NL]) @ drink_lbl @ SP # b)"
    unfolding lbl_chars append_Cons append_Nil by (simp only: occ_free_Cons occ_free_Nil) simp
  ultimately have d: "re_search drink_lbl [snack_lbl, main_lbl] ?r = Some b"
    using re_search_skip [of "main_lbl @ [NL]" drink_lbl "drink_lbl @ SP # b"] re_search_found by simp
  have "py_strip (drink_lbl @ SP # b) = drink_lbl @ SP # b"
    using tidy_edges [OF b] b(2) by (intro py_strip_id) (simp_all add: lbl_chars py_isspace_def)
  then have pp: "primary_pass ?r = \<lparr>main = drink_lbl @ SP # b, drink = b, snack = []\<rparr>"
    unfolding primary_pass_def Let_def norm re_search_found [OF m] d re_search_no_occ [OF old(2)]
    using b(1) by (simp add: tidy_def)
  have "keep_chars db (drink_lbl @ SP # b) = u ''DRINK'' @ SP # b"
    using b(1) keep_char_colon by (simp add: lbl_chars u_def keep_chars_def keep_char_def is_word_def
      ascii_alnum_def py_isspace_def tidy_def list_all_iff)
  then have "clean_field db (drink_lbl @ SP # b) = u ''DRINK'' @ SP # b"
    using tidy_word_prefix [OF b, of "u ''DRINK''"] by (intro clean_field_keep) (simp_all add: u_def ascii_alnum_def)
  then show ?thesis unfolding r using pp clean_field_tidy_id [OF b(1)] clean_field_tidy_id [OF tidy_Nil]
    by (simp add: extract_dish_name_def fallback_pass_def post_clean_def u_def)
qed

theorem extract_empty_main_value_witness:
  "extract_dish_name ascii_db (u ''MAIN DISH:'' @ NL # u ''DRINK: Chianti'')
     = \<lparr>main = u ''DRINK Chianti'', drink = u ''Chianti'', snack = []\<rparr>"
proof -
  have "tidy ascii_db (u ''Chianti'')"
    by (simp add: tidy_def u_def keep_char_def is_word_def ascii_alnum_def py_isspace_def py_strip_def)
  then show ?thesis using extract_empty_main_value [of ascii_db "u ''Chianti''"] by (simp add: u_def)
qed

text \<open>
  C12. In the fallback pass a later \<open>**Main Dish**:\<close> line overwrites an earlier one: for two
  such lines with tidy non-empty values a1 and a2, in which neither \<open> - \<close> (with the space
  after the value) nor the en-dash separator occurs, the main field is a2: the second
  line overwrites the first qualifying line.
\<close>

theorem extract_markdown_last_wins:
  assumes a1: "tidy db a1" "a1 \<noteq> []" "\<not> sublist (u '' - '') (a1 @ [SP])" "\<not> sublist [32, 8211, 32] a1"
    and a2: "tidy db a2" "a2 \<noteq> []" "\<not> sublist (u '' - '') (a2 @ [SP])" "\<not> sublist [32, 8211, 32] a2"
  shows "extract_dish_name db (u ''**Main Dish**: '' @ a1 @ NL # u ''**Main Dish**: '' @ a2)
    = \<lparr>main = a2, drink = [], snack = []\<rparr>"
proof -
  have c: "(58::uchar) \<notin> set a1" "(58::uchar) \<notin> set a2" using tidy_no_colon a1(1) a2(1) by auto
  have "primary_pass (md_main @ a1 @ NL # md_main @ a2) = no_dishes"
    using no_label_lines [OF md_main_no_label [OF c(1)] md_main_no_label [OF c(2)]]
    by (intro primary_pass_none) simp
  moreover have "NL \<notin> set (md_main @ a1)" "NL \<notin> set (md_main @ a2)"
    using tidy_no_NL a1(1) a2(1) by (auto simp: u_def)
  then have "py_split [NL] ((md_main @ a1) @ NL # md_main @ a2) = [md_main @ a1, md_main @ a2]"
    by (rule py_split_char_one)
  moreover have "fallback_line r (md_main @ a) = r\<lparr>main := a\<rparr>"
    if "tidy db a" "a \<noteq> []" "\<not> sublist (u '' - '') (a @ [SP])" "\<not> sublist [32, 8211, 32] a" for r a
    using fallback_line_md [OF that(1-3), of "[]"] that(4) by simp
  then have "fallback_line (fallback_line no_dishes (md_main @ a1)) (md_main @ a2) = no_dishes\<lparr>main := a2\<rparr>"
    using a1 a2 by simp
  ultimately show ?thesis using clean_field_tidy_id [OF a2(1)] clean_field_tidy_id [OF tidy_Nil]
    by (simp add: extract_dish_name_def fallback_pass_def post_clean_def no_dishes_def)
qed

theorem extract_markdown_last_wins_witness:
  "extract_dish_name ascii_db (u ''**Main Dish**: Tacos'' @ NL # u ''**Main Dish**: Ramen'')
     = \<lparr>main = u ''Ramen'', drink = [], snack = []\<rparr>"
proof -
  have "tidy ascii_db (u ''Tacos'') \<and> tidy ascii_db (u ''Ramen'')"
    by (simp add: tidy_def u_def keep_char_def is_word_def ascii_alnum_def py_isspace_def py_strip_def)
  moreover have "\<not> sublist (u '' - '') (u ''Tacos'' @ [SP]) \<and> \<not> sublist [32, 8211, 32] (u ''Tacos'')
      \<and> \<not> sublist (u '' - '') (u ''Ramen'' @ [SP]) \<and> \<not> sublist [32, 8211, 32] (u ''Ramen'')"
    by (simp add: u_def sublist_code)
  ultimately show ?thesis
    using extract_markdown_last_wins [of ascii_db "u ''Tacos''" "u ''Ramen''"] by (simp add: u_def)
qed

end
