(* ===== verification/Json.thy ===== *)
theory Json
  imports Prelude
begin

text \<open>
  The Python values the code reads from \<open>response.json()\<close>: \<open>json.loads\<close> yields
  \<open>None\<close>, \<open>bool\<close>, \<open>int\<close>, \<open>float\<close>, \<open>str\<close>, \<open>list\<close> and \<open>dict\<close> with \<open>str\<close> keys.  A
  float is kept as its \<open>repr\<close>, which is what \<open>str()\<close> and f-strings print; a dict is
  its list of items in document order, and a key given twice has its last value,
  as \<open>json.loads\<close> assigns the items in order.  The operations are the ones the
  code applies to these values, with the exception Python raises on a value of the
  wrong type.
\<close>

datatype jval = JNull | JBool bool | JInt int | JFloat ustr | JStr ustr
  | JArr "jval list" | JObj "(ustr \<times> jval) list"

text \<open>Truth value (\<open>if x:\<close>, \<open>x and ...\<close>, \<open>not x\<close>).\<close>

fun py_truthy :: "jval \<Rightarrow> bool" where
  "py_truthy JNull = False"
| "py_truthy (JBool b) = b"
| "py_truthy (JInt i) = (i \<noteq> 0)"
| "py_truthy (JFloat r) = (r \<notin> {u ''0.0'', u ''-0.0''})"
| "py_truthy (JStr s) = (s \<noteq> [])"
| "py_truthy (JArr xs) = (xs \<noteq> [])"
| "py_truthy (JObj kvs) = (kvs \<noteq> [])"

definition jget :: "(ustr \<times> jval) list \<Rightarrow> ustr \<Rightarrow> jval option" where
  "jget kvs k = map_of (rev kvs) k"

text \<open>\<open>d.get(k, default)\<close>: only a dict has \<open>get\<close>.\<close>

fun dict_get :: "jval \<Rightarrow> ustr \<Rightarrow> jval \<Rightarrow> py_exc + jval" where
  "dict_get (JObj kvs) k dflt = Inr (case jget kvs k of None \<Rightarrow> dflt | Some v \<Rightarrow> v)"
| "dict_get _ k dflt = Inl AttributeError"

text \<open>\<open>d[k]\<close> on a dict with a \<open>str\<close> key.\<close>

fun dict_index :: "jval \<Rightarrow> ustr \<Rightarrow> py_exc + jval" where
  "dict_index (JObj kvs) k = (case jget kvs k of None \<Rightarrow> Inl KeyError | Some v \<Rightarrow> Inr v)"
| "dict_index (JArr _) k = Inl TypeError"
| "dict_index (JStr _) k = Inl TypeError"
| "dict_index _ k = Inl TypeError"

text \<open>\<open>x[0]\<close>: a list or a string gives its first element, a dict looks up the
  \<open>int\<close> key 0, which no JSON object has; the scalars are not subscriptable.\<close>

fun py_index0 :: "jval \<Rightarrow> py_exc + jval" where
  "py_index0 (JArr []) = Inl IndexError"
| "py_index0 (JArr (x # _)) = Inr x"
| "py_index0 (JStr []) = Inl IndexError"
| "py_index0 (JStr (c # _)) = Inr (JStr [c])"
| "py_index0 (JObj _) = Inl KeyError"
| "py_index0 _ = Inl TypeError"

text \<open>\<open>x.strip()\<close>: only a \<open>str\<close> has it.\<close>

fun jstrip :: "jval \<Rightarrow> py_exc + ustr" where
  "jstrip (JStr s) = Inr (py_strip s)"
| "jstrip _ = Inl AttributeError"

text \<open>Iteration (\<open>for x in v\<close>): a list gives its elements, a dict its keys, a string
  its characters; the other values are not iterable.\<close>

definition dict_keys :: "(ustr \<times> jval) list \<Rightarrow> ustr list" where
  "dict_keys kvs = remdups (map fst kvs)"

fun py_iter :: "jval \<Rightarrow> py_exc + jval list" where
  "py_iter (JArr xs) = Inr xs"
| "py_iter (JObj kvs) = Inr (map JStr (dict_keys kvs))"
| "py_iter (JStr s) = Inr (map (\<lambda>c. JStr [c]) s)"
| "py_iter _ = Inl TypeError"

text \<open>The slice \<open>v[:n]\<close>: strings and lists; a dict raises (the slice is not a key), the
  scalars are not subscriptable.\<close>

fun py_slice_to :: "nat \<Rightarrow> jval \<Rightarrow> py_exc + jval" where
  "py_slice_to n (JStr s) = Inr (JStr (take n s))"
| "py_slice_to n (JArr xs) = Inr (JArr (take n xs))"
| "py_slice_to n (JObj _) = Inl KeyError"
| "py_slice_to n _ = Inl TypeError"

text \<open>Lists and dicts are unhashable: they cannot be looked up in a dict.\<close>

fun py_hashable :: "jval \<Rightarrow> bool" where
  "py_hashable (JArr _) = False"
| "py_hashable (JObj _) = False"
| "py_hashable _ = True"

text \<open>\<open>m.get(k, default)\<close> on a dict whose keys are all \<open>str\<close>: only a \<open>str\<close> key can be
  equal to one of them.\<close>

definition str_dict_get :: "(ustr \<times> jval) list \<Rightarrow> jval \<Rightarrow> jval \<Rightarrow> py_exc + jval" where
  "str_dict_get m k dflt =
     (if \<not> py_hashable k then Inl TypeError
      else case k of JStr s \<Rightarrow> Inr (case jget m s of None \<Rightarrow> dflt | Some v \<Rightarrow> v) | _ \<Rightarrow> Inr dflt)"

text \<open>A dict whose values are all strings.\<close>

definition all_str_vals :: "(ustr \<times> jval) list \<Rightarrow> bool" where
  "all_str_vals kvs \<longleftrightarrow> list_all (\<lambda>kv. case snd kv of JStr _ \<Rightarrow> True | _ \<Rightarrow> False) kvs"

subsection \<open>\<open>repr\<close> and \<open>str\<close>\<close>

definition hex_lower :: "nat \<Rightarrow> uchar" where
  "hex_lower d = (if d < 10 then 48 + d else 87 + d)"

fun hex_fixed :: "nat \<Rightarrow> nat \<Rightarrow> ustr" where
  "hex_fixed 0 n = []"
| "hex_fixed (Suc k) n = hex_fixed k (n div 16) @ [hex_lower (n mod 16)]"

text \<open>\<open>unicode_repr\<close> of CPython: the quote, backslash escapes, \<open>\\x\<close>, \<open>\\u\<close> and
  \<open>\\U\<close> for what is not printable.\<close>

definition repr_quote :: "ustr \<Rightarrow> uchar" where
  "repr_quote s = (if 39 \<in> set s \<and> 34 \<notin> set s then 34 else 39)"

definition repr_char :: "unicode_db \<Rightarrow> uchar \<Rightarrow> uchar \<Rightarrow> ustr" where
  "repr_char db q c =
     (if c = q \<or> c = 92 then [92, c]
      else if c = 9 then [92, 116] else if c = 10 then [92, 110] else if c = 13 then [92, 114]
      else if c < 32 \<or> c = 127 then 92 # 120 # hex_fixed 2 c
      else if c < 127 then [c]
      else if ucd_printable db c then [c]
      else if c \<le> 0xFF then 92 # 120 # hex_fixed 2 c
      else if c \<le> 0xFFFF then 92 # 117 # hex_fixed 4 c
      else 92 # 85 # hex_fixed 8 c)"

definition str_repr :: "unicode_db \<Rightarrow> ustr \<Rightarrow> ustr" where
  "str_repr db s = (let q = repr_quote s in q # concat (map (repr_char db q) s) @ [q])"

text \<open>The items of the dict \<open>json.loads\<close> builds: a repeated key keeps its first position
  and takes its last value.\<close>

definition dict_items :: "(ustr \<times> jval) list \<Rightarrow> (ustr \<times> jval) list" where
  "dict_items kvs = map (\<lambda>k. (k, the (jget kvs k))) (dict_keys kvs)"

function py_repr :: "unicode_db \<Rightarrow> jval \<Rightarrow> ustr" where
  "py_repr db JNull = u ''None''"
| "py_repr db (JBool b) = (if b then u ''True'' else u ''False'')"
| "py_repr db (JInt i) = py_str_int i"
| "py_repr db (JFloat r) = r"
| "py_repr db (JStr s) = str_repr db s"
| "py_repr db (JArr xs) = 91 # py_join (u '', '') (map (py_repr db) xs) @ [93]"
| "py_repr db (JObj kvs) =
     123 # py_join (u '', '')
       (map (\<lambda>(k, v). str_repr db k @ u '': '' @ py_repr db v) (dict_items kvs)) @ [125]"
  by pat_completeness auto
termination
  apply (relation "measure (\<lambda>(db, v). size v)")
     apply (auto simp: size_list_estimation')
  subgoal for xs x by (simp add: le_imp_less_Suc size_list_estimation')
  subgoal for kvs a b
  proof -
    assume "(a, b) \<in> set (dict_items kvs)"
    then obtain k where k: "k \<in> set (map fst kvs)" "b = the (map_of (rev kvs) k)"
      by (auto simp: dict_items_def dict_keys_def jget_def)
    then obtain v where "map_of (rev kvs) k = Some v"
      by (cases "map_of (rev kvs) k") (auto simp: map_of_eq_None_iff)
    then have "(k, b) \<in> set kvs" using k(2) by (auto dest: map_of_SomeD)
    then have "size b \<le> size_list (size_prod (\<lambda>x. 0) size) kvs"
      by (rule size_list_estimation') simp
    then show ?thesis by simp
  qed
  done

text \<open>\<open>str(v)\<close>, and the \<open>{v}\<close> of an f-string: a string is itself, the rest their repr.\<close>

fun py_str :: "unicode_db \<Rightarrow> jval \<Rightarrow> ustr" where
  "py_str db (JStr s) = s"
| "py_str db v = py_repr db v"

subsection \<open>\<open>int(s)\<close> of a string\<close>

text \<open>
  \<open>int(s)\<close>: an ASCII character is kept, every other whitespace character counts as a
  space and every other Unicode decimal digit as its ASCII digit
  (\<open>_PyUnicode_TransformDecimalAndSpaceToASCII\<close>); then surrounding C whitespace
  (\<open>Py_ISSPACE\<close>: tab to carriage return, and space), an optional sign, and digits with
  single underscores between them; at most 4300 digits (\<open>sys.get_int_max_str_digits()\<close>).
\<close>

definition int_char :: "unicode_db \<Rightarrow> uchar \<Rightarrow> uchar" where
  "int_char db c =
     (if c < 128 then c
      else if py_isspace c then SP
      else case ucd_decimal db c of Some d \<Rightarrow> 48 + d | None \<Rightarrow> 63)"

definition c_space :: "uchar \<Rightarrow> bool" where
  "c_space c \<longleftrightarrow> (9 \<le> c \<and> c \<le> 13) \<or> c = 32"

definition is_digit :: "uchar \<Rightarrow> bool" where
  "is_digit c \<longleftrightarrow> 48 \<le> c \<and> c \<le> 57"

fun digits_ok :: "ustr \<Rightarrow> bool" where
  "digits_ok [] = False"
| "digits_ok [c] = is_digit c"
| "digits_ok (c # d # r) =
     (is_digit c \<and> (if d = 95 then r \<noteq> [] \<and> digits_ok r else digits_ok (d # r)))"

definition digits_val :: "ustr \<Rightarrow> nat" where
  "digits_val ds = foldl (\<lambda>n c. 10 * n + (c - 48)) 0 (filter is_digit ds)"

definition py_int_parse :: "unicode_db \<Rightarrow> ustr \<Rightarrow> int option" where
  "py_int_parse db s =
     (let t = rev (dropWhile c_space (rev (dropWhile c_space (map (int_char db) s))));
          (neg, ds) = (case t of
            c # r \<Rightarrow> (if c = 45 then (True, r) else if c = 43 then (False, r) else (False, t))
          | [] \<Rightarrow> (False, []))
      in if digits_ok ds \<and> length (filter is_digit ds) \<le> 4300
         then Some (if neg then - int (digits_val ds) else int (digits_val ds)) else None)"

text \<open>\<open>int(v)\<close> of the result of a slice, which is a string or a list; \<open>int\<close> of a
  list raises \<open>TypeError\<close>.\<close>

fun py_int_of_slice :: "unicode_db \<Rightarrow> jval \<Rightarrow> py_exc + int" where
  "py_int_of_slice db (JStr s) = (case py_int_parse db s of None \<Rightarrow> Inl ValueError | Some i \<Rightarrow> Inr i)"
| "py_int_of_slice db _ = Inl TypeError"


subsection \<open>Lemmas\<close>

lemma jget_all_str: "all_str_vals kvs \<Longrightarrow> jget kvs k = Some v \<Longrightarrow> \<exists>s. v = JStr s"
proof -
  assume a: "all_str_vals kvs" "jget kvs k = Some v"
  then have "(k, v) \<in> set kvs" by (auto simp: jget_def dest: map_of_SomeD)
  with a(1) have "case v of JStr _ \<Rightarrow> True | _ \<Rightarrow> False" unfolding all_str_vals_def list_all_iff by fastforce
  then show ?thesis by (cases v) auto
qed

end
