(* ===== verification/Prompt.thy ===== *)
theory Prompt
  imports Extract Json
begin

text \<open>
  The prompt of the food pairing and the call of the language model.  main.py builds a
  LangChain \<open>PromptTemplate\<close> (lines 403--438), cloud_app.py a plain string
  \<open>PROMPT_TEMPLATE\<close> (lines 258--284); both are filled by \<open>str.format\<close> with the movie
  information, the title, the mood and the cuisine.  The two templates agree up to the
  instructions' last line and differ in their last paragraph: main.py shows an example
  response, cloud_app.py asks for real dish names.  cloud_app.py calls Groq through
  \<open>invoke_llm\<close> (lines 46--57), which turns every exception into a text; main.py calls
  the Ollama model directly, so its exceptions reach the page.  The model itself is a
  parameter: a function from the prompt to the response text or the exception.
\<close>

subsection \<open>Templates and \<open>str.format\<close>\<close>

text \<open>A format string as its literal parts and its replacement fields \<open>{name}\<close>.\<close>

datatype seg = Lit ustr | Var ustr

text \<open>\<open>template.format(**kwargs)\<close>: each field is replaced by its value's \<open>str\<close>; a field
  without a value raises \<open>KeyError\<close>.\<close>

fun format_segs :: "(ustr \<times> ustr) list \<Rightarrow> seg list \<Rightarrow> py_exc + ustr" where
  "format_segs kw [] = Inr []"
| "format_segs kw (Lit s # ss) = (case format_segs kw ss of Inl e \<Rightarrow> Inl e | Inr r \<Rightarrow> Inr (s @ r))"
| "format_segs kw (Var v # ss) =
     (case map_of kw v of
        None \<Rightarrow> Inl KeyError
      | Some x \<Rightarrow> (case format_segs kw ss of Inl e \<Rightarrow> Inl e | Inr r \<Rightarrow> Inr (x @ r)))"

text \<open>The part both templates share: everything up to the line \<open>[one tip]\<close> and the
  empty line after it.\<close>

definition prompt_common :: "seg list" where
  "prompt_common = [Lit ((u ''You are Hangry '' @ [8212] @ u '' a fun movie + food pairing expert! '' @ [127829, 10, 10] @ u ''Movie Information:'' @ [10])),
     Var (u ''movie_info''),
     Lit (([10, 10] @ u ''User'' @ [39] @ u ''s Mood: '')),
     Var (u ''mood''),
     Lit (([10] @ u ''Cuisine Preference: '')),
     Var (u ''cuisine_pref''),
     Lit (([10, 10] @ u ''Based on this movie'' @ [39] @ u ''s theme, genre, and the user'' @ [39] @ u ''s preferences,'' @ [10] @ u ''suggest the perfect food pairing for watching '' @ [34])),
     Var (u ''title''),
     Lit (([34] @ u ''.'' @ [10, 10] @ u ''IMPORTANT: You MUST start your response with these THREE lines EXACTLY (no emojis, no extra text on these lines):'' @ [10, 10] @ u ''MAIN DISH: [just the dish name, nothing else]'' @ [10] @ u ''DRINK: [just the drink name, nothing else]'' @ [10] @ u ''SNACK: [just the snack name, nothing else]'' @ [10, 10] @ u ''Then on new lines describe each:'' @ [10, 10, 127869, 65039] @ u '' **Main Dish**: [dish with fun description]'' @ [10, 129380] @ u '' **Drink**: [drink with fun description]'' @ [10, 127871] @ u '' **Snack**: [snack with fun description]'' @ [10, 128161] @ u '' **Why This Works**: [one sentence]'' @ [10, 127919] @ u '' **Mood Setting Tip**: [one tip]'' @ [10, 10]))]"

text \<open>The example response of main.py's template.\<close>

definition prompt_example :: ustr where
  "prompt_example = (u ''MAIN DISH: Kung Pao Chicken'' @ [10] @ u ''DRINK: Lychee Tea'' @ [10] @ u ''SNACK: Edamame'' @ [10, 10, 127869, 65039] @ u '' **Main Dish**: Kung Pao Chicken - A spicy and savory delight...'' @ [10, 10] @ u ''Keep it fun, brief, and use emojis in descriptions only!'')"

definition prompt_template :: "seg list" where
  "prompt_template = prompt_common @ [Lit ((u ''Example of CORRECT response:'' @ [10]) @ prompt_example)]"

definition cloud_prompt_template :: "seg list" where
  "cloud_prompt_template = prompt_common @ [Lit (u ''Use REAL dish names that exist in restaurants. Keep it fun, brief, and use emojis in descriptions only!'')]"

subsection \<open>The values filled in\<close>

text \<open>\<open>movie_info = f"Title: {movie['title']}. Year: {movie['year']}. Genre:
  {movie['genre']}. Overview: {movie.get('overview', 'N/A')}"\<close>; every movie dict has
  an overview.\<close>

definition movie_info :: "unicode_db \<Rightarrow> jval \<Rightarrow> jval \<Rightarrow> jval \<Rightarrow> jval \<Rightarrow> ustr" where
  "movie_info db title year genre overview =
     (u ''Title: '') @ py_str db title @ (u ''. Year: '') @ py_str db year @ (u ''. Genre: '') @ py_str db genre @
     (u ''. Overview: '') @ py_str db overview"

definition prompt_kwargs :: "unicode_db \<Rightarrow> ustr \<Rightarrow> jval \<Rightarrow> ustr \<Rightarrow> ustr \<Rightarrow> (ustr \<times> ustr) list" where
  "prompt_kwargs db info title mood cuisine_pref =
     [(u ''movie_info'', info), (u ''title'', py_str db title), (u ''mood'', mood),
      (u ''cuisine_pref'', cuisine_pref)]"

subsection \<open>The model call of cloud_app.py\<close>

text \<open>\<open>invoke_llm\<close>: the Groq client returns the message content, or raises an exception
  whose \<open>str\<close> is given (\<open>Inl\<close>); the exception becomes the text
  \<open>"LLM Error: ..."\<close> behind a warning sign.\<close>

definition llm_error_prefix :: ustr where
  "llm_error_prefix = ([9888, 65039] @ u '' LLM Error: '')"

definition invoke_llm :: "(ustr \<Rightarrow> ustr + ustr) \<Rightarrow> ustr \<Rightarrow> ustr" where
  "invoke_llm client prompt =
     (case client prompt of Inl msg \<Rightarrow> llm_error_prefix @ msg | Inr content \<Rightarrow> content)"


text \<open>The fields of a template, and the text it gives once every field has a value.\<close>

fun seg_vars :: "seg list \<Rightarrow> ustr list" where
  "seg_vars [] = []"
| "seg_vars (Lit _ # ss) = seg_vars ss"
| "seg_vars (Var v # ss) = v # seg_vars ss"

fun fill :: "(ustr \<times> ustr) list \<Rightarrow> seg list \<Rightarrow> ustr" where
  "fill kw [] = []"
| "fill kw (Lit s # ss) = s @ fill kw ss"
| "fill kw (Var v # ss) = the (map_of kw v) @ fill kw ss"

subsection \<open>Properties of the prompt\<close>

lemma format_segs_fill:
  "set (seg_vars ss) \<subseteq> fst ` set kw \<Longrightarrow> format_segs kw ss = Inr (fill kw ss)"
proof (induction kw ss rule: format_segs.induct)
  case (3 kw v ss)
  then obtain x where "map_of kw v = Some x" by (auto dest: weak_map_of_SomeI simp: image_iff) 
  with 3 show ?case by simp
qed simp_all

lemma prompt_vars:
  "set (seg_vars prompt_template) \<subseteq> fst ` set (prompt_kwargs db info title mood cp)"
  "set (seg_vars cloud_prompt_template) \<subseteq> fst ` set (prompt_kwargs db info title mood cp)"
  by (simp_all add: prompt_template_def cloud_prompt_template_def prompt_common_def prompt_kwargs_def)

lemma fill_var: "Var v \<in> set ss \<Longrightarrow> sublist (the (map_of kw v)) (fill kw ss)"
proof (induction kw ss rule: fill.induct)
  case (2 kw s ss)
  then show ?case by (auto simp: sublist_append)
next
  case (3 kw w ss)
  then show ?case by (auto simp: sublist_append)
qed simp

lemma format_title:
  assumes "Var (u ''title'') \<in> set t" "set (seg_vars t) \<subseteq> fst ` set (prompt_kwargs db info title md cp)"
  shows "\<exists>p. format_segs (prompt_kwargs db info title md cp) t = Inr p \<and> sublist (py_str db title) p"
  using format_segs_fill [OF assms(2)] fill_var [OF assms(1), of "prompt_kwargs db info title md cp"]
  by (simp add: prompt_kwargs_def u_def)

text \<open>
  The example response that main.py's prompt shows the model is read by the
  extractor as exactly its three dishes: Kung Pao Chicken, Lychee Tea, Edamame.  A model
  that copies the format gets its dishes extracted.
\<close>

theorem prompt_example_dishes:
  "extract_dish_name db prompt_example =
     \<lparr>main = u ''Kung Pao Chicken'', drink = u ''Lychee Tea'', snack = u ''Edamame''\<rparr>"
proof -
  have t: "tidy db (u ''Kung Pao Chicken'')" "tidy db (u ''Lychee Tea'')" "tidy db (u ''Edamame'')"
    by (simp_all add: tidy_def u_def keep_char_def is_word_def ascii_alnum_def py_isspace_def py_strip_def)
  have n: "u ''Kung Pao Chicken'' \<noteq> []" "u ''Lychee Tea'' \<noteq> []" "u ''Edamame'' \<noteq> []"
    by (simp_all add: u_def)
  have tk: "take 60 prompt_example = main_lbl @ SP # u ''Kung Pao Chicken'' @ NL # drink_lbl @ SP # u ''Lychee Tea'' @ NL #
      snack_lbl @ SP # u ''Edamame''"
    by (simp add: prompt_example_def main_lbl_def drink_lbl_def snack_lbl_def u_def)
  have e: "prompt_example = main_lbl @ SP # u ''Kung Pao Chicken'' @ NL # drink_lbl @ SP # u ''Lychee Tea'' @ NL #
      snack_lbl @ SP # u ''Edamame'' @ drop 60 prompt_example"
    using append_take_drop_id[of 60 prompt_example] unfolding tk by simp
  have r: "drop 60 prompt_example = [] \<or> hd (drop 60 prompt_example) = NL"
    by (simp add: prompt_example_def u_def)
  show ?thesis
    by (subst e, rule extract_fields[OF t(1) n(1) t(2) n(2) t(3) n(3)]) (use r in simp_all)
qed

text \<open>
  Formatting either template with the four values never raises (every field of
  the templates has a value) and the prompt contains the movie's title.
\<close>

theorem prompt_title:
  "(\<exists>p. format_segs (prompt_kwargs db info title md cp) prompt_template = Inr p \<and> sublist (py_str db title) p) \<and>
   (\<exists>p. format_segs (prompt_kwargs db info title md cp) cloud_prompt_template = Inr p \<and> sublist (py_str db title) p)"
  by (intro conjI format_title prompt_vars) (simp_all add: prompt_template_def cloud_prompt_template_def prompt_common_def)

end
