(* ===== verification/Movies.thy ===== *)
theory Movies
  imports Json
begin

text \<open>
  The movie search against TMDB (src/app/main.py, lines 50--147, and the version in
  src/app/cloud_app.py, lines 66--148): \<open>search_tmdb\<close> takes a year written as
  \<open>(2025)\<close> out of the query, requests the search, and turns the results into movie
  dicts, filtered by year and cut at \<open>n_results\<close>; \<open>get_tmdb_genres\<close> builds the global
  \<open>genre_map\<close> from id strings to names; \<open>resolve_genres\<close> maps a comma-separated string
  of ids through it.  The two apps differ in one expression: main.py looks the genre
  id up as it is, cloud_app.py as \<open>str(gid)\<close>; \<open>search_tmdb_with\<close> takes that key
  function as a parameter.  The HTTP request with \<open>raise_for_status()\<close> and \<open>.json()\<close>
  is the parameter \<open>fetch\<close>.
\<close>

subsection \<open>The year in the query, \<open>\((\d{4})\)\<close>\<close>

definition is_dec :: "unicode_db \<Rightarrow> uchar \<Rightarrow> bool" where
  "is_dec db c \<longleftrightarrow> (if c < 128 then 48 \<le> c \<and> c \<le> 57 else ucd_decimal db c \<noteq> None)"

definition dec_val :: "unicode_db \<Rightarrow> uchar \<Rightarrow> nat" where
  "dec_val db c = (if c < 128 then c - 48 else case ucd_decimal db c of Some d \<Rightarrow> d | None \<Rightarrow> 0)"

text \<open>A match of \<open>\(\d{4}\)\<close> at the start of the text: its four digits.\<close>

definition year_at :: "unicode_db \<Rightarrow> ustr \<Rightarrow> ustr option" where
  "year_at db s =
     (if length s \<ge> 6 \<and> s ! 0 = 40 \<and> s ! 5 = 41 \<and> list_all (is_dec db) (take 4 (drop 1 s))
      then Some (take 4 (drop 1 s)) else None)"

fun year_search :: "unicode_db \<Rightarrow> ustr \<Rightarrow> ustr option" where
  "year_search db [] = None"
| "year_search db (c # s) = (case year_at db (c # s) of Some ds \<Rightarrow> Some ds | None \<Rightarrow> year_search db s)"

text \<open>\<open>re.sub(r'\(\d{4}\)', '', query)\<close>: every match, left to right, without overlap.\<close>

fun year_sub :: "unicode_db \<Rightarrow> ustr \<Rightarrow> ustr" where
  "year_sub db [] = []"
| "year_sub db (c # s) = (if year_at db (c # s) \<noteq> None then year_sub db (drop 5 s) else c # year_sub db s)"

definition digits_value :: "unicode_db \<Rightarrow> ustr \<Rightarrow> int" where
  "digits_value db ds = int (foldl (\<lambda>n c. 10 * n + dec_val db c) 0 ds)"

subsection \<open>The request and the movie records\<close>

record tmdb_params =
  p_query :: ustr
  p_year :: "int option"

record movie =
  m_title :: jval
  m_year :: jval
  m_genre :: jval
  m_overview :: jval
  m_rating :: jval
  m_poster :: "ustr option"
  m_source :: ustr

definition tmdb_image_url :: ustr where "tmdb_image_url = u ''https://image.tmdb.org/t/p/w500''"

definition tmdb_source :: ustr where "tmdb_source = u ''TMDB '' @ [0x1F310]"

text \<open>\<open>", ".join(...)\<close>: every element must be a string.\<close>

definition join_strs :: "ustr \<Rightarrow> jval list \<Rightarrow> py_exc + ustr" where
  "join_strs sep vs =
     (if list_all (\<lambda>v. case v of JStr _ \<Rightarrow> True | _ \<Rightarrow> False) vs
      then Inr (py_join sep (map (\<lambda>v. case v of JStr s \<Rightarrow> s | _ \<Rightarrow> []) vs)) else Inl TypeError)"

text \<open>The list comprehension \<open>[genre_map.get(key(gid), "Unknown") for gid in ids]\<close>.\<close>

fun genre_lookups :: "(jval \<Rightarrow> jval) \<Rightarrow> (ustr \<times> jval) list \<Rightarrow> jval list \<Rightarrow> py_exc + jval list" where
  "genre_lookups key gmap [] = Inr []"
| "genre_lookups key gmap (gid # gids) =
     (case str_dict_get gmap (key gid) (JStr (u ''Unknown'')) of
        Inl e \<Rightarrow> Inl e
      | Inr v \<Rightarrow> (case genre_lookups key gmap gids of Inl e \<Rightarrow> Inl e | Inr vs \<Rightarrow> Inr (v # vs)))"

definition genre_names :: "(jval \<Rightarrow> jval) \<Rightarrow> (ustr \<times> jval) list \<Rightarrow> jval \<Rightarrow> py_exc + ustr" where
  "genre_names key gmap item =
     (case dict_get item (u ''genre_ids'') (JArr []) of
        Inl e \<Rightarrow> Inl e
      | Inr ids \<Rightarrow>
          (case py_iter ids of
             Inl e \<Rightarrow> Inl e
           | Inr gids \<Rightarrow>
               (case genre_lookups key gmap gids of Inl e \<Rightarrow> Inl e | Inr vs \<Rightarrow> join_strs (u '', '') vs)))"

text \<open>\<open>year_str = item.get("release_date", "")[:4] if item.get("release_date") else "Unknown"\<close>.\<close>

definition year_str_of :: "jval \<Rightarrow> py_exc + jval" where
  "year_str_of item =
     (case dict_get item (u ''release_date'') JNull of
        Inl e \<Rightarrow> Inl e
      | Inr rd \<Rightarrow>
          (if py_truthy rd then
             (case dict_get item (u ''release_date'') (JStr []) of Inl e \<Rightarrow> Inl e | Inr v \<Rightarrow> py_slice_to 4 v)
           else Inr (JStr (u ''Unknown''))))"

text \<open>The year filter: \<open>Inr True\<close> is \<open>continue\<close>.  A year that \<open>int()\<close> rejects with
  \<open>ValueError\<close> is kept; any other exception leaves the loop.\<close>

definition skip_year :: "unicode_db \<Rightarrow> int \<Rightarrow> int \<Rightarrow> bool \<Rightarrow> jval \<Rightarrow> py_exc + bool" where
  "skip_year db year_min year_max filter_year year_str =
     (if filter_year \<and> year_str \<noteq> JStr (u ''Unknown'') then
        (case py_int_of_slice db year_str of
           Inl ValueError \<Rightarrow> Inr False
         | Inl e \<Rightarrow> Inl e
         | Inr year_int \<Rightarrow> Inr (year_int < year_min \<or> year_int > year_max))
      else Inr False)"

definition poster_of :: "unicode_db \<Rightarrow> jval \<Rightarrow> py_exc + ustr option" where
  "poster_of db item =
     (case dict_get item (u ''poster_path'') JNull of
        Inl e \<Rightarrow> Inl e
      | Inr pp \<Rightarrow>
          (if py_truthy pp then
             (case dict_index item (u ''poster_path'') of
                Inl e \<Rightarrow> Inl e | Inr v \<Rightarrow> Inr (Some (tmdb_image_url @ py_str db v)))
           else Inr None))"

text \<open>One result item to a movie, or \<open>None\<close> for \<open>continue\<close>.\<close>

definition tmdb_movie ::
    "(jval \<Rightarrow> jval) \<Rightarrow> unicode_db \<Rightarrow> (ustr \<times> jval) list \<Rightarrow> int \<Rightarrow> int \<Rightarrow> bool \<Rightarrow> jval
     \<Rightarrow> py_exc + movie option" where
  "tmdb_movie key db gmap year_min year_max filter_year item =
     (case year_str_of item of
        Inl e \<Rightarrow> Inl e
      | Inr year_str \<Rightarrow>
          (case skip_year db year_min year_max filter_year year_str of
             Inl e \<Rightarrow> Inl e
           | Inr True \<Rightarrow> Inr None
           | Inr False \<Rightarrow>
               (case genre_names key gmap item of
                  Inl e \<Rightarrow> Inl e
                | Inr gn \<Rightarrow>
                    (case poster_of db item of
                       Inl e \<Rightarrow> Inl e
                     | Inr poster \<Rightarrow>
                         (case (dict_get item (u ''title'') (JStr (u ''Unknown'')),
                                dict_get item (u ''overview'') (JStr (u ''No description available'')),
                                dict_get item (u ''vote_average'') (JStr (u ''N/A''))) of
                            (Inr t, Inr ov, Inr r) \<Rightarrow>
                              Inr (Some \<lparr>m_title = t, m_year = year_str, m_genre = JStr gn,
                                m_overview = ov, m_rating = r, m_poster = poster, m_source = tmdb_source\<rparr>)
                          | _ \<Rightarrow> Inl AttributeError)))))"

text \<open>The loop over the results, with the movies collected so far; after each append
  \<open>if len(movies) >= n_results: break\<close>.\<close>

fun tmdb_loop ::
    "(jval \<Rightarrow> jval) \<Rightarrow> unicode_db \<Rightarrow> (ustr \<times> jval) list \<Rightarrow> int \<Rightarrow> int \<Rightarrow> int \<Rightarrow> bool
     \<Rightarrow> jval list \<Rightarrow> movie list \<Rightarrow> py_exc + movie list" where
  "tmdb_loop key db gmap n_results year_min year_max filter_year [] movies = Inr movies"
| "tmdb_loop key db gmap n_results year_min year_max filter_year (item # items) movies =
     (case tmdb_movie key db gmap year_min year_max filter_year item of
        Inl e \<Rightarrow> Inl e
      | Inr None \<Rightarrow> tmdb_loop key db gmap n_results year_min year_max filter_year items movies
      | Inr (Some m) \<Rightarrow>
          (if int (length (movies @ [m])) \<ge> n_results then Inr (movies @ [m])
           else tmdb_loop key db gmap n_results year_min year_max filter_year items (movies @ [m])))"

definition tmdb_request :: "unicode_db \<Rightarrow> ustr \<Rightarrow> tmdb_params" where
  "tmdb_request db query =
     (let year_match = year_search db query;
          clean_query = py_strip (year_sub db query)
      in \<lparr>p_query = (if clean_query \<noteq> [] then clean_query else query),
          p_year = map_option (digits_value db) year_match\<rparr>)"

text \<open>\<open>search_tmdb\<close>: the exception, if one ended the \<open>try\<close> (it is shown with
  \<open>st.warning\<close>), and the movies.\<close>

definition search_tmdb_with ::
    "(jval \<Rightarrow> jval) \<Rightarrow> unicode_db \<Rightarrow> (ustr \<times> jval) list \<Rightarrow> (tmdb_params \<Rightarrow> py_exc + jval)
     \<Rightarrow> ustr \<Rightarrow> int \<Rightarrow> int \<Rightarrow> int \<Rightarrow> bool \<Rightarrow> py_exc option \<times> movie list" where
  "search_tmdb_with key db gmap fetch query n_results year_min year_max filter_year =
     (let result =
        (case fetch (tmdb_request db query) of
           Inl e \<Rightarrow> Inl e
         | Inr data \<Rightarrow>
             (case dict_get data (u ''results'') (JArr []) of
                Inl e \<Rightarrow> Inl e
              | Inr results \<Rightarrow>
                  (case py_iter results of
                     Inl e \<Rightarrow> Inl e
                   | Inr items \<Rightarrow> tmdb_loop key db gmap n_results year_min year_max filter_year items [])))
      in case result of Inl e \<Rightarrow> (Some e, []) | Inr movies \<Rightarrow> (None, movies))"

text \<open>main.py looks \<open>gid\<close> up as it is; cloud_app.py as \<open>str(gid)\<close>.\<close>

definition search_tmdb :: "unicode_db \<Rightarrow> (ustr \<times> jval) list \<Rightarrow> (tmdb_params \<Rightarrow> py_exc + jval)
     \<Rightarrow> ustr \<Rightarrow> int \<Rightarrow> int \<Rightarrow> int \<Rightarrow> bool \<Rightarrow> py_exc option \<times> movie list" where
  "search_tmdb = search_tmdb_with id"

definition search_tmdb_cloud :: "unicode_db \<Rightarrow> (ustr \<times> jval) list \<Rightarrow> (tmdb_params \<Rightarrow> py_exc + jval)
     \<Rightarrow> ustr \<Rightarrow> int \<Rightarrow> int \<Rightarrow> int \<Rightarrow> bool \<Rightarrow> py_exc option \<times> movie list" where
  "search_tmdb_cloud db = search_tmdb_with (\<lambda>gid. JStr (py_str db gid)) db"

subsection \<open>Genres and trending\<close>

fun genre_entries :: "unicode_db \<Rightarrow> jval list \<Rightarrow> py_exc + (ustr \<times> jval) list" where
  "genre_entries db [] = Inr []"
| "genre_entries db (g # gs) =
     (case (dict_index g (u ''id''), dict_index g (u ''name'')) of
        (Inr i, Inr n) \<Rightarrow>
          (case genre_entries db gs of Inl e \<Rightarrow> Inl e | Inr es \<Rightarrow> Inr ((py_str db i, n) # es))
      | (Inl e, _) \<Rightarrow> Inl e
      | (_, Inl e) \<Rightarrow> Inl e)"

text \<open>\<open>{str(g["id"]): g["name"] for g in data.get("genres", [])}\<close>, \<open>{}\<close> on any error.\<close>

definition get_tmdb_genres :: "unicode_db \<Rightarrow> py_exc + jval \<Rightarrow> (ustr \<times> jval) list" where
  "get_tmdb_genres db response =
     (case response of
        Inl _ \<Rightarrow> []
      | Inr data \<Rightarrow>
          (case dict_get data (u ''genres'') (JArr []) of
             Inl _ \<Rightarrow> []
           | Inr gs \<Rightarrow>
               (case py_iter gs of
                  Inl _ \<Rightarrow> []
                | Inr gl \<Rightarrow> (case genre_entries db gl of Inl _ \<Rightarrow> [] | Inr es \<Rightarrow> es))))"

definition get_trending_movies :: "py_exc + jval \<Rightarrow> jval" where
  "get_trending_movies response =
     (case response of
        Inl _ \<Rightarrow> JArr []
      | Inr data \<Rightarrow>
          (case dict_get data (u ''results'') (JArr []) of
             Inl _ \<Rightarrow> JArr []
           | Inr rs \<Rightarrow> (case py_slice_to 5 rs of Inl _ \<Rightarrow> JArr [] | Inr v \<Rightarrow> v)))"

text \<open>\<open>resolve_genres\<close>: the ids of a comma-separated string, each looked up with
  itself as the default.\<close>

definition resolve_genres :: "(ustr \<times> jval) list \<Rightarrow> ustr \<Rightarrow> py_exc + ustr" where
  "resolve_genres gmap genre_id_string =
     (if genre_id_string = [] \<or> genre_id_string = u ''Unknown'' then Inr (u ''Unknown'')
      else
        (let ids = map py_strip (py_split (u '','') genre_id_string);
             names = map (\<lambda>gid. case jget gmap gid of None \<Rightarrow> JStr gid | Some v \<Rightarrow> v) ids
         in join_strs (u '', '') names))"


subsection \<open>The properties' vocabulary\<close>

text \<open>A movie whose year, read with \<open>int()\<close>, lies in the range (or is not a number);
  a movie with its genre erased; an item whose \<open>genre_ids\<close> are integers, as TMDB
  sends them; and an example response with its genre list.\<close>

definition year_in_range :: "unicode_db \<Rightarrow> int \<Rightarrow> int \<Rightarrow> movie \<Rightarrow> bool" where
  "year_in_range db year_min year_max m \<longleftrightarrow>
     (case py_int_of_slice db (m_year m) of Inr y \<Rightarrow> year_min \<le> y \<and> y \<le> year_max | Inl _ \<Rightarrow> True)"

definition is_jint :: "jval \<Rightarrow> bool" where
  "is_jint v = (case v of JInt _ \<Rightarrow> True | _ \<Rightarrow> False)"

definition strip_genre :: "movie \<Rightarrow> movie" where
  "strip_genre m = m\<lparr>m_genre := JNull\<rparr>"

definition int_genre_ids :: "jval \<Rightarrow> bool" where
  "int_genre_ids item \<longleftrightarrow> (\<exists>gids. dict_get item (u ''genre_ids'') (JArr []) = Inr (JArr gids) \<and> list_all is_jint gids)"

abbreviation cloud_key :: "unicode_db \<Rightarrow> jval \<Rightarrow> jval" where
  "cloud_key db \<equiv> \<lambda>gid. JStr (py_str db gid)"

definition heat_response :: jval where
  "heat_response = JObj [(u ''results'', JArr [JObj [(u ''title'', JStr (u ''Heat'')),
     (u ''genre_ids'', JArr [JInt 28, JInt 80])]])]"

definition action_genres :: "(ustr \<times> jval) list" where
  "action_genres = [(u ''28'', JStr (u ''Action'')), (u ''80'', JStr (u ''Crime''))]"

subsection \<open>Properties of the movie search\<close>

lemma tmdb_loop_length:
  "tmdb_loop key db gmap n ymin ymax fy items movies = Inr ms \<Longrightarrow> int (length movies) < max 1 n
   \<Longrightarrow> int (length ms) \<le> max 1 n"
proof (induction items arbitrary: movies)
  case (Cons item items)
  show ?case
  proof (cases "tmdb_movie key db gmap ymin ymax fy item")
    case (Inl e) with Cons.prems show ?thesis by simp
  next
    case (Inr mo)
    show ?thesis
    proof (cases mo)
      case None with Inr Cons show ?thesis by simp
    next
      case (Some m)
      with Inr Cons show ?thesis by (auto split: if_splits)
    qed
  qed
qed simp

text \<open>
  C22. \<open>search_tmdb\<close> returns at most \<open>max 1 n_results\<close> movies: the length check comes
  after the append, so \<open>n_results = 0\<close> still lets one movie through.
\<close>

theorem search_tmdb_length:
  "int (length (snd (search_tmdb_with key db gmap fetch query n_results year_min year_max filter_year)))
     \<le> max 1 n_results"
  using tmdb_loop_length [of key db gmap n_results year_min year_max filter_year _ "[]"]
  by (auto simp: search_tmdb_with_def Let_def split: sum.splits)

lemma py_int_parse_Unknown: "py_int_parse db (u ''Unknown'') = None"
  by (simp add: py_int_parse_def u_def int_char_def c_space_def is_digit_def)

lemma tmdb_movie_year:
  assumes "tmdb_movie key db gmap ymin ymax True item = Inr (Some m)"
  shows "year_in_range db ymin ymax m"
  using assms
  by (auto simp: tmdb_movie_def skip_year_def year_in_range_def py_int_parse_Unknown split: sum.splits bool.splits py_exc.splits
    prod.splits if_splits)

lemma tmdb_loop_invariant:
  assumes "\<forall>item\<in>set items. \<forall>m. tmdb_movie key db gmap ymin ymax fy item = Inr (Some m) \<longrightarrow> P m"
  shows "tmdb_loop key db gmap n ymin ymax fy items movies = Inr ms \<Longrightarrow> list_all P movies \<Longrightarrow> list_all P ms"
  using assms
proof (induction items arbitrary: movies)
  case (Cons item items)
  then show ?case by (auto split: sum.splits option.splits if_splits)
qed simp

lemma search_tmdb_with_movies:
  assumes "snd (search_tmdb_with key db gmap fetch query n ymin ymax fy) \<noteq> []"
  shows "\<exists>data results items. fetch (tmdb_request db query) = Inr data
    \<and> dict_get data (u ''results'') (JArr []) = Inr results \<and> py_iter results = Inr items
    \<and> tmdb_loop key db gmap n ymin ymax fy items [] = Inr (snd (search_tmdb_with key db gmap fetch query n ymin ymax fy))"
  using assms by (auto simp: search_tmdb_with_def Let_def split: sum.splits)

text \<open>
  C23. With the year filter on, every movie \<open>search_tmdb\<close> returns has a year inside
  \<open>[year_min, year_max]\<close>, or a year that \<open>int()\<close> cannot read (such movies are kept).
\<close>

theorem search_tmdb_year_filter:
  "list_all (year_in_range db year_min year_max)
     (snd (search_tmdb_with key db gmap fetch query n_results year_min year_max True))"
proof (cases "snd (search_tmdb_with key db gmap fetch query n_results year_min year_max True) = []")
  case False
  from search_tmdb_with_movies [OF False] obtain items
    where "tmdb_loop key db gmap n_results year_min year_max True items [] =
      Inr (snd (search_tmdb_with key db gmap fetch query n_results year_min year_max True))" by blast
  moreover have "\<forall>item\<in>set items. \<forall>m. tmdb_movie key db gmap year_min year_max True item = Inr (Some m)
      \<longrightarrow> year_in_range db year_min year_max m"
    using tmdb_movie_year by blast
  ultimately show ?thesis using tmdb_loop_invariant [of items key db gmap year_min year_max True
      "year_in_range db year_min year_max" n_results "[]"] by simp
qed simp

lemma genre_lookups_id:
  "list_all is_jint gids \<Longrightarrow> genre_lookups id gmap gids = Inr (replicate (length gids) (JStr (u ''Unknown'')))"
  by (induction gids) (auto simp: is_jint_def str_dict_get_def split: jval.splits)

lemma join_strs_replicate: "join_strs sep (replicate k (JStr s)) = Inr (py_join sep (replicate k s))"
  by (simp add: join_strs_def list_all_iff)

lemma tmdb_movie_genre_main:
  assumes "tmdb_movie id db gmap ymin ymax fy item = Inr (Some m)"
    and "dict_get item (u ''genre_ids'') (JArr []) = Inr (JArr gids)" "list_all is_jint gids"
  shows "m_genre m = JStr (py_join (u '', '') (replicate (length gids) (u ''Unknown'')))"
  using assms genre_lookups_id [OF assms(3), of gmap]
  by (auto simp: tmdb_movie_def genre_names_def join_strs_replicate split: sum.splits bool.splits prod.splits)
lemma search_tmdb_with_invariant:
  assumes "fetch (tmdb_request db query) = Inr data" "dict_get data (u ''results'') (JArr []) = Inr (JArr items)"
    and "\<forall>item\<in>set items. \<forall>m. tmdb_movie key db gmap ymin ymax fy item = Inr (Some m) \<longrightarrow> P m"
  shows "list_all P (snd (search_tmdb_with key db gmap fetch query n ymin ymax fy))"
proof (cases "tmdb_loop key db gmap n ymin ymax fy items []")
  case (Inr ms)
  with tmdb_loop_invariant [OF assms(3) Inr] assms(1,2) show ?thesis
    by (simp add: search_tmdb_with_def)
qed (use assms in \<open>simp add: search_tmdb_with_def\<close>)

text \<open>
  C24. In main.py the integer genre ids TMDB sends are looked up as integers in a map
  whose keys are strings, so every returned movie's genre is \<open>Unknown, ..., Unknown\<close>,
  whatever \<open>genre_map\<close> holds.
\<close>

theorem search_tmdb_genres_unknown:
  assumes "fetch (tmdb_request db query) = Inr data" "dict_get data (u ''results'') (JArr []) = Inr (JArr items)"
    and "list_all (\<lambda>item. \<exists>gids. dict_get item (u ''genre_ids'') (JArr []) = Inr (JArr gids)
           \<and> list_all is_jint gids) items"
  shows "list_all (\<lambda>m. \<exists>k. m_genre m = JStr (py_join (u '', '') (replicate k (u ''Unknown''))))
    (snd (search_tmdb db gmap fetch query n_results year_min year_max filter_year))"
  unfolding search_tmdb_def
proof (rule search_tmdb_with_invariant [where fetch = fetch and db = db and query = query and data = data
    and items = items, OF assms(1,2)])
  show "\<forall>item\<in>set items. \<forall>m. tmdb_movie id db gmap year_min year_max filter_year item = Inr (Some m)
      \<longrightarrow> (\<exists>k. m_genre m = JStr (py_join (u '', '') (replicate k (u ''Unknown''))))"
    using assms(3) tmdb_movie_genre_main by (fastforce simp: list_all_iff)
qed

theorem search_tmdb_genres_unknown_witness:
  "list_all (\<lambda>m. \<exists>k. m_genre m = JStr (py_join (u '', '') (replicate k (u ''Unknown''))))
    (snd (search_tmdb ascii_db action_genres (\<lambda>_. Inr heat_response) (u ''Heat'') 5 1900 2025 False))"
  by (rule search_tmdb_genres_unknown [where data = heat_response and items = "[JObj [(u ''title'', JStr (u ''Heat'')),
     (u ''genre_ids'', JArr [JInt 28, JInt 80])]]"]) (simp_all add: heat_response_def jget_def is_jint_def u_def)

lemma genre_lookups_cloud:
  "list_all is_jint gids \<Longrightarrow> all_str_vals gmap \<Longrightarrow>
   \<exists>vs. genre_lookups (\<lambda>gid. JStr (py_str db gid)) gmap gids = Inr vs \<and> list_all (\<lambda>v. \<exists>s. v = JStr s) vs"
proof (induction gids)
  case (Cons g gids)
  then obtain i where g: "g = JInt i" by (auto simp: is_jint_def split: jval.splits)
  have "\<exists>s. (case jget gmap (py_str_int i) of None \<Rightarrow> JStr (u ''Unknown'') | Some v \<Rightarrow> v) = JStr s"
    using jget_all_str [OF Cons.prems(2)] by (cases "jget gmap (py_str_int i)") auto
  with Cons g show ?case by (auto simp: str_dict_get_def)
qed simp

lemma join_strs_ok: "list_all (\<lambda>v. \<exists>s. v = JStr s) vs \<Longrightarrow> \<exists>r. join_strs sep vs = Inr r"
  by (auto simp: join_strs_def list_all_iff)

lemma genre_names_both:
  assumes "int_genre_ids item" "all_str_vals gmap"
  shows "\<exists>g1 g2. genre_names id gmap item = Inr g1 \<and> genre_names (\<lambda>gid. JStr (py_str db gid)) gmap item = Inr g2"
proof -
  from assms(1) obtain gids where gi: "dict_get item (u ''genre_ids'') (JArr []) = Inr (JArr gids)" "list_all is_jint gids"
    by (auto simp: int_genre_ids_def)
  from genre_lookups_cloud [OF gi(2) assms(2), of db] obtain vs
    where vs: "genre_lookups (\<lambda>gid. JStr (py_str db gid)) gmap gids = Inr vs" "list_all (\<lambda>v. \<exists>s. v = JStr s) vs" by blast
  from join_strs_ok [OF vs(2)] vs(1) gi genre_lookups_id [OF gi(2)] show ?thesis
    by (auto simp: genre_names_def join_strs_replicate)
qed

lemma tmdb_movie_same:
  assumes "genre_names k1 gmap item = Inr g1" "genre_names k2 gmap item = Inr g2"
  shows "map_sum id (map_option strip_genre) (tmdb_movie k1 db gmap ymin ymax fy item)
       = map_sum id (map_option strip_genre) (tmdb_movie k2 db gmap ymin ymax fy item)"
  using assms by (simp add: tmdb_movie_def strip_genre_def split: sum.split bool.split prod.split)

lemma tmdb_loop_same:
  assumes "list_all int_genre_ids items" "all_str_vals gmap"
  shows "map strip_genre ms1 = map strip_genre ms2 \<Longrightarrow>
    map_sum id (map strip_genre) (tmdb_loop id db gmap n ymin ymax fy items ms1)
    = map_sum id (map strip_genre) (tmdb_loop (cloud_key db) db gmap n ymin ymax fy items ms2)"
  using assms(1)
proof (induction items arbitrary: ms1 ms2)
  case (Cons item items)
  from Cons.prems(2) have it: "int_genre_ids item" "list_all int_genre_ids items" by simp_all
  from genre_names_both [OF it(1) assms(2), of db] obtain g1 g2
    where "genre_names id gmap item = Inr g1" "genre_names (cloud_key db) gmap item = Inr g2" by blast
  from tmdb_movie_same [OF this, of db ymin ymax fy]
  have same: "map_sum id (map_option strip_genre) (tmdb_movie id db gmap ymin ymax fy item)
     = map_sum id (map_option strip_genre) (tmdb_movie (cloud_key db) db gmap ymin ymax fy item)" .
  have len: "length ms1 = length ms2" using Cons.prems(1) by (metis length_map)
  show ?case
  proof (cases "tmdb_movie id db gmap ymin ymax fy item")
    case (Inl e)
    with same have "tmdb_movie (cloud_key db) db gmap ymin ymax fy item = Inl e"
      by (cases "tmdb_movie (cloud_key db) db gmap ymin ymax fy item") auto
    with Inl show ?thesis by (simp add: id_def)
  next
    case (Inr mo)
    show ?thesis
    proof (cases mo)
      case None
      with Inr same have "tmdb_movie (cloud_key db) db gmap ymin ymax fy item = Inr None"
        by (cases "tmdb_movie (cloud_key db) db gmap ymin ymax fy item") auto
      with Inr None Cons.IH [OF Cons.prems(1) it(2)] show ?thesis by (simp add: id_def)
    next
      case (Some m1)
      with Inr same obtain m2 where m2: "tmdb_movie (cloud_key db) db gmap ymin ymax fy item = Inr (Some m2)"
        "strip_genre m1 = strip_genre m2"
        by (cases "tmdb_movie (cloud_key db) db gmap ymin ymax fy item")
          (auto simp: eq_commute [of "Some (strip_genre m1)"] map_option_eq_Some)
      have "map strip_genre (ms1 @ [m1]) = map strip_genre (ms2 @ [m2])" using Cons.prems(1) m2(2) by simp
      with Inr Some m2 len Cons.IH [OF _ it(2)] Cons.prems(1) show ?thesis by (simp add: id_def)
    qed
  qed
qed simp

text \<open>
  C25. The cloud app's search (\<open>str(gid)\<close> as the key) returns the same movies as
  main.py's, with the same warning, and differs only in the genre field, when the genre
  ids are integers and the genre names strings.
\<close>

theorem search_tmdb_cloud_same_movies:
  assumes "fetch (tmdb_request db query) = Inr data" "dict_get data (u ''results'') (JArr []) = Inr (JArr items)"
    and "list_all int_genre_ids items" "all_str_vals gmap"
  shows "fst (search_tmdb db gmap fetch query n_results year_min year_max filter_year)
       = fst (search_tmdb_cloud db gmap fetch query n_results year_min year_max filter_year)
     \<and> map strip_genre (snd (search_tmdb db gmap fetch query n_results year_min year_max filter_year))
       = map strip_genre (snd (search_tmdb_cloud db gmap fetch query n_results year_min year_max filter_year))"
proof -
  have eq: "map_sum id (map strip_genre) (tmdb_loop id db gmap n_results year_min year_max filter_year items [])
    = map_sum id (map strip_genre) (tmdb_loop (cloud_key db) db gmap n_results year_min year_max filter_year items [])"
    by (rule tmdb_loop_same [OF assms(3,4)]) simp
  show ?thesis
  proof (cases "tmdb_loop id db gmap n_results year_min year_max filter_year items []";
         cases "tmdb_loop (cloud_key db) db gmap n_results year_min year_max filter_year items []")
  qed (use eq assms(1,2) in \<open>simp_all add: search_tmdb_def search_tmdb_cloud_def search_tmdb_with_def\<close>)
qed
lemma year_at_no_paren: "s = [] \<or> hd s \<noteq> 40 \<Longrightarrow> year_at db s = None"
  by (cases s) (auto simp: year_at_def)

lemma year_search_skip: "40 \<notin> set t \<Longrightarrow> year_search db (t @ m) = year_search db m"
  by (induction t) (simp_all add: year_at_no_paren)

lemma year_sub_skip: "40 \<notin> set t \<Longrightarrow> year_sub db (t @ m) = t @ year_sub db m"
  by (induction t) (simp_all add: year_at_no_paren)

lemma year_at_match:
  "length ds = 4 \<Longrightarrow> list_all (is_dec db) ds \<Longrightarrow> year_at db (40 # ds @ 41 # r) = Some ds"
  by (auto simp: year_at_def nth_append)

text \<open>
  C26. A query \<open>t (dddd)\<close>, four decimal digits (any Unicode digits) in parentheses after a
  title without \<open>(\<close>, is sent as the stripped title with the year \<open>dddd\<close>.
\<close>

theorem tmdb_request_year:
  assumes "40 \<notin> set t" "length ds = 4" "list_all (is_dec db) ds" "py_strip t \<noteq> []"
  shows "tmdb_request db (t @ 40 # ds @ [41]) = \<lparr>p_query = py_strip t, p_year = Some (digits_value db ds)\<rparr>"
proof -
  have m: "year_at db (40 # ds @ [41]) = Some ds" using year_at_match [OF assms(2,3), of "[]"] by simp
  have "year_sub db (40 # ds @ [41]) = []" using m assms(2) by simp
  with m assms show ?thesis
    by (simp add: tmdb_request_def year_search_skip year_sub_skip del: year_sub.simps year_search.simps)
      (simp add: m)
qed

theorem tmdb_request_year_witness:
  "tmdb_request ascii_db (u ''The Housemaid (2025)'') = \<lparr>p_query = u ''The Housemaid'', p_year = Some 2025\<rparr>"
proof -
  have "u ''The Housemaid (2025)'' = u ''The Housemaid '' @ 40 # u ''2025'' @ [41]" by (simp add: u_def)
  moreover have "py_strip (u ''The Housemaid '') = u ''The Housemaid''"
    by (simp add: u_def py_strip_def py_isspace_def)
  moreover have "digits_value ascii_db (u ''2025'') = 2025" by (simp add: digits_value_def dec_val_def u_def)
  ultimately show ?thesis
    using tmdb_request_year [of "u ''The Housemaid ''" "u ''2025''" ascii_db]
    by (simp add: u_def is_dec_def)
qed
theorem search_tmdb_cloud_same_movies_witness:
  "fst (search_tmdb ascii_db action_genres (\<lambda>_. Inr heat_response) (u ''Heat'') 5 1900 2025 False)
     = fst (search_tmdb_cloud ascii_db action_genres (\<lambda>_. Inr heat_response) (u ''Heat'') 5 1900 2025 False)
   \<and> map strip_genre (snd (search_tmdb ascii_db action_genres (\<lambda>_. Inr heat_response) (u ''Heat'') 5 1900 2025 False))
     = map strip_genre (snd (search_tmdb_cloud ascii_db action_genres (\<lambda>_. Inr heat_response) (u ''Heat'') 5 1900 2025 False))"
  by (rule search_tmdb_cloud_same_movies [where data = heat_response and items = "[JObj [(u ''title'', JStr (u ''Heat'')),
     (u ''genre_ids'', JArr [JInt 28, JInt 80])]]"])
    (simp_all add: heat_response_def jget_def is_jint_def u_def int_genre_ids_def all_str_vals_def action_genres_def)

lemma heat_genres:
  "map m_genre (snd (search_tmdb ascii_db action_genres (\<lambda>_. Inr heat_response) (u ''Heat'') 5 1900 2025 False))
     = [JStr (u ''Unknown, Unknown'')]"
  "map m_genre (snd (search_tmdb_cloud ascii_db action_genres (\<lambda>_. Inr heat_response) (u ''Heat'') 5 1900 2025 False))
     = [JStr (u ''Action, Crime'')]"
  by (simp_all add: search_tmdb_def search_tmdb_cloud_def search_tmdb_with_def heat_response_def jget_def u_def
    action_genres_def tmdb_request_def year_at_def tmdb_movie_def year_str_of_def skip_year_def genre_names_def
    str_dict_get_def join_strs_def poster_of_def py_str_int_def nat_str.simps py_strip_def py_isspace_def)

text \<open>
  A failed request or an undecodable response makes \<open>search_tmdb\<close> show the warning
  with that exception and return no movies.
\<close>

theorem search_tmdb_fetch_error:
  "fetch (tmdb_request db query) = Inl e \<Longrightarrow>
   search_tmdb_with key db gmap fetch query n_results year_min year_max filter_year = (Some e, [])"
  by (simp add: search_tmdb_with_def)

theorem search_tmdb_fetch_error_witness:
  "search_tmdb ascii_db [] (\<lambda>_. Inl RequestException) (u ''Heat'') 5 1900 2025 False = (Some RequestException, [])"
  unfolding search_tmdb_def by (rule search_tmdb_fetch_error) simp
end
