(* ===== verification/Local.thy ===== *)
theory Local
  imports Movies
begin

text \<open>
  The local search and the merge (src/app/main.py, lines 334--396): \<open>search_local\<close>
  queries the ChromaDB collection for ten times the wanted number of results, reads
  each metadata dict's year with \<open>int(float(str(...).strip()))\<close> to filter it, and
  builds movie dicts; \<open>hybrid_search\<close> concatenates the TMDB results, with their
  genres passed through \<open>resolve_genres\<close>, and the local ones, removes later movies
  whose lower-cased title was seen, and cuts the list at \<open>n_results\<close>.  The query of
  the collection is the parameter \<open>collection_query\<close>, returning the results dict or
  the exception.  Python's \<open>float()\<close> of a string is modelled exactly, down to the
  rounding of the decimal value to a double.
\<close>

subsection \<open>\<open>float()\<close> of a string\<close>

text \<open>
  A double as \<open>float()\<close> produces it: finite with its sign, a mantissa and a power of
  two; infinite with its sign; or NaN.
\<close>

datatype pyfloat = PFin bool nat int | PInf bool | PNan

text \<open>\<open>_PyUnicode_TransformDecimalAndSpaceToASCII\<close>, as for \<open>int()\<close>.\<close>

definition float_char :: "unicode_db \<Rightarrow> uchar \<Rightarrow> uchar" where
  "float_char db c =
     (if c < 128 then c
      else if py_isspace c then SP
      else case ucd_decimal db c of Some d \<Rightarrow> 48 + d | None \<Rightarrow> 63)"

text \<open>\<open>_Py_string_to_number_with_underscores\<close>: an underscore must follow a digit and
  be followed by one; \<open>prev\<close> starts as the NUL character.\<close>

fun underscores_ok :: "uchar \<Rightarrow> ustr \<Rightarrow> bool" where
  "underscores_ok prev [] = (prev \<noteq> 95)"
| "underscores_ok prev (c # r) =
     ((if c = 95 then is_digit prev else prev = 95 \<longrightarrow> is_digit c) \<and> underscores_ok c r)"

definition ascii_lower :: "ustr \<Rightarrow> ustr" where
  "ascii_lower s = map (\<lambda>c. if 65 \<le> c \<and> c \<le> 90 then c + 32 else c) s"

definition dec_digits :: "ustr \<Rightarrow> nat" where
  "dec_digits ds = foldl (\<lambda>n c. 10 * n + (c - 48)) 0 ds"

text \<open>The exponent part of \<open>_Py_dg_strtod\<close>: empty, or \<open>e\<close>/\<open>E\<close>, a sign and at least
  one digit.  (dtoa clamps exponents beyond \<open>10^9\<close>; at that size the value is zero
  or infinite either way.)\<close>

definition exp_part :: "ustr \<Rightarrow> int option" where
  "exp_part r =
     (case r of
        [] \<Rightarrow> Some 0
      | c # r' \<Rightarrow>
          (if c = 101 \<or> c = 69 then
             (let (neg, ds) = (case r' of
                    d # r'' \<Rightarrow> (if d = 45 then (True, r'') else if d = 43 then (False, r'') else (False, r'))
                  | [] \<Rightarrow> (False, []))
              in if ds \<noteq> [] \<and> list_all is_digit ds
                 then Some (if neg then - int (dec_digits ds) else int (dec_digits ds)) else None)
           else None))"

text \<open>Digits, an optional point with digits, at least one digit in all, and the
  exponent: the value as its digits and a power of ten.\<close>

definition decimal_parse :: "ustr \<Rightarrow> (nat \<times> int) option" where
  "decimal_parse r =
     (let ip = takeWhile is_digit r;
          r1 = dropWhile is_digit r;
          (fp, r2) = (case r1 of
             c # r1' \<Rightarrow> (if c = 46 then (takeWhile is_digit r1', dropWhile is_digit r1') else ([], r1))
           | [] \<Rightarrow> ([], []))
      in if ip @ fp = [] then None
         else case exp_part r2 of
                None \<Rightarrow> None
              | Some x \<Rightarrow> Some (dec_digits (ip @ fp), x - int (length fp)))"

text \<open>Rounding \<open>n * 10^k\<close> to the nearest double, ties to even: the binary exponent
  \<open>e\<close> puts the mantissa in \<open>[2^52, 2^53)\<close> (never below \<open>2^-1074\<close>, the subnormals);
  a rounded value of \<open>2^1024\<close> or more is infinite.\<close>

fun nbits :: "nat \<Rightarrow> nat" where
  "nbits n = (if n = 0 then 0 else Suc (nbits (n div 2)))"

declare nbits.simps [simp del]

definition rne :: "nat \<Rightarrow> nat \<Rightarrow> nat" where
  "rne n d =
     (let q = n div d; r = n mod d
      in if 2 * r > d then q + 1 else if 2 * r < d then q else if even q then q else q + 1)"

text \<open>\<open>\<lfloor>log2 (p / q)\<rfloor>\<close> for positive \<open>p\<close> and \<open>q\<close>.\<close>

definition flog2 :: "nat \<Rightarrow> nat \<Rightarrow> int" where
  "flog2 p q = (if q \<le> p then int (nbits (p div q)) - 1 else - int (nbits ((q - 1) div p)))"

definition round_double :: "bool \<Rightarrow> nat \<Rightarrow> int \<Rightarrow> pyfloat" where
  "round_double neg n k =
     (if n = 0 then PFin neg 0 0
      else
        (let p = n * 10 ^ nat k; q = 10 ^ nat (- k);
             e = max (flog2 p q - 52) (-1074);
             m = rne (p * 2 ^ nat (- e)) (q * 2 ^ nat e)
         in if m * 2 ^ nat e \<ge> 2 ^ 1024 then PInf neg else PFin neg m e))"

text \<open>\<open>_PyOS_ascii_strtod\<close> on the stripped text: a sign, then a decimal number, or
  \<open>inf\<close>, \<open>infinity\<close> or \<open>nan\<close> in any case; the whole text must be read.\<close>

definition float_parse :: "ustr \<Rightarrow> pyfloat option" where
  "float_parse t =
     (let (neg, r) = (case t of
            c # r' \<Rightarrow> (if c = 45 then (True, r') else if c = 43 then (False, r') else (False, t))
          | [] \<Rightarrow> (False, []))
      in case decimal_parse r of
           Some (n, k) \<Rightarrow> Some (round_double neg n k)
         | None \<Rightarrow>
             (if ascii_lower r = u ''inf'' \<or> ascii_lower r = u ''infinity'' then Some (PInf neg)
              else if ascii_lower r = u ''nan'' then Some PNan else None))"

definition py_float :: "unicode_db \<Rightarrow> ustr \<Rightarrow> py_exc + pyfloat" where
  "py_float db s =
     (let t = map (float_char db) s;
          t' = rev (dropWhile c_space (rev (dropWhile c_space (filter (\<lambda>c. c \<noteq> 95) t))))
      in if underscores_ok 0 t
         then (case float_parse t' of Some f \<Rightarrow> Inr f | None \<Rightarrow> Inl ValueError)
         else Inl ValueError)"

text \<open>\<open>int(x)\<close> of a float: truncation towards zero; NaN and the infinities raise.\<close>

definition float_int :: "pyfloat \<Rightarrow> py_exc + int" where
  "float_int f =
     (case f of
        PNan \<Rightarrow> Inl ValueError
      | PInf _ \<Rightarrow> Inl OverflowError
      | PFin neg m e \<Rightarrow>
          (let t = int (if e \<ge> 0 then m * 2 ^ nat e else m div 2 ^ nat (- e))
           in Inr (if neg then - t else t)))"

subsection \<open>\<open>search_local\<close>\<close>

text \<open>\<open>x[i]\<close> with a non-negative \<open>int\<close> index.\<close>

fun py_index :: "jval \<Rightarrow> nat \<Rightarrow> py_exc + jval" where
  "py_index (JArr xs) i = (if i < length xs then Inr (xs ! i) else Inl IndexError)"
| "py_index (JStr s) i = (if i < length s then Inr (JStr [s ! i]) else Inl IndexError)"
| "py_index (JObj _) i = Inl KeyError"
| "py_index _ i = Inl TypeError"

definition local_source :: ustr where "local_source = u ''Local DB '' @ [0x1F4BE]"

text \<open>\<open>except (ValueError, TypeError): pass\<close> around the year filter.\<close>

definition catch_value_type :: "py_exc + bool \<Rightarrow> py_exc + bool" where
  "catch_value_type r =
     (case r of Inl e \<Rightarrow> (if e = ValueError \<or> e = TypeError then Inr False else Inl e) | Inr b \<Rightarrow> Inr b)"

text \<open>The year filter of one metadata dict; \<open>Inr True\<close> is \<open>continue\<close>.\<close>

definition local_skip :: "unicode_db \<Rightarrow> int \<Rightarrow> int \<Rightarrow> bool \<Rightarrow> jval \<Rightarrow> py_exc + bool" where
  "local_skip db year_min year_max filter_year meta =
     (if filter_year then
        (case dict_get meta (u ''year'') (JStr []) of
           Inl e \<Rightarrow> Inl e
         | Inr y \<Rightarrow>
             catch_value_type
               (case py_float db (py_strip (py_str db y)) of
                  Inl e \<Rightarrow> Inl e
                | Inr f \<Rightarrow>
                    (case float_int f of
                       Inl e \<Rightarrow> Inl e
                     | Inr year \<Rightarrow> Inr (year < year_min \<or> year > year_max))))
      else Inr False)"

text \<open>The movie dict of the \<open>i\<close>-th result; the dict's values are computed in order.\<close>

definition local_movie :: "unicode_db \<Rightarrow> jval \<Rightarrow> jval \<Rightarrow> nat \<Rightarrow> py_exc + movie" where
  "local_movie db meta docs i =
     (case dict_get meta (u ''title'') (JStr (u ''Unknown'')) of
        Inl e \<Rightarrow> Inl e
      | Inr t \<Rightarrow>
     (case dict_get meta (u ''year'') (JStr (u ''Unknown'')) of
        Inl e \<Rightarrow> Inl e
      | Inr y \<Rightarrow>
     (case dict_get meta (u ''genre'') (JStr (u ''Unknown'')) of
        Inl e \<Rightarrow> Inl e
      | Inr g \<Rightarrow>
     (case py_index docs i of
        Inl e \<Rightarrow> Inl e
      | Inr ov \<Rightarrow>
          Inr \<lparr>m_title = t, m_year = JStr (py_str db y), m_genre = g, m_overview = ov,
               m_rating = JStr (u ''N/A''), m_poster = None, m_source = local_source\<rparr>))))"

text \<open>\<open>for i, meta in enumerate(results['metadatas'][0])\<close>, with the movies so far.\<close>

fun local_loop ::
    "unicode_db \<Rightarrow> int \<Rightarrow> int \<Rightarrow> int \<Rightarrow> bool \<Rightarrow> jval \<Rightarrow> nat \<Rightarrow> jval list \<Rightarrow> movie list
     \<Rightarrow> py_exc + movie list" where
  "local_loop db n year_min year_max fy docs i [] movies = Inr movies"
| "local_loop db n year_min year_max fy docs i (meta # metas) movies =
     (case local_skip db year_min year_max fy meta of
        Inl e \<Rightarrow> Inl e
      | Inr True \<Rightarrow> local_loop db n year_min year_max fy docs (Suc i) metas movies
      | Inr False \<Rightarrow>
          (case local_movie db meta docs i of
             Inl e \<Rightarrow> Inl e
           | Inr m \<Rightarrow>
               (if int (length (movies @ [m])) \<ge> n then Inr (movies @ [m])
                else local_loop db n year_min year_max fy docs (Suc i) metas (movies @ [m]))))"

definition search_local ::
    "unicode_db \<Rightarrow> (ustr \<Rightarrow> int \<Rightarrow> py_exc + jval) \<Rightarrow> ustr \<Rightarrow> int \<Rightarrow> int \<Rightarrow> int \<Rightarrow> bool
     \<Rightarrow> py_exc + movie list" where
  "search_local db collection_query query n_results year_min year_max filter_year =
     (case collection_query query (n_results * 10) of
        Inl e \<Rightarrow> Inl e
      | Inr results \<Rightarrow>
     (case dict_index results (u ''documents'') of
        Inl e \<Rightarrow> Inl e
      | Inr dss \<Rightarrow>
     (case py_index0 dss of
        Inl e \<Rightarrow> Inl e
      | Inr docs \<Rightarrow>
          (if \<not> py_truthy docs then Inr []
           else
     (case dict_index results (u ''metadatas'') of
        Inl e \<Rightarrow> Inl e
      | Inr mss \<Rightarrow>
     (case py_index0 mss of
        Inl e \<Rightarrow> Inl e
      | Inr metas \<Rightarrow>
     (case py_iter metas of
        Inl e \<Rightarrow> Inl e
      | Inr items \<Rightarrow> local_loop db n_results year_min year_max filter_year docs 0 items [])))))))"

subsection \<open>\<open>hybrid_search\<close>\<close>

definition src_tmdb :: ustr where "src_tmdb = u ''TMDB API '' @ [0x1F310]"

definition src_both :: ustr where "src_both = u ''Both''"

text \<open>\<open>m['genre'] = resolve_genres(m['genre'])\<close>: \<open>resolve_genres\<close> of a value that
  is not a string returns \<open>Unknown\<close> when it is falsy and fails at \<open>.split\<close>
  otherwise.\<close>

definition resolve_genres_val :: "(ustr \<times> jval) list \<Rightarrow> jval \<Rightarrow> py_exc + ustr" where
  "resolve_genres_val gmap v =
     (case v of
        JStr s \<Rightarrow> resolve_genres gmap s
      | _ \<Rightarrow> (if py_truthy v then Inl AttributeError else Inr (u ''Unknown'')))"

fun resolve_all :: "(ustr \<times> jval) list \<Rightarrow> movie list \<Rightarrow> py_exc + movie list" where
  "resolve_all gmap [] = Inr []"
| "resolve_all gmap (m # ms) =
     (case resolve_genres_val gmap (m_genre m) of
        Inl e \<Rightarrow> Inl e
      | Inr g \<Rightarrow> (case resolve_all gmap ms of Inl e \<Rightarrow> Inl e | Inr ms' \<Rightarrow> Inr (m\<lparr>m_genre := JStr g\<rparr> # ms')))"

text \<open>\<open>m['title'].lower()\<close>: only a string has \<open>lower\<close>.\<close>

fun title_key :: "unicode_db \<Rightarrow> jval \<Rightarrow> py_exc + ustr" where
  "title_key db (JStr s) = Inr (py_lower db s)"
| "title_key db _ = Inl AttributeError"

text \<open>The loop over \<open>movies\<close> with the set \<open>seen\<close> of lower-cased titles.\<close>

fun dedupe :: "unicode_db \<Rightarrow> ustr list \<Rightarrow> movie list \<Rightarrow> py_exc + movie list" where
  "dedupe db seen [] = Inr []"
| "dedupe db seen (m # ms) =
     (case title_key db (m_title m) of
        Inl e \<Rightarrow> Inl e
      | Inr k \<Rightarrow>
          (if k \<in> set seen then dedupe db seen ms
           else (case dedupe db (k # seen) ms of Inl e \<Rightarrow> Inl e | Inr us \<Rightarrow> Inr (m # us))))"

text \<open>The slice \<open>xs[:n]\<close> of a list for an \<open>int\<close> bound: a negative bound counts from the end.\<close>

definition py_take :: "int \<Rightarrow> 'a list \<Rightarrow> 'a list" where
  "py_take n xs = (if n \<ge> 0 then take (nat n) xs else take (nat (int (length xs) + n)) xs)"

text \<open>\<open>hybrid_search\<close>: the warning \<open>search_tmdb\<close> showed, if any, and the merged
  movies or the exception that left the function.\<close>

definition hybrid_search ::
    "unicode_db \<Rightarrow> (ustr \<times> jval) list \<Rightarrow> (tmdb_params \<Rightarrow> py_exc + jval) \<Rightarrow> (ustr \<Rightarrow> int \<Rightarrow> py_exc + jval)
     \<Rightarrow> ustr \<Rightarrow> int \<Rightarrow> ustr \<Rightarrow> int \<Rightarrow> int \<Rightarrow> bool \<Rightarrow> py_exc option \<times> (py_exc + movie list)" where
  "hybrid_search db gmap fetch collection_query query n_results source year_min year_max filter_year =
     (let use_tmdb = (source = src_tmdb \<or> source = src_both);
          use_local = (source = local_source \<or> source = src_both);
          (warn, tmdb_results) =
            (if use_tmdb then search_tmdb db gmap fetch query n_results year_min year_max filter_year
             else (None, []));
          movies =
            (case (if use_tmdb then resolve_all gmap tmdb_results else Inr []) of
               Inl e \<Rightarrow> Inl e
             | Inr ms \<Rightarrow>
                 (if use_local then
                    (case search_local db collection_query query n_results year_min year_max filter_year of
                       Inl e \<Rightarrow> Inl e
                     | Inr ls \<Rightarrow> Inr (ms @ ls))
                  else Inr ms))
      in (warn, case movies of
                  Inl e \<Rightarrow> Inl e
                | Inr ms \<Rightarrow> (case dedupe db [] ms of Inl e \<Rightarrow> Inl e | Inr us \<Rightarrow> Inr (py_take n_results us))))"


subsection \<open>The properties' vocabulary\<close>

text \<open>Two results dicts of the collection: a movie whose year is the string \<open>inf\<close>,
  and two movies, one with a title that differs from TMDB's \<open>Heat\<close> only in case.\<close>

definition inf_year_results :: jval where
  "inf_year_results = JObj [(u ''documents'', JArr [JArr [JStr (u ''A heist crew ...'')]]),
     (u ''metadatas'', JArr [JArr [JObj [(u ''title'', JStr (u ''Heat'')), (u ''year'', JStr (u ''inf''))]]])]"

definition two_local_results :: jval where
  "two_local_results = JObj [(u ''documents'', JArr [JArr [JStr (u ''LA cops''), JStr (u ''Paris job'')]]),
     (u ''metadatas'', JArr [JArr [JObj [(u ''title'', JStr (u ''HEAT'')), (u ''year'', JInt 1995)],
                                   JObj [(u ''title'', JStr (u ''Ronin'')), (u ''year'', JInt 1998)]]])]"

subsection \<open>Properties of the local search and the merge\<close>


lemma nbits_less: "n < 2 ^ nbits n"
proof (induction n rule: nbits.induct)
  case (1 n)
  then show ?case by (cases "n = 0") (auto simp: nbits.simps[of n])
qed

lemma nbits_le: "n < 2 ^ k \<Longrightarrow> nbits n \<le> k"
proof (induction n arbitrary: k rule: nbits.induct)
  case (1 n)
  show ?case
  proof (cases "n = 0")
    case False
    with "1.prems" obtain k' where k: "k = Suc k'" by (cases k) auto
    with "1.prems" have "n div 2 < 2 ^ k'" by simp
    with "1.IH" False k show ?thesis by (simp add: nbits.simps[of n])
  qed (simp add: nbits.simps)
qed

lemma nbits_pos: "0 < n \<Longrightarrow> 0 < nbits n"
  by (simp add: nbits.simps)

lemma rne_one [simp]: "rne n (Suc 0) = n"
  by (simp add: rne_def)

lemma round_double_int:
  assumes "0 < n" "n < 2 ^ 53"
  shows "float_int (round_double neg n 0) = Inr (if neg then - int n else int n)"
proof -
  have b: "0 < nbits n" "nbits n \<le> 53" using assms nbits_pos nbits_le by auto
  define e where "e = int (nbits n) - 53"
  have fl: "flog2 n 1 = int (nbits n) - 1" using assms by (simp add: flog2_def)
  have e: "max (flog2 (n * 10 ^ nat 0) (10 ^ nat (- 0)) - 52) (-1074) = e"
    using fl b by (simp add: e_def)
  have ne: "nat e = 0" "nat (- e) = 53 - nbits n" using b by (auto simp: e_def)
  have m: "n * 2 ^ (53 - nbits n) < 2 ^ 53"
  proof -
    have "n < 2 ^ nbits n" by (rule nbits_less)
    then have "n * 2 ^ (53 - nbits n) < 2 ^ nbits n * 2 ^ (53 - nbits n)" by simp
    also have "\<dots> = 2 ^ 53" using b by (simp flip: power_add)
    finally show ?thesis .
  qed
  also have "(2::nat) ^ 53 \<le> 2 ^ 1024" by (rule power_increasing) auto
  finally have nov: "\<not> n * 2 ^ (53 - nbits n) \<ge> 2 ^ 1024" by simp
  have "round_double neg n 0 = PFin neg (n * 2 ^ (53 - nbits n)) e"
    using assms nov unfolding round_double_def Let_def e ne by simp
  moreover have "(if 0 \<le> e then n * 2 ^ (53 - nbits n) * 2 ^ nat e
                  else n * 2 ^ (53 - nbits n) div 2 ^ nat (- e)) = n"
    using ne by simp
  ultimately show ?thesis by (simp add: float_int_def)
qed

lemma nat_str_ne: "nat_str n \<noteq> []"
  by (subst nat_str.simps) simp

lemma nat_str_digits: "list_all is_digit (nat_str n)"
proof (induction n rule: nat_str.induct)
  case (1 n)
  then show ?case by (subst nat_str.simps) (auto simp: is_digit_def list_all_iff)
qed

lemma dec_digits_snoc: "dec_digits (xs @ [c]) = 10 * dec_digits xs + (c - 48)"
  by (simp add: dec_digits_def)

lemma dec_digits_nat_str [simp]: "dec_digits (nat_str n) = n"
proof (induction n rule: nat_str.induct)
  case (1 n)
  then show ?case by (subst nat_str.simps) (auto simp: dec_digits_snoc, simp add: dec_digits_def)
qed

lemma digits_no_space: "list_all is_digit xs \<Longrightarrow> dropWhile c_space xs = xs"
  by (cases xs) (auto simp: is_digit_def c_space_def)

lemma digits_underscores_ok: "list_all is_digit xs \<Longrightarrow> prev \<noteq> 95 \<Longrightarrow> underscores_ok prev xs"
  by (induction xs arbitrary: prev) (auto simp: is_digit_def)

lemma digits_float_char: "list_all is_digit xs \<Longrightarrow> map (float_char db) xs = xs"
  by (induction xs) (auto simp: is_digit_def float_char_def)

lemma digits_decimal_parse:
  "list_all is_digit xs \<Longrightarrow> xs \<noteq> [] \<Longrightarrow> decimal_parse xs = Some (dec_digits xs, 0)"
proof -
  assume d: "list_all is_digit xs" "xs \<noteq> []"
  then have tw: "takeWhile is_digit xs = xs" and dw: "dropWhile is_digit xs = []"
    by (simp_all add: list_all_iff)
  show ?thesis unfolding decimal_parse_def Let_def tw dw using d(2) by (simp add: exp_part_def)
qed

lemma py_float_digits:
  assumes "list_all is_digit xs" "xs \<noteq> []"
  shows "py_float db xs = Inr (round_double False (dec_digits xs) 0)"
proof -
  obtain c r where xs: "xs = c # r" using assms(2) by (cases xs) auto
  have c: "c \<noteq> 45" "c \<noteq> 43" using assms(1) xs by (auto simp: is_digit_def)
  have f: "filter (\<lambda>c. c \<noteq> 95) xs = xs" using assms(1) by (force simp: list_all_iff is_digit_def filter_id_conv)
  have r: "list_all is_digit (rev xs)" using assms(1) by (simp add: list_all_iff)
  have "float_parse xs = Some (round_double False (dec_digits xs) 0)"
    using c digits_decimal_parse[OF assms] by (simp add: float_parse_def xs)
  then show ?thesis
    using assms digits_float_char digits_underscores_ok[OF assms(1), of 0] f
      digits_no_space[OF assms(1)] digits_no_space[OF r]
    by (simp add: py_float_def)
qed

text \<open>
  The year filter's \<open>int(float(s))\<close> gives back every natural number below
  \<open>2^53\<close> from its decimal string: parsing, rounding to a double and truncation
  lose nothing there.
\<close>

theorem int_float_nat_str:
  "n < 2 ^ 53 \<Longrightarrow> (case py_float db (nat_str n) of Inl e \<Rightarrow> Inl e | Inr f \<Rightarrow> float_int f) = Inr (int n)"
proof -
  assume n: "n < 2 ^ 53"
  have "py_float db (nat_str n) = Inr (round_double False n 0)"
    using py_float_digits[of "nat_str n" db] nat_str_digits nat_str_ne by simp
  moreover have "float_int (round_double False n 0) = Inr (int n)"
  proof (cases "n = 0")
    case True
    then show ?thesis by (simp add: round_double_def float_int_def)
  qed (use n round_double_int in simp)
  ultimately show ?thesis by simp
qed

lemma digits_strip: "list_all is_digit xs \<Longrightarrow> py_strip xs = xs"
proof -
  have d: "list_all is_digit ys \<Longrightarrow> dropWhile py_isspace ys = ys" for ys
    by (cases ys) (auto simp: is_digit_def py_isspace_def)
  assume "list_all is_digit xs"
  then show ?thesis by (simp add: py_strip_def d)
qed

lemma py_str_year:
  "v = JInt (int y) \<or> v = JStr (nat_str y) \<Longrightarrow> py_strip (py_str db v) = nat_str y"
  by (auto simp: py_str_int_def digits_strip nat_str_digits)

text \<open>
  C28. With the year filter on, a local movie whose metadata year is a natural number
  below \<open>2^53\<close>, stored as an \<open>int\<close> or as its decimal string, is skipped exactly when the
  year lies outside \<open>[year_min, year_max]\<close>.
\<close>

theorem local_skip_year:
  assumes "dict_get meta (u ''year'') (JStr []) = Inr v" "v = JInt (int y) \<or> v = JStr (nat_str y)" "y < 2 ^ 53"
  shows "local_skip db year_min year_max True meta = Inr (int y < year_min \<or> year_max < int y)"
  using assms int_float_nat_str [OF assms(3), of db] py_str_year [OF assms(2), of db]
  by (auto simp: local_skip_def catch_value_type_def split: sum.splits)

lemma dedupe_distinct:
  "dedupe db seen ms = Inr us \<Longrightarrow>
   distinct (map (\<lambda>m. title_key db (m_title m)) us) \<and>
   list_all (\<lambda>m. \<exists>k. title_key db (m_title m) = Inr k \<and> k \<notin> set seen) us"
proof (induction db seen ms arbitrary: us rule: dedupe.induct)
  case (2 db seen m ms)
  show ?case
  proof (cases "title_key db (m_title m)")
    case (Inr k)
    show ?thesis
    proof (cases "k \<in> set seen")
      case True
      with 2 Inr show ?thesis by simp
    next
      case False
      with "2.prems" Inr obtain us' where us': "dedupe db (k # seen) ms = Inr us'" "us = m # us'"
        by (auto split: sum.splits)
      from "2.IH"(2)[OF Inr False us'(1)] have
        "distinct (map (\<lambda>m. title_key db (m_title m)) us')"
        "list_all (\<lambda>m. \<exists>k'. title_key db (m_title m) = Inr k' \<and> k' \<notin> set (k # seen)) us'"
        by auto
      then show ?thesis using us'(2) Inr False by (auto simp: list_all_iff)
    qed
  qed (use "2.prems" in simp)
qed simp

lemma py_take_distinct: "distinct xs \<Longrightarrow> distinct (py_take n xs)"
  by (simp add: py_take_def)

lemma py_take_length: "0 \<le> n \<Longrightarrow> length (py_take n xs) \<le> nat n"
  by (simp add: py_take_def)

text \<open>
  C29. When \<open>hybrid_search\<close> returns, no two of its movies have the same lower-cased
  title, and there are at most \<open>n_results\<close> of them.
\<close>

theorem hybrid_search_unique:
  "hybrid_search db gmap fetch collection_query query n_results source year_min year_max filter_year = (w, Inr ms)
   \<Longrightarrow> 0 \<le> n_results
   \<Longrightarrow> distinct (map (\<lambda>m. title_key db (m_title m)) ms) \<and> length ms \<le> nat n_results"
proof -
  assume h: "hybrid_search db gmap fetch collection_query query n_results source year_min year_max filter_year = (w, Inr ms)"
    and n: "0 \<le> n_results"
  then obtain all us where d: "dedupe db [] all = Inr us" and ms: "ms = py_take n_results us"
    unfolding hybrid_search_def Let_def by (auto split: prod.splits sum.splits if_splits)
  from dedupe_distinct[OF d] have "distinct (map (\<lambda>m. title_key db (m_title m)) us)" ..
  then have "distinct (map (\<lambda>m. title_key db (m_title m)) ms)"
    unfolding ms py_take_def by (simp add: take_map[symmetric])
  with py_take_length[OF n] ms show ?thesis by simp
qed

lemma source_labels: "src_tmdb \<noteq> local_source" "src_tmdb \<noteq> src_both" "local_source \<noteq> src_both"
  by (simp_all add: src_tmdb_def local_source_def src_both_def u_def)

text \<open>
  The search source selects the parts that run: with \<open>TMDB API\<close> the local collection
  is never queried, and with \<open>Local DB\<close> TMDB is never requested and no warning is shown.
\<close>

theorem hybrid_search_sources:
  "hybrid_search db gmap fetch cq query n src_tmdb ymin ymax fy = hybrid_search db gmap fetch cq' query n src_tmdb ymin ymax fy \<and>
   hybrid_search db gmap fetch cq query n local_source ymin ymax fy = hybrid_search db gmap fetch' cq query n local_source ymin ymax fy \<and>
   fst (hybrid_search db gmap fetch cq query n local_source ymin ymax fy) = None"
  using source_labels by (simp add: hybrid_search_def Let_def split: prod.split cong: sum.case_cong)

lemma local_skip_overflow:
  "dict_get meta (u ''year'') (JStr []) = Inr y \<Longrightarrow> py_float db (py_strip (py_str db y)) = Inr (PInf neg)
   \<Longrightarrow> local_skip db year_min year_max True meta = Inl OverflowError"
  by (simp add: local_skip_def float_int_def catch_value_type_def)

text \<open>
  C30. With the year filter on, a local movie whose year reads as an infinite float
  (\<open>inf\<close>, \<open>1e999\<close>) makes \<open>search_local\<close> raise \<open>OverflowError\<close>: the
  \<open>except (ValueError, TypeError)\<close> around \<open>int(float(...))\<close> does not catch it.
\<close>

theorem search_local_year_overflow:
  assumes "collection_query query (n_results * 10) = Inr results"
    and "dict_index results (u ''documents'') = Inr (JArr (docs # rd))" and "py_truthy docs"
    and "dict_index results (u ''metadatas'') = Inr (JArr (JArr (meta # metas) # rm))"
    and "dict_get meta (u ''year'') (JStr []) = Inr y"
    and "py_float db (py_strip (py_str db y)) = Inr (PInf neg)"
  shows "search_local db collection_query query n_results year_min year_max True = Inl OverflowError"
  using assms local_skip_overflow[OF assms(5,6)] by (simp add: search_local_def)

lemma heat_hybrid_search:
  "\<exists>ms. hybrid_search ascii_db action_genres (\<lambda>_. Inr heat_response) (\<lambda>_ _. Inr two_local_results)
    (u ''heat'') 3 src_both 1900 2025 False = (None, Inr ms) \<and> length ms = 2"
  by (simp add: hybrid_search_def search_tmdb_def search_tmdb_with_def search_local_def heat_response_def
        two_local_results_def action_genres_def jget_def u_def src_both_def src_tmdb_def local_source_def
        tmdb_movie_def year_str_of_def skip_year_def genre_names_def str_dict_get_def join_strs_def poster_of_def
        tmdb_request_def local_skip_def local_movie_def resolve_genres_def py_split_def py_strip_def
        py_isspace_def py_lower_def lower_cp_def resolve_genres_val_def py_take_def py_str_int_def nat_str.simps Let_def)

theorem search_local_year_overflow_witness:
  "search_local ascii_db (\<lambda>_ _. Inr inf_year_results) (u ''heat'') 3 1970 2025 True = Inl OverflowError"
proof -
  have f: "py_float ascii_db (py_strip (py_str ascii_db (JStr (u ''inf'')))) = Inr (PInf False)"
    by (simp add: py_float_def u_def float_char_def py_strip_def py_isspace_def c_space_def
        float_parse_def decimal_parse_def is_digit_def ascii_lower_def)
  have y: "dict_get (JObj [(u ''title'', JStr (u ''Heat'')), (u ''year'', JStr (u ''inf''))]) (u ''year'') (JStr [])
      = Inr (JStr (u ''inf''))"
    by (simp add: jget_def u_def)
  show ?thesis
    by (rule search_local_year_overflow[where results = inf_year_results and docs = "JArr [JStr (u ''A heist crew ...'')]"
        and rd = "[]" and rm = "[]" and metas = "[]", OF _ _ _ _ y f])
       (simp_all add: inf_year_results_def jget_def u_def)
qed

theorem hybrid_search_unique_witness:
  "0 \<le> (3::int) \<and> (\<exists>ms. hybrid_search ascii_db action_genres (\<lambda>_. Inr heat_response) (\<lambda>_ _. Inr two_local_results)
      (u ''heat'') 3 src_both 1900 2025 False = (None, Inr ms) \<and>
      distinct (map (\<lambda>m. title_key ascii_db (m_title m)) ms) \<and> length ms \<le> 3 \<and> length ms = 2)"
proof -
  obtain ms where h: "hybrid_search ascii_db action_genres (\<lambda>_. Inr heat_response) (\<lambda>_ _. Inr two_local_results)
      (u ''heat'') 3 src_both 1900 2025 False = (None, Inr ms)" and l: "length ms = 2"
    using heat_hybrid_search by blast
  show ?thesis using hybrid_search_unique[OF h] h l by auto
qed

theorem local_skip_year_witness:
  "local_skip ascii_db 1990 2000 True (JObj [(u ''title'', JStr (u ''Heat'')), (u ''year'', JInt 1995)]) = Inr False"
  using local_skip_year [of "JObj [(u ''title'', JStr (u ''Heat'')), (u ''year'', JInt 1995)]" "JInt 1995" 1995 ascii_db 1990 2000]
  by (simp add: jget_def u_def)

end
