(* ===== verification/Resolver.thy ===== *)
theory Resolver
  imports Prelude "HOL-Library.While_Combinator"
begin

text \<open>
  The recipe resolver: \<open>clean_dish_name\<close> and \<open>search_recipe_smart\<close>
  (src/app/main.py, lines 220--277; the copies in src/app/cloud_app.py, lines 155--174
  and 211--234, are the same code).  The external lookup \<open>search_recipe\<close> is a
  parameter \<open>lookup :: ustr \<Rightarrow> 'r option\<close>: \<open>None\<close> is the code's \<open>None\<close>, the
  result for no meal and for every network or parsing failure, and a record is
  always truthy, so \<open>if recipe:\<close> is \<open>Some\<close>.  Each call of the lookup is an
  effect; the model returns, next to the result, the list of queries issued in order.
\<close>

definition flair_words :: "ustr list" where
  "flair_words = map u
     [''seduction'', ''romantic'', ''passionate'', ''cozy'', ''spooky'',
      ''dreamy'', ''magical'', ''enchanted'', ''ultimate'', ''perfect'',
      ''date night'', ''love'', ''special'', ''delicious'', ''homemade'',
      ''gourmet'', ''classic'', ''authentic'', ''traditional'', ''famous'',
      ''epic'', ''heavenly'', ''divine'', ''sinful'', ''decadent'',
      ''lusty'', ''fiery'', ''sizzling'', ''steamy'', ''midnight'',
      ''moonlit'', ''candlelit'', ''sultry'', ''sensual'', ''forbidden'',
      ''irresistible'', ''tempting'', ''indulgent'', ''luxurious'']"

text \<open>The cleaning with the denylist as a parameter, and the code's instance.\<close>

definition clean_with :: "ustr list \<Rightarrow> unicode_db \<Rightarrow> ustr \<Rightarrow> ustr" where
  "clean_with flair db dish_name =
     (let s1 = keep_chars db dish_name;
          words = py_split_ws s1;
          cleaned_words = filter (\<lambda>w. py_strip (py_lower db w) \<notin> set flair) words;
          s2 = py_strip (py_join [SP] cleaned_words)
      in py_strip (collapse_ws s2))"

definition clean_dish_name :: "unicode_db \<Rightarrow> ustr \<Rightarrow> ustr" where
  "clean_dish_name db dish_name = clean_with flair_words db dish_name"

subsection \<open>The three steps of the search\<close>

text \<open>Step 2: \<open>while len(words) > 1: words.pop(0); attempt = " ".join(words)\<close>.\<close>

fun trim_loop :: "(ustr \<Rightarrow> 'r option) \<Rightarrow> ustr list \<Rightarrow> 'r option \<times> ustr list" where
  "trim_loop lookup words =
     (if 1 < length words then
        (let attempt = py_join [SP] (tl words) in
         case lookup attempt of
           Some r \<Rightarrow> (Some r, [attempt])
         | None \<Rightarrow> (let (res, qs) = trim_loop lookup (tl words) in (res, attempt # qs)))
      else (None, []))"

text \<open>The same loop as the code runs it, as \<open>while_option\<close> over the mutable state:
  the list \<open>words\<close>, the last \<open>recipe\<close> (a hit is the \<open>return\<close> that leaves the loop),
  and the queries issued so far.  \<open>None\<close> would be a run that never stops.\<close>

definition trim_step :: "(ustr \<Rightarrow> 'r option) \<Rightarrow> ustr list \<times> 'r option \<times> ustr list \<Rightarrow> ustr list \<times> 'r option \<times> ustr list" where
  "trim_step lookup s =
     (case s of (words, _, log) \<Rightarrow>
        (let words' = tl words; attempt = py_join [SP] words' in (words', lookup attempt, log @ [attempt])))"

definition trim_cond :: "ustr list \<times> 'r option \<times> ustr list \<Rightarrow> bool" where
  "trim_cond s = (case s of (words, recipe, _) \<Rightarrow> 1 < length words \<and> recipe = None)"

definition trim_while :: "(ustr \<Rightarrow> 'r option) \<Rightarrow> ustr list \<Rightarrow> (ustr list \<times> 'r option \<times> ustr list) option" where
  "trim_while lookup words =
     while_option trim_cond (trim_step lookup) (words, None, [])"

text \<open>Step 3: \<open>for word in words: if len(word) > 3: ...\<close>.\<close>

fun word_loop :: "(ustr \<Rightarrow> 'r option) \<Rightarrow> ustr list \<Rightarrow> 'r option \<times> ustr list" where
  "word_loop lookup [] = (None, [])"
| "word_loop lookup (w # ws) =
     (if 3 < length w then
        (case lookup w of
           Some r \<Rightarrow> (Some r, [w])
         | None \<Rightarrow> (let (res, qs) = word_loop lookup ws in (res, w # qs)))
      else word_loop lookup ws)"

text \<open>\<open>words.sort(key=len, reverse=True)\<close>: Python's sort is stable, and with
  \<open>reverse=True\<close> equal keys keep their order.\<close>

definition sort_len_desc :: "ustr list \<Rightarrow> ustr list" where
  "sort_len_desc ws = sort_key (\<lambda>w. - int (length w)) ws"

definition search_recipe_smart_log ::
    "(ustr \<Rightarrow> 'r option) \<Rightarrow> unicode_db \<Rightarrow> ustr \<Rightarrow> 'r option \<times> ustr list" where
  "search_recipe_smart_log lookup db dish_name =
     (let cleaned = clean_dish_name db dish_name in
      case lookup cleaned of
        Some r \<Rightarrow> (Some r, [cleaned])
      | None \<Rightarrow>
          (case trim_loop lookup (py_split_ws cleaned) of
             (Some r, qs) \<Rightarrow> (Some r, cleaned # qs)
           | (None, qs) \<Rightarrow>
               (let (res, qs') = word_loop lookup (sort_len_desc (py_split_ws cleaned))
                in (res, cleaned # qs @ qs'))))"

definition search_recipe_smart :: "(ustr \<Rightarrow> 'r option) \<Rightarrow> unicode_db \<Rightarrow> ustr \<Rightarrow> 'r option" where
  "search_recipe_smart lookup db dish_name = fst (search_recipe_smart_log lookup db dish_name)"

subsection \<open>The specification: a stream of candidate queries\<close>

text \<open>
  The queries the resolver may issue, in order: the cleaned name, its suffixes after
  dropping one, two, ... leading words, then the words of more than three characters,
  longest first.  \<open>first_hit\<close> consumes them until a lookup succeeds.
\<close>

definition resolver_candidates :: "unicode_db \<Rightarrow> ustr \<Rightarrow> ustr list" where
  "resolver_candidates db dish_name =
     (let cleaned = clean_dish_name db dish_name; ws = py_split_ws cleaned in
      cleaned # map (\<lambda>k. py_join [SP] (drop k ws)) [1..<length ws]
        @ filter (\<lambda>w. 3 < length w) (sort_len_desc ws))"

fun first_hit :: "(ustr \<Rightarrow> 'r option) \<Rightarrow> ustr list \<Rightarrow> 'r option \<times> ustr list" where
  "first_hit lookup [] = (None, [])"
| "first_hit lookup (q # qs) =
     (case lookup q of
        Some r \<Rightarrow> (Some r, [q])
      | None \<Rightarrow> (let (res, l) = first_hit lookup qs in (res, q # l)))"

subsection \<open>The cleaning\<close>

lemma clean_with_eq:
  "clean_with flair db d =
     py_join [SP] (filter (\<lambda>w. py_strip (py_lower db w) \<notin> set flair) (py_split_ws (keep_chars db d)))"
proof -
  let ?ws = "filter (\<lambda>w. py_strip (py_lower db w) \<notin> set flair) (py_split_ws (keep_chars db d))"
  have ok: "list_all word_ok ?ws" using py_split_ws_words by (auto simp: list_all_iff)
  show ?thesis by (simp add: clean_with_def Let_def py_strip_join [OF ok] collapse_ws_join [OF ok])
qed

declare trim_loop.simps [simp del]

lemma trim_step_simp [simp]:
  "trim_step lk (ws, r, log) = (tl ws, lk (py_join [SP] (tl ws)), log @ [py_join [SP] (tl ws)])"
  by (simp add: trim_step_def Let_def)

lemma trim_cond_simp [simp]: "trim_cond (ws, r, log) \<longleftrightarrow> 1 < length ws \<and> r = None"
  by (simp add: trim_cond_def)

lemma trim_while_loop:
  "\<exists>ws'. while_option trim_cond (trim_step lk) (ws, None, log)
      = Some (ws', fst (trim_loop lk ws), log @ snd (trim_loop lk ws))"
proof (induction lk ws arbitrary: log rule: trim_loop.induct)
  case (1 lk ws)
  show ?case
  proof (cases "1 < length ws")
    case True
    let ?a = "py_join [SP] (tl ws)"
    show ?thesis
    proof (cases "lk ?a")
      case None
      with True "1.IH" [OF True refl None, of "log @ [?a]"] show ?thesis
        by (subst while_option_unfold) (auto simp: trim_loop.simps [of lk ws] split: prod.split)
    next
      case (Some r)
      with True show ?thesis
        by (subst while_option_unfold, subst while_option_unfold)
           (simp add: trim_loop.simps [of lk ws])
    qed
  next
    case False
    then show ?thesis by (subst while_option_unfold) (simp add: trim_loop.simps [of lk ws])
  qed
qed

text \<open>
  C27. The step-2 \<open>while\<close> loop of \<open>search_recipe_smart\<close> stops for every lookup and
  every word list: each round pops a word from a list of more than one.  When it stops,
  its recipe and its queries are those of the recursive \<open>trim_loop\<close>.
\<close>

theorem trim_while_terminates:
  "\<exists>ws'. trim_while lookup words = Some (ws', trim_loop lookup words)"
  using trim_while_loop [of lookup words "[]"] by (simp add: trim_while_def)

lemma first_hit_append:
  "first_hit lk (xs @ ys) =
     (case first_hit lk xs of (Some r, l) \<Rightarrow> (Some r, l)
      | (None, l) \<Rightarrow> (let (res, l') = first_hit lk ys in (res, l @ l')))"
  by (induction xs) (auto split: option.split prod.split)

lemma word_loop_first_hit: "word_loop lk ws = first_hit lk (filter (\<lambda>w. 3 < length w) ws)"
  by (induction ws) (auto split: option.split prod.split)

lemma trim_loop_first_hit:
  "trim_loop lk ws = first_hit lk (map (\<lambda>k. py_join [SP] (drop k ws)) [1..<length ws])"
proof (induction lk ws rule: trim_loop.induct)
  case (1 lk ws)
  show ?case
  proof (cases "1 < length ws")
    case True
    then obtain w ws' where ws: "ws = w # ws'" and "ws' \<noteq> []" by (cases ws) auto
    then have "0 < length ws'" by simp
    then have "[1..<length ws] = 1 # [Suc 1..<Suc (length ws')]"
      by (simp add: ws upt_conv_Cons del: upt_Suc)
    then have eq: "map (\<lambda>k. py_join [SP] (drop k ws)) [1..<length ws]
        = py_join [SP] (tl ws) # map (\<lambda>k. py_join [SP] (drop k (tl ws))) [1..<length (tl ws)]"
      by (simp add: ws map_Suc_upt [symmetric] comp_def del: upt_Suc)
    show ?thesis
      unfolding eq using True "1.IH"
      by (simp add: trim_loop.simps [of lk ws] split: option.split prod.split)
  next
    case False
    then show ?thesis by (simp add: trim_loop.simps [of lk ws])
  qed
qed

lemma search_recipe_smart_log_first_hit:
  "search_recipe_smart_log lk db d = first_hit lk (resolver_candidates db d)"
  by (simp add: search_recipe_smart_log_def resolver_candidates_def Let_def first_hit_append
      trim_loop_first_hit word_loop_first_hit split: option.split prod.split)

lemma fst_first_hit: "fst (first_hit lk qs) = (case find (\<lambda>q. lk q \<noteq> None) qs of None \<Rightarrow> None | Some q \<Rightarrow> lk q)"
  by (induction qs) (auto split: option.split prod.split)

lemma snd_first_hit:
  "snd (first_hit lk qs) = takeWhile (\<lambda>q. lk q = None) qs @ take 1 (dropWhile (\<lambda>q. lk q = None) qs)"
  by (induction qs) (auto split: option.split prod.split)

text \<open>
  C3. The resolver implements its specification: the recipe it returns is the lookup
  of the first candidate query (cleaned name, its left-trimmed suffixes, then the words
  of more than three characters, longest first) on which the lookup succeeds, and
  nothing when every candidate misses.
\<close>
theorem search_recipe_smart_first_candidate:
  "search_recipe_smart lookup db dish_name =
     (case find (\<lambda>q. lookup q \<noteq> None) (resolver_candidates db dish_name) of
        None \<Rightarrow> None | Some q \<Rightarrow> lookup q)"
  by (simp add: search_recipe_smart_def search_recipe_smart_log_first_hit fst_first_hit)

text \<open>
  C4. The lookups the resolver issues are exactly the candidates up to and including
  the first hit, in order: every missed candidate is tried once, and none after a hit.
\<close>
theorem search_recipe_smart_queries:
  "snd (search_recipe_smart_log lookup db dish_name) =
     takeWhile (\<lambda>q. lookup q = None) (resolver_candidates db dish_name)
     @ take 1 (dropWhile (\<lambda>q. lookup q = None) (resolver_candidates db dish_name))"
  by (simp add: search_recipe_smart_log_first_hit snd_first_hit)

lemma length_snd_first_hit: "length (snd (first_hit lk qs)) \<le> length qs"
  by (induction qs) (auto split: option.split prod.split)

lemma snd_first_hit_None: "snd (first_hit (\<lambda>_. None) qs) = qs"
  by (induction qs) (auto split: prod.split)

lemma length_filter_sort_len_desc:
  "length (filter P (sort_len_desc ws)) = length (filter P ws)"
  by (simp add: sort_len_desc_def filter_sort)

lemma length_candidates:
  "length (resolver_candidates db d) =
     max 1 (length (py_split_ws (clean_dish_name db d)))
       + length (filter (\<lambda>w. 3 < length w) (py_split_ws (clean_dish_name db d)))"
  by (simp add: resolver_candidates_def Let_def length_filter_sort_len_desc)

text \<open>
  C13. The number of lookups: when every lookup misses, the resolver issues exactly
  one for the name and one for each of its \<open>n - 1\<close> suffixes (one in all when the name
  has no word) and one for each word longer than three characters; so it never issues
  more than \<open>max 1 (2n)\<close>, where \<open>n\<close> is the number of words of the cleaned name.
\<close>
theorem search_recipe_smart_lookups_bound:
  "length (snd (search_recipe_smart_log (\<lambda>_. None) db dish_name)) =
     max 1 (length (py_split_ws (clean_dish_name db dish_name)))
       + length (filter (\<lambda>w. 3 < length w) (py_split_ws (clean_dish_name db dish_name))) \<and>
   length (snd (search_recipe_smart_log lookup db dish_name))
     \<le> max 1 (2 * length (py_split_ws (clean_dish_name db dish_name)))"
proof
  show "length (snd (search_recipe_smart_log (\<lambda>_. None) db dish_name)) =
     max 1 (length (py_split_ws (clean_dish_name db dish_name)))
       + length (filter (\<lambda>w. 3 < length w) (py_split_ws (clean_dish_name db dish_name)))"
    by (simp add: search_recipe_smart_log_first_hit snd_first_hit_None length_candidates)
next
  let ?ws = "py_split_ws (clean_dish_name db dish_name)"
  have "length (resolver_candidates db dish_name) \<le> max 1 (2 * length ?ws)"
    using length_filter_le [of "\<lambda>w. 3 < length w" ?ws] unfolding length_candidates by linarith
  then show "length (snd (search_recipe_smart_log lookup db dish_name)) \<le> max 1 (2 * length ?ws)"
    using length_snd_first_hit [of lookup "resolver_candidates db dish_name"]
    by (simp add: search_recipe_smart_log_first_hit)
qed

text \<open>
  C6. The words of the cleaned name are the whitespace-separated words of the input,
  after removing every character other than word characters, whitespace, apostrophes
  and hyphens, minus the words whose lower-cased form is on the flair list.
\<close>
theorem clean_dish_name_words:
  "py_split_ws (clean_dish_name db dish_name) =
     filter (\<lambda>w. py_strip (py_lower db w) \<notin> set flair_words) (py_split_ws (keep_chars db dish_name))"
proof -
  have "list_all word_ok (filter (\<lambda>w. py_strip (py_lower db w) \<notin> set flair_words)
      (py_split_ws (keep_chars db dish_name)))"
    using py_split_ws_words by (auto simp: list_all_iff)
  then show ?thesis by (simp add: clean_dish_name_def clean_with_eq py_split_ws_join)
qed

lemma lower_cp_no_space:
  assumes "\<forall>c. \<not> py_isspace c \<longrightarrow> list_all (\<lambda>x. \<not> py_isspace x) (ucd_lower db c)" "\<not> py_isspace c"
  shows "list_all (\<lambda>x. \<not> py_isspace x) (lower_cp db c)"
proof (cases "c < 128")
  case True
  have "\<not> py_isspace (c + 32)" if "65 \<le> c" "c \<le> 90" using that by (simp add: py_isspace_def)
  then show ?thesis using True assms(2) by (simp add: lower_cp_def)
next
  case False
  then show ?thesis using assms by (simp add: lower_cp_def)
qed

lemma py_lower_word_no_space:
  assumes "\<forall>c. \<not> py_isspace c \<longrightarrow> list_all (\<lambda>x. \<not> py_isspace x) (ucd_lower db c)" "word_ok w"
  shows "SP \<notin> set (py_strip (py_lower db w))"
proof
  assume "SP \<in> set (py_strip (py_lower db w))"
  then have "SP \<in> set (py_lower db w)" using set_py_strip by blast
  then obtain c where "c \<in> set w" "SP \<in> set (lower_cp db c)" by (auto simp: py_lower_def)
  moreover have "\<not> py_isspace c" using assms(2) \<open>c \<in> set w\<close> by (simp add: word_ok_def list_all_iff)
  ultimately have "list_all (\<lambda>x. \<not> py_isspace x) (lower_cp db c)" "SP \<in> set (lower_cp db c)"
    using lower_cp_no_space [OF assms(1)] by auto
  moreover have "py_isspace SP" by (simp add: py_isspace_def)
  ultimately show False by (auto simp: list_all_iff)
qed

lemma clean_romantic_salmon: "clean_dish_name ascii_db (u ''Romantic Seared Salmon'') = u ''Seared Salmon''"
proof -
  have "keep_chars ascii_db (u ''Romantic Seared Salmon'') = u ''Romantic Seared Salmon''"
    by (simp add: keep_chars_def u_def keep_char_def is_word_def ascii_alnum_def py_isspace_def)
  moreover have "py_split_ws (u ''Romantic Seared Salmon'') = [u ''Romantic'', u ''Seared'', u ''Salmon'']"
    by (simp add: py_split_ws_def u_def py_isspace_def)
  moreover have "py_strip (py_lower ascii_db (u ''Romantic'')) \<in> set flair_words"
    "py_strip (py_lower ascii_db (u ''Seared'')) \<notin> set flair_words"
    "py_strip (py_lower ascii_db (u ''Salmon'')) \<notin> set flair_words"
    by (simp_all add: py_lower_def lower_cp_def u_def py_strip_def py_isspace_def flair_words_def)
  ultimately show ?thesis by (simp add: clean_dish_name_def clean_with_eq u_def)
qed

lemma keep_chars_join:
  "list_all (\<lambda>w. list_all (keep_char db) w) ws \<Longrightarrow> keep_chars db (py_join [SP] ws) = py_join [SP] ws"
  by (induction ws rule: induct_list012) (simp_all add: keep_chars_def list_all_iff keep_char_def py_isspace_def)

text \<open>
  C7. Cleaning a dish name is idempotent.
\<close>
theorem clean_dish_name_idem:
  "clean_dish_name db (clean_dish_name db dish_name) = clean_dish_name db dish_name"
proof -
  let ?P = "\<lambda>w. py_strip (py_lower db w) \<notin> set flair_words"
  let ?ws = "filter ?P (py_split_ws (keep_chars db dish_name))"
  have ok: "list_all word_ok ?ws" using py_split_ws_words by (auto simp: list_all_iff)
  have "set (concat ?ws) \<subseteq> set (keep_chars db dish_name)"
    using py_split_ws_set [of "keep_chars db dish_name"] by auto
  then have kc: "list_all (\<lambda>w. list_all (keep_char db) w) ?ws"
    using keep_chars_all [of db dish_name] by (auto simp: list_all_iff)
  have "clean_dish_name db dish_name = py_join [SP] ?ws"
    by (simp add: clean_dish_name_def clean_with_eq)
  moreover have "filter ?P ?ws = ?ws" by simp
  ultimately show ?thesis
    by (simp add: clean_dish_name_def clean_with_eq keep_chars_join [OF kc] py_split_ws_join [OF ok])
qed

text \<open>
  The Romantic Seared Salmon scenario: the flair word is removed first, so the
  full lookup is for Seared Salmon, and the left-trim step already queries Salmon; when
  that hits, the resolver returns it after exactly two lookups and never reaches the
  per-word step.
\<close>

theorem romantic_seared_salmon:
  assumes "lookup (u ''Seared Salmon'') = None" "lookup (u ''Salmon'') = Some r"
  shows "search_recipe_smart_log lookup ascii_db (u ''Romantic Seared Salmon'')
    = (Some r, [u ''Seared Salmon'', u ''Salmon''])"
proof -
  have "py_split_ws (u ''Seared Salmon'') = [u ''Seared'', u ''Salmon'']"
    by (simp add: py_split_ws_def u_def py_isspace_def)
  moreover have "py_join [SP] [u ''Salmon''] = u ''Salmon''" by simp
  ultimately show ?thesis using assms
    by (simp add: search_recipe_smart_log_def clean_romantic_salmon trim_loop.simps)
qed

theorem romantic_seared_salmon_witness:
  "search_recipe_smart_log (\<lambda>q. if q = u ''Salmon'' then Some (1::nat) else None) ascii_db
     (u ''Romantic Seared Salmon'') = (Some 1, [u ''Seared Salmon'', u ''Salmon''])"
  by (rule romantic_seared_salmon) (simp_all add: u_def)

text \<open>
  C14. The flair entry date night never removes anything: the list is matched against
  single words without whitespace, so, for any character database whose lower-casing
  maps non-space characters to non-space characters, the cleaning is the same without
  that entry.
\<close>

theorem date_night_never_removed:
  assumes "\<forall>c. \<not> py_isspace c \<longrightarrow> list_all (\<lambda>x. \<not> py_isspace x) (ucd_lower db c)"
  shows "clean_dish_name db dish_name = clean_with (removeAll (u ''date night'') flair_words) db dish_name"
proof -
  have "py_strip (py_lower db w) \<in> set flair_words \<longleftrightarrow>
      py_strip (py_lower db w) \<in> set (removeAll (u ''date night'') flair_words)"
    if "w \<in> set (py_split_ws (keep_chars db dish_name))" for w
  proof -
    have "word_ok w" using py_split_ws_words that by (auto simp: list_all_iff)
    from py_lower_word_no_space [OF assms this]
    have "py_strip (py_lower db w) \<noteq> u ''date night''" by (auto simp: u_def)
    then show ?thesis by simp
  qed
  then show ?thesis
    unfolding clean_dish_name_def clean_with_eq by (metis (no_types, lifting) filter_cong)
qed

theorem date_night_never_removed_witness:
  "clean_dish_name ascii_db (u ''Date Night Pasta'')
     = clean_with (removeAll (u ''date night'') flair_words) ascii_db (u ''Date Night Pasta'')"
  using date_night_never_removed [of ascii_db] by (simp add: ascii_db_def)

end
