(* ===== verification/Links.thy ===== *)
theory Links
  imports Resolver
begin

text \<open>
  The order and video links (src/app/main.py, lines 315--329): \<open>get_order_links\<close>
  cleans the dish name and percent-encodes it into three delivery-site URLs,
  \<open>get_youtube_link\<close> encodes the raw name with \<open>" recipe"\<close> appended.  The encoding is
  the library's \<open>urllib.parse.quote(s)\<close> with its default \<open>safe='/'\<close>: the string is
  encoded as UTF-8 with \<open>errors='strict'\<close> (a lone surrogate raises
  \<open>UnicodeEncodeError\<close>), then every byte outside the always-safe set and \<open>/\<close>
  becomes \<open>%XX\<close> with upper-case hex digits.  A byte is a Python \<open>int\<close> in
  \<open>range(256)\<close>, modelled as \<open>nat\<close>.
\<close>

type_synonym byte = nat

subsection \<open>UTF-8 encoding, \<open>str.encode('utf-8', 'strict')\<close>\<close>

definition surrogate :: "uchar \<Rightarrow> bool" where
  "surrogate c \<longleftrightarrow> 0xD800 \<le> c \<and> c \<le> 0xDFFF"

text \<open>A Python \<open>str\<close> holds code points below \<open>0x110000\<close>.\<close>

definition py_chars_ok :: "ustr \<Rightarrow> bool" where
  "py_chars_ok s \<longleftrightarrow> list_all (\<lambda>c. c < 0x110000) s"

definition utf8_char :: "uchar \<Rightarrow> byte list option" where
  "utf8_char c =
     (if c < 0x80 then Some [c]
      else if c < 0x800 then Some [0xC0 + c div 64, 0x80 + c mod 64]
      else if c < 0x10000 then
        (if surrogate c then None
         else Some [0xE0 + c div 4096, 0x80 + (c div 64) mod 64, 0x80 + c mod 64])
      else if c < 0x110000 then
        Some [0xF0 + c div 262144, 0x80 + (c div 4096) mod 64, 0x80 + (c div 64) mod 64,
              0x80 + c mod 64]
      else None)"

fun utf8_encode :: "ustr \<Rightarrow> py_exc + byte list" where
  "utf8_encode [] = Inr []"
| "utf8_encode (c # s) =
     (case utf8_char c of
        None \<Rightarrow> Inl UnicodeEncodeError
      | Some bs \<Rightarrow> (case utf8_encode s of Inl e \<Rightarrow> Inl e | Inr r \<Rightarrow> Inr (bs @ r)))"

subsection \<open>Percent-encoding, \<open>urllib.parse.quote\<close>\<close>

text \<open>\<open>_ALWAYS_SAFE\<close> (letters, digits, \<open>_.-~\<close>) and the default \<open>safe='/'\<close>.\<close>

definition url_safe :: "byte \<Rightarrow> bool" where
  "url_safe b \<longleftrightarrow> (65 \<le> b \<and> b \<le> 90) \<or> (97 \<le> b \<and> b \<le> 122) \<or> (48 \<le> b \<and> b \<le> 57)
     \<or> b = 95 \<or> b = 46 \<or> b = 45 \<or> b = 126 \<or> b = 47"

definition hex_upper :: "nat \<Rightarrow> uchar" where
  "hex_upper d = (if d < 10 then 48 + d else 55 + d)"

text \<open>\<open>_Quoter\<close>: \<open>chr(b) if b in safe else '%{:02X}'.format(b)\<close>.\<close>

definition quote_byte :: "byte \<Rightarrow> ustr" where
  "quote_byte b = (if url_safe b then [b] else [37, hex_upper (b div 16), hex_upper (b mod 16)])"

text \<open>
  \<open>quote_from_bytes\<close>: empty input gives \<open>''\<close>; when \<open>bs.rstrip(safe)\<close> is empty, i.e.
  every byte is safe, the bytes are decoded as they are; otherwise each byte is quoted.
\<close>

definition quote_from_bytes :: "byte list \<Rightarrow> ustr" where
  "quote_from_bytes bs =
     (if bs = [] then []
      else if rev (dropWhile url_safe (rev bs)) = [] then bs
      else concat (map quote_byte bs))"

definition py_quote :: "ustr \<Rightarrow> py_exc + ustr" where
  "py_quote s =
     (if s = [] then Inr s
      else case utf8_encode s of Inl e \<Rightarrow> Inl e | Inr bs \<Rightarrow> Inr (quote_from_bytes bs))"

subsection \<open>The link builders\<close>

definition uber_lbl :: ustr where "uber_lbl = 0x1F7E2 # u '' Uber Eats''"
definition lieferando_lbl :: ustr where "lieferando_lbl = 0x1F7E0 # u '' Lieferando''"
definition just_eat_lbl :: ustr where "just_eat_lbl = 0x1F7E7 # u '' Just Eat''"

text \<open>The returned dict, as its list of items in insertion order.\<close>

definition get_order_links :: "unicode_db \<Rightarrow> ustr \<Rightarrow> py_exc + (ustr \<times> ustr) list" where
  "get_order_links db dish_name =
     (let cleaned_dish_name = clean_dish_name db dish_name in
      case py_quote cleaned_dish_name of
        Inl e \<Rightarrow> Inl e
      | Inr encoded \<Rightarrow>
          Inr [(uber_lbl, u ''https://www.ubereats.com/search?q='' @ encoded),
               (lieferando_lbl, u ''https://www.lieferando.de/en/delivery/food/'' @ encoded),
               (just_eat_lbl, u ''https://www.just-eat.co.uk/search?q='' @ encoded)])"

definition get_youtube_link :: "ustr \<Rightarrow> py_exc + ustr" where
  "get_youtube_link dish_name =
     (case py_quote (dish_name @ u '' recipe'') of
        Inl e \<Rightarrow> Inl e
      | Inr encoded \<Rightarrow> Inr (u ''https://www.youtube.com/results?search_query='' @ encoded))"

subsection \<open>The decoders the encoding is inverted by\<close>

definition hex_val :: "uchar \<Rightarrow> nat option" where
  "hex_val c = (if 48 \<le> c \<and> c \<le> 57 then Some (c - 48)
                else if 65 \<le> c \<and> c \<le> 70 then Some (c - 55) else None)"

fun percent_decode :: "ustr \<Rightarrow> byte list option" where
  "percent_decode [] = Some []"
| "percent_decode (c # r) =
     (if c = 37 then
        (case r of
           h1 # h2 # r' \<Rightarrow>
             (case (hex_val h1, hex_val h2) of
                (Some d1, Some d2) \<Rightarrow> map_option (Cons (16 * d1 + d2)) (percent_decode r')
              | _ \<Rightarrow> None)
         | _ \<Rightarrow> None)
      else if url_safe c then map_option (Cons c) (percent_decode r) else None)"

definition cont_byte :: "byte \<Rightarrow> bool" where
  "cont_byte b \<longleftrightarrow> 0x80 \<le> b \<and> b < 0xC0"

fun utf8_decode :: "byte list \<Rightarrow> ustr option" where
  "utf8_decode [] = Some []"
| "utf8_decode [b] = (if b < 0x80 then Some [b] else None)"
| "utf8_decode [b, b2] =
     (if b < 0x80 then map_option (Cons b) (utf8_decode [b2])
      else if 0xC2 \<le> b \<and> b < 0xE0 \<and> cont_byte b2 then Some [(b - 0xC0) * 64 + (b2 - 0x80)]
      else None)"
| "utf8_decode (b # b2 # b3 # r) =
     (if b < 0x80 then map_option (Cons b) (utf8_decode (b2 # b3 # r))
      else if 0xC2 \<le> b \<and> b < 0xE0 \<and> cont_byte b2 then
        map_option (Cons ((b - 0xC0) * 64 + (b2 - 0x80))) (utf8_decode (b3 # r))
      else if 0xE0 \<le> b \<and> b < 0xF0 \<and> cont_byte b2 \<and> cont_byte b3 then
        (let c = (b - 0xE0) * 4096 + (b2 - 0x80) * 64 + (b3 - 0x80) in
         if c < 0x800 \<or> surrogate c then None else map_option (Cons c) (utf8_decode r))
      else if 0xF0 \<le> b \<and> b < 0xF5 \<and> cont_byte b2 \<and> cont_byte b3 then
        (case r of
           b4 # r' \<Rightarrow>
             (let c = (b - 0xF0) * 262144 + (b2 - 0x80) * 4096 + (b3 - 0x80) * 64 + (b4 - 0x80) in
              if cont_byte b4 \<and> 0x10000 \<le> c \<and> c < 0x110000
              then map_option (Cons c) (utf8_decode r') else None)
         | [] \<Rightarrow> None)
      else None)"


subsection \<open>Lemmas on the encoding\<close>

lemma utf8_decode_ascii: "b < 0x80 \<Longrightarrow> utf8_decode (b # r) = map_option (Cons b) (utf8_decode r)"
  by (cases r rule: remdups_adj.cases) simp_all

lemma utf8_char_decode:
  assumes "utf8_char c = Some bs"
  shows "utf8_decode (bs @ r) = map_option (Cons c) (utf8_decode r)"
proof -
  have m: "c mod 4096 = 64 * (c div 64 mod 64) + c mod 64" "c mod 262144 = 4096 * (c div 4096 mod 64) + c mod 4096"
    using mod_mult2_eq [of c 64 64] mod_mult2_eq [of c 4096 64] by simp_all
  consider (a) "c < 0x80" "bs = [c]"
    | (b) "0x80 \<le> c" "c < 0x800" "bs = [0xC0 + c div 64, 0x80 + c mod 64]"
    | (c) "0x800 \<le> c" "c < 0x10000" "\<not> surrogate c"
          "bs = [0xE0 + c div 4096, 0x80 + (c div 64) mod 64, 0x80 + c mod 64]"
    | (d) "0x10000 \<le> c" "c < 0x110000"
          "bs = [0xF0 + c div 262144, 0x80 + (c div 4096) mod 64, 0x80 + (c div 64) mod 64, 0x80 + c mod 64]"
    using assms by (auto simp: utf8_char_def split: if_splits)
  then show ?thesis
  proof cases
    case a then show ?thesis by (simp add: utf8_decode_ascii)
  next
    case b
    have "(c div 64) * 64 + c mod 64 = c" "2 \<le> c div 64" "c div 64 < 32"
      using b(1,2) by (simp_all add: div_less_iff_less_mult less_eq_div_iff_mult_less_eq)
    with b show ?thesis by (cases r) (simp_all add: cont_byte_def)
  next
    case c
    have "(c div 4096) * 4096 + (c div 64 mod 64) * 64 + c mod 64 = c"
      using m(1) div_mult_mod_eq [of c 4096] by linarith
    with c show ?thesis by (simp add: cont_byte_def Let_def)
  next
    case d
    have "(c div 262144) * 262144 + (c div 4096 mod 64) * 4096 + (c div 64 mod 64) * 64 + c mod 64 = c"
      using m div_mult_mod_eq [of c 262144] by linarith
    with d show ?thesis by (simp add: cont_byte_def Let_def)
  qed
qed
lemma utf8_encode_decode: "utf8_encode s = Inr bs \<Longrightarrow> utf8_decode bs = Some s"
proof (induction s arbitrary: bs)
  case (Cons c s)
  then obtain cs r where "utf8_char c = Some cs" "utf8_encode s = Inr r" "bs = cs @ r"
    by (auto split: option.splits sum.splits)
  with Cons.IH show ?case by (simp add: utf8_char_decode)
qed simp

lemma utf8_char_Some_iff: "c < 0x110000 \<Longrightarrow> (utf8_char c = None) = surrogate c"
  by (auto simp: utf8_char_def surrogate_def)

lemma utf8_encode_result:
  "py_chars_ok s \<Longrightarrow>
     (if list_ex surrogate s then utf8_encode s = Inl UnicodeEncodeError else \<exists>bs. utf8_encode s = Inr bs)"
proof (induction s)
  case (Cons c s)
  then have c: "c < 0x110000" and ok: "py_chars_ok s" by (simp_all add: py_chars_ok_def)
  show ?case
  proof (cases "surrogate c")
    case True
    with utf8_char_Some_iff [OF c] show ?thesis by simp
  next
    case False
    with utf8_char_Some_iff [OF c] obtain cs where "utf8_char c = Some cs" by auto
    with False Cons.IH [OF ok] show ?thesis by (cases "list_ex surrogate s") auto
  qed
qed simp

lemma utf8_char_bytes: "utf8_char c = Some bs \<Longrightarrow> bs \<noteq> [] \<and> (\<forall>b\<in>set bs. b < 256)"
  by (auto simp: utf8_char_def split: if_splits)

lemma utf8_encode_bytes: "utf8_encode s = Inr bs \<Longrightarrow> \<forall>b\<in>set bs. b < 256"
proof (induction s arbitrary: bs)
  case (Cons c s)
  then obtain cs r where "utf8_char c = Some cs" "utf8_encode s = Inr r" "bs = cs @ r"
    by (auto split: option.splits sum.splits)
  with Cons.IH show ?case by (auto dest: utf8_char_bytes)
qed simp

lemma all_safe_iff: "rev (dropWhile url_safe (rev bs)) = [] \<longleftrightarrow> (\<forall>b\<in>set bs. url_safe b)"
  by simp

lemma quote_from_bytes_eq: "quote_from_bytes bs = concat (map quote_byte bs)"
proof -
  have "concat (map quote_byte bs) = bs" if "\<forall>b\<in>set bs. url_safe b"
    using that by (induction bs) (simp_all add: quote_byte_def)
  then show ?thesis by (auto simp: quote_from_bytes_def)
qed

lemma hex_val_hex_upper: "d < 16 \<Longrightarrow> hex_val (hex_upper d) = Some d"
  by (simp add: hex_val_def hex_upper_def)

lemma percent_decode_quote_byte:
  "b < 256 \<Longrightarrow> percent_decode (quote_byte b @ r) = map_option (Cons b) (percent_decode r)"
proof (cases "url_safe b")
  case False
  assume "b < 256"
  then have "b div 16 < 16" "b mod 16 < 16" by simp_all
  with False show ?thesis by (simp add: quote_byte_def hex_val_hex_upper)
next
  case True
  then have "b \<noteq> 37" by (auto simp: url_safe_def)
  with True show ?thesis by (simp add: quote_byte_def)
qed

lemma percent_decode_quote: "\<forall>b\<in>set bs. b < 256 \<Longrightarrow> percent_decode (concat (map quote_byte bs)) = Some bs"
  by (induction bs) (simp_all add: percent_decode_quote_byte)

lemma hex_upper_safe: "d < 16 \<Longrightarrow> url_safe (hex_upper d)"
  by (simp add: hex_upper_def url_safe_def)

lemma quote_byte_alphabet: "c \<in> set (quote_byte b) \<Longrightarrow> b < 256 \<Longrightarrow> url_safe c \<or> c = 37"
  using hex_upper_safe [of "b div 16"] hex_upper_safe [of "b mod 16"]
  by (auto simp: quote_byte_def split: if_splits)
lemma quote_decode_inverse:
  "utf8_encode s = Inr bs \<Longrightarrow> Option.bind (percent_decode (quote_from_bytes bs)) utf8_decode = Some s"
  using utf8_encode_bytes percent_decode_quote utf8_encode_decode by (simp add: quote_from_bytes_eq)

lemma set_py_join: "set (py_join sep ws) \<subseteq> set sep \<union> set (concat ws)"
  by (induction sep ws rule: py_join.induct) auto

lemma clean_with_chars: "set (clean_with fl db d) \<subseteq> insert SP (set d) \<and> list_all (keep_char db) (clean_with fl db d)"
proof -
  let ?ws = "filter (\<lambda>w. py_strip (py_lower db w) \<notin> set fl) (py_split_ws (keep_chars db d))"
  have "set (concat ?ws) \<subseteq> set (keep_chars db d)" using py_split_ws_set by fastforce
  moreover have "set (py_join [SP] ?ws) \<subseteq> insert SP (set (concat ?ws))"
    using set_py_join [of "[SP]" ?ws] by simp
  ultimately have "set (py_join [SP] ?ws) \<subseteq> insert SP (set (keep_chars db d))" by blast
  then have "set (clean_with fl db d) \<subseteq> insert SP (set (keep_chars db d))"
    by (simp only: clean_with_eq)
  moreover have "keep_char db SP" by (simp add: keep_char_space py_isspace_def)
  ultimately show ?thesis by (auto simp: list_all_iff keep_chars_def)
qed

lemma keep_char_surrogate: "surrogate c \<Longrightarrow> \<not> ucd_alnum db c \<Longrightarrow> \<not> keep_char db c"
  by (auto simp: surrogate_def keep_char_def is_word_def py_isspace_def)


lemma clean_dish_encode:
  assumes "\<forall>c. surrogate c \<longrightarrow> \<not> ucd_alnum db c" "py_chars_ok dish_name"
  shows "\<exists>bs. utf8_encode (clean_dish_name db dish_name) = Inr bs"
proof -
  let ?c = "clean_dish_name db dish_name"
  have ch: "set ?c \<subseteq> insert SP (set dish_name)" "list_all (keep_char db) ?c"
    using clean_with_chars [of flair_words db dish_name] by (simp_all add: clean_dish_name_def)
  then have "py_chars_ok ?c" using assms(2) by (auto simp: py_chars_ok_def list_all_iff)
  moreover have "\<not> list_ex surrogate ?c"
    using ch(2) assms(1) keep_char_surrogate by (auto simp: list_all_iff list_ex_iff)
  ultimately show ?thesis using utf8_encode_result by fastforce
qed

lemma get_order_links_Inr:
  assumes "\<forall>c. surrogate c \<longrightarrow> \<not> ucd_alnum db c" "py_chars_ok dish_name"
  shows "\<exists>links. get_order_links db dish_name = Inr links"
  using clean_dish_encode [OF assms] by (auto simp: get_order_links_def py_quote_def Let_def)

subsection \<open>Properties of the links\<close>

text \<open>
  Percent-encoding round trip: every Python string without a lone surrogate is
  quoted without error, and decoding the \<open>%XX\<close> escapes and then the UTF-8 bytes gives
  the string back.
\<close>

theorem py_quote_roundtrip:
  assumes "py_chars_ok s" "\<not> list_ex surrogate s"
  shows "\<exists>q. py_quote s = Inr q \<and> Option.bind (percent_decode q) utf8_decode = Some s"
proof (cases "s = []")
  case False
  from utf8_encode_result [OF assms(1)] assms(2) obtain bs where bs: "utf8_encode s = Inr bs" by auto
  with False quote_decode_inverse [OF bs] show ?thesis by (simp add: py_quote_def)
qed (simp add: py_quote_def)

text \<open>
  The quoted text contains only unreserved URL characters, \<open>/\<close> and \<open>%\<close>: a dish name
  cannot inject \<open>&\<close>, \<open>?\<close>, \<open>#\<close> or a space into the URLs built from it.
\<close>

theorem py_quote_alphabet: "py_quote s = Inr q \<Longrightarrow> \<forall>c\<in>set q. url_safe c \<or> c = 37"
proof (cases "s = []")
  case False
  assume q: "py_quote s = Inr q"
  with False obtain bs where bs: "utf8_encode s = Inr bs" "q = concat (map quote_byte bs)"
    by (auto simp: py_quote_def quote_from_bytes_eq split: sum.splits)
  then show ?thesis using utf8_encode_bytes [OF bs(1)] quote_byte_alphabet by auto
qed (auto simp: py_quote_def)

text \<open>
  C15. \<open>get_youtube_link\<close> of a name without a lone surrogate is the YouTube search URL
  whose query is made of unreserved URL characters, \<open>/\<close> and \<open>%\<close> only, and decodes (percent
  escapes, then UTF-8) to the raw dish name followed by \<open> recipe\<close>.
\<close>

theorem get_youtube_link_query:
  assumes "py_chars_ok dish_name" "\<not> list_ex surrogate dish_name"
  shows "\<exists>q. get_youtube_link dish_name = Inr (u ''https://www.youtube.com/results?search_query='' @ q) \<and>
    list_all (\<lambda>c. url_safe c \<or> c = 37) q \<and>
    Option.bind (percent_decode q) utf8_decode = Some (dish_name @ u '' recipe'')"
proof -
  have ok: "py_chars_ok (dish_name @ u '' recipe'')" using assms(1) by (simp add: py_chars_ok_def u_def)
  have ns: "\<not> list_ex surrogate (dish_name @ u '' recipe'')" using assms(2) by (simp add: u_def surrogate_def)
  from py_quote_roundtrip [OF ok ns] obtain q where q: "py_quote (dish_name @ u '' recipe'') = Inr q"
    and d: "Option.bind (percent_decode q) utf8_decode = Some (dish_name @ u '' recipe'')" by blast
  have "list_all (\<lambda>c. url_safe c \<or> c = 37) q" using py_quote_alphabet [OF q] by (simp add: list_all_iff)
  with q d show ?thesis by (simp add: get_youtube_link_def)
qed

text \<open>
  C17. \<open>get_youtube_link\<close> encodes the raw dish name: it raises \<open>UnicodeEncodeError\<close>
  exactly when the name contains a lone surrogate.
\<close>

theorem get_youtube_link_error:
  assumes "py_chars_ok dish_name"
  shows "get_youtube_link dish_name = Inl UnicodeEncodeError \<longleftrightarrow> list_ex surrogate dish_name"
proof -
  have ok: "py_chars_ok (dish_name @ u '' recipe'')" using assms by (simp add: py_chars_ok_def u_def)
  have ex: "list_ex surrogate (dish_name @ u '' recipe'') = list_ex surrogate dish_name"
    by (simp add: u_def surrogate_def)
  from utf8_encode_result [OF ok]
  have "if list_ex surrogate dish_name then utf8_encode (dish_name @ u '' recipe'') = Inl UnicodeEncodeError
      else \<exists>bs. utf8_encode (dish_name @ u '' recipe'') = Inr bs" unfolding ex .
  moreover have "dish_name @ u '' recipe'' \<noteq> []" by (simp add: u_def)
  ultimately show ?thesis
    by (cases "list_ex surrogate dish_name") (auto simp: get_youtube_link_def py_quote_def)
qed

text \<open>
  C16. \<open>get_order_links\<close> never raises (the cleaning removes surrogates, which no
  character database counts as letters) and returns the three delivery URLs, each ending
  in the percent-encoding of the cleaned dish name, which decodes back to that name.
\<close>

theorem get_order_links_ok:
  assumes "\<forall>c. surrogate c \<longrightarrow> \<not> ucd_alnum db c" "py_chars_ok dish_name"
  shows "\<exists>encoded. get_order_links db dish_name =
      Inr [(uber_lbl, u ''https://www.ubereats.com/search?q='' @ encoded),
           (lieferando_lbl, u ''https://www.lieferando.de/en/delivery/food/'' @ encoded),
           (just_eat_lbl, u ''https://www.just-eat.co.uk/search?q='' @ encoded)]
    \<and> Option.bind (percent_decode encoded) utf8_decode = Some (clean_dish_name db dish_name)"
proof -
  let ?c = "clean_dish_name db dish_name"
  obtain bs where bs: "utf8_encode ?c = Inr bs" using clean_dish_encode [OF assms] by blast
  show ?thesis
  proof (cases "?c = []")
    case True then show ?thesis by (simp add: get_order_links_def py_quote_def)
  next
    case False
    with bs quote_decode_inverse [OF bs] show ?thesis by (simp add: get_order_links_def py_quote_def)
  qed
qed

theorem get_youtube_link_query_witness:
  "\<exists>q. get_youtube_link [67, 114, 0xE8, 109, 101] = Inr (u ''https://www.youtube.com/results?search_query='' @ q) \<and>
    list_all (\<lambda>c. url_safe c \<or> c = 37) q \<and>
    Option.bind (percent_decode q) utf8_decode = Some ([67, 114, 0xE8, 109, 101] @ u '' recipe'')"
  using get_youtube_link_query [of "[67, 114, 0xE8, 109, 101]"] by (simp add: py_chars_ok_def surrogate_def)

theorem get_order_links_ok_witness:
  "\<exists>encoded. get_order_links ascii_db (u ''Pad Thai'') =
      Inr [(uber_lbl, u ''https://www.ubereats.com/search?q='' @ encoded),
           (lieferando_lbl, u ''https://www.lieferando.de/en/delivery/food/'' @ encoded),
           (just_eat_lbl, u ''https://www.just-eat.co.uk/search?q='' @ encoded)]
    \<and> Option.bind (percent_decode encoded) utf8_decode = Some (clean_dish_name ascii_db (u ''Pad Thai''))"
  using get_order_links_ok [of ascii_db "u ''Pad Thai''"] by (simp add: ascii_db_def py_chars_ok_def u_def)

theorem get_youtube_link_error_witness:
  "get_youtube_link [0xD800] = Inl UnicodeEncodeError"
  using get_youtube_link_error [of "[0xD800]"] by (simp add: py_chars_ok_def surrogate_def)

end
