(* ===== verification/Recipe.thy ===== *)
theory Recipe
  imports Json Resolver
begin

text \<open>
  The recipe lookup \<open>search_recipe\<close> (src/app/main.py, lines 281--313; the copy in
  src/app/cloud_app.py, lines 177--208, is the same code).  The HTTP request and the
  decoding of its body, \<open>requests.get(url, params={"s": dish_name}, timeout=10).json()\<close>,
  are the parameter \<open>fetch\<close>: it returns the decoded value or the exception.  Every
  exception of the \<open>try\<close> block, from the request or from a value of an unexpected
  type, ends in \<open>return None\<close>.
\<close>

record recipe =
  r_name :: jval
  r_category :: jval
  r_cuisine :: jval
  r_instructions :: jval
  r_image :: jval
  r_video :: jval
  r_ingredients :: "ustr list"
  r_source :: jval

text \<open>
  The loop \<open>for i in range(1, 21)\<close> over the indices still to visit: the
  ingredient and the measure are read, and a non-blank ingredient gives the entry
  \<open>f"{measure.strip()} {ingredient.strip()}"\<close>.
\<close>

fun collect_ingredients :: "jval \<Rightarrow> nat list \<Rightarrow> py_exc + ustr list" where
  "collect_ingredients meal [] = Inr []"
| "collect_ingredients meal (i # ixs) =
     (case dict_get meal (u ''strIngredient'' @ nat_str i) (JStr []) of
        Inl e \<Rightarrow> Inl e
      | Inr ingredient \<Rightarrow>
          (case dict_get meal (u ''strMeasure'' @ nat_str i) (JStr []) of
             Inl e \<Rightarrow> Inl e
           | Inr meas \<Rightarrow>
               (if \<not> py_truthy ingredient then collect_ingredients meal ixs
                else case jstrip ingredient of
                  Inl e \<Rightarrow> Inl e
                | Inr ing \<Rightarrow>
                    (if ing = [] then collect_ingredients meal ixs
                     else case jstrip meas of
                       Inl e \<Rightarrow> Inl e
                     | Inr m \<Rightarrow>
                         (case collect_ingredients meal ixs of
                            Inl e \<Rightarrow> Inl e
                          | Inr rest \<Rightarrow> Inr ((m @ SP # ing) # rest))))))"

text \<open>
  The specification side: the entries the loop produces when every field of the meal
  is a string.
\<close>

definition ingr_key :: "nat \<Rightarrow> ustr" where "ingr_key i = u ''strIngredient'' @ nat_str i"
definition meas_key :: "nat \<Rightarrow> ustr" where "meas_key i = u ''strMeasure'' @ nat_str i"

definition jstr_or_empty :: "jval option \<Rightarrow> ustr" where
  "jstr_or_empty v = (case v of Some (JStr s) \<Rightarrow> s | _ \<Rightarrow> [])"

definition jget_or :: "(ustr \<times> jval) list \<Rightarrow> ustr \<Rightarrow> jval \<Rightarrow> jval" where
  "jget_or kvs k d = (case jget kvs k of None \<Rightarrow> d | Some v \<Rightarrow> v)"

definition ingredient_entries :: "(ustr \<times> jval) list \<Rightarrow> nat list \<Rightarrow> ustr list" where
  "ingredient_entries kvs ixs =
     concat (map (\<lambda>i. let g = py_strip (jstr_or_empty (jget kvs (ingr_key i)));
                        m = py_strip (jstr_or_empty (jget kvs (meas_key i)))
                    in if g = [] then [] else [m @ SP # g]) ixs)"

text \<open>An example response of the API.\<close>

definition tacos_response :: jval where
  "tacos_response = JObj [(u ''meals'', JArr [JObj
     [(u ''strMeal'', JStr (u ''Tacos'')), (u ''strIngredient1'', JStr (u ''Tortillas'')),
      (u ''strMeasure1'', JStr (u ''8 ''))]])]"

text \<open>The body of the \<open>try\<close> block; \<open>Inr None\<close> ixs the early \<open>return None\<close>.\<close>

definition search_recipe_body :: "(ustr \<Rightarrow> py_exc + jval) \<Rightarrow> ustr \<Rightarrow> py_exc + recipe option" where
  "search_recipe_body fetch dish_name =
     (case fetch dish_name of
        Inl e \<Rightarrow> Inl e
      | Inr data \<Rightarrow>
          (case dict_get data (u ''meals'') JNull of
             Inl e \<Rightarrow> Inl e
           | Inr meals \<Rightarrow>
               (if \<not> py_truthy meals then Inr None
                else case py_index0 meals of
                  Inl e \<Rightarrow> Inl e
                | Inr meal \<Rightarrow>
                    (case collect_ingredients meal [1..<21] of
                       Inl e \<Rightarrow> Inl e
                     | Inr ingredients \<Rightarrow>
                         (case (dict_get meal (u ''strMeal'') (JStr (u ''Unknown'')),
                                dict_get meal (u ''strCategory'') (JStr []),
                                dict_get meal (u ''strArea'') (JStr []),
                                dict_get meal (u ''strInstructions'') (JStr []),
                                dict_get meal (u ''strMealThumb'') (JStr []),
                                dict_get meal (u ''strYoutube'') (JStr []),
                                dict_get meal (u ''strSource'') (JStr [])) of
                            (Inr n, Inr c, Inr a, Inr ins, Inr img, Inr vid, Inr src) \<Rightarrow>
                              Inr (Some \<lparr>r_name = n, r_category = c, r_cuisine = a,
                                r_instructions = ins, r_image = img, r_video = vid,
                                r_ingredients = ingredients, r_source = src\<rparr>)
                          | _ \<Rightarrow> Inl AttributeError)))))"

definition search_recipe :: "(ustr \<Rightarrow> py_exc + jval) \<Rightarrow> ustr \<Rightarrow> recipe option" where
  "search_recipe fetch dish_name =
     (case search_recipe_body fetch dish_name of Inl _ \<Rightarrow> None | Inr r \<Rightarrow> r)"


subsection \<open>Properties of the lookup\<close>

lemma collect_ingredients_length:
  "collect_ingredients meal ixs = Inr xs \<Longrightarrow> length xs \<le> length ixs"
proof (induction meal ixs arbitrary: xs rule: collect_ingredients.induct)
  case (2 meal i ixs)
  then show ?case
    by (fastforce split: sum.splits if_splits simp: le_Suc_eq)
qed simp

lemma dict_get_str:
  "all_str_vals kvs \<Longrightarrow> dict_get (JObj kvs) k (JStr []) = Inr (JStr (jstr_or_empty (jget kvs k)))"
  by (cases "jget kvs k") (auto simp: jstr_or_empty_def dest: jget_all_str)

lemma collect_ingredients_str:
  "all_str_vals kvs \<Longrightarrow> collect_ingredients (JObj kvs) ixs = Inr (ingredient_entries kvs ixs)"
proof (induction ixs)
  case (Cons i ixs)
  let ?g = "jstr_or_empty (jget kvs (ingr_key i))"
  show ?case
    using Cons dict_get_str [OF Cons.prems, of "ingr_key i"] dict_get_str [OF Cons.prems, of "meas_key i"]
    by (cases "?g = []") (auto simp: ingredient_entries_def Let_def ingr_key_def meas_key_def)
qed (simp add: ingredient_entries_def)

lemma collect_ingredients_null_measure:
  assumes "i \<in> set ixs" "jget kvs (ingr_key i) = Some (JStr g)" "py_strip g \<noteq> []"
    and "jget kvs (meas_key i) = Some JNull"
  shows "\<exists>e. collect_ingredients (JObj kvs) ixs = Inl e"
  using assms(1)
proof (induction ixs)
  case (Cons j ixs)
  show ?case
  proof (cases "j = i")
    case True
    have "g \<noteq> []" using assms(3) by auto
    with True assms(2-4) show ?thesis
      by (simp add: ingr_key_def meas_key_def split: sum.splits)
  next
    case False
    with Cons have "\<exists>e. collect_ingredients (JObj kvs) ixs = Inl e" by simp
    then show ?thesis by (auto split: sum.splits option.splits)
  qed
qed simp
lemma tacos_found: "\<exists>r. search_recipe (\<lambda>_. Inr tacos_response) (u ''Tacos'') = Some r"
  by (simp add: search_recipe_def search_recipe_body_def tacos_response_def jget_def nat_str.simps u_def
      py_strip_def py_isspace_def upt_rec)

text \<open>
  C18. When the response's \<open>meals\<close> list starts with a meal object whose fields are
  all strings, \<open>search_recipe\<close> returns that meal's record: the fields with their
  defaults, and as ingredients \<open>"measure ingredient"\<close> (both stripped) for every index
  from 1 to 20 whose ingredient is not blank, in index order.
\<close>

theorem search_recipe_found:
  assumes "fetch dish_name = Inr (JObj resp)" "jget resp (u ''meals'') = Some (JArr (JObj kvs # others))"
    and "all_str_vals kvs"
  shows "search_recipe fetch dish_name = Some
    \<lparr>r_name = jget_or kvs (u ''strMeal'') (JStr (u ''Unknown'')),
     r_category = jget_or kvs (u ''strCategory'') (JStr []),
     r_cuisine = jget_or kvs (u ''strArea'') (JStr []),
     r_instructions = jget_or kvs (u ''strInstructions'') (JStr []),
     r_image = jget_or kvs (u ''strMealThumb'') (JStr []),
     r_video = jget_or kvs (u ''strYoutube'') (JStr []),
     r_ingredients = ingredient_entries kvs [1..<21],
     r_source = jget_or kvs (u ''strSource'') (JStr [])\<rparr>"
  using assms collect_ingredients_str [OF assms(3)]
  by (simp add: search_recipe_def search_recipe_body_def jget_or_def del: upt_Suc)

text \<open>
  C19. A meal whose \<open>strMeasure\<close> is \<open>null\<close> at an index with a non-blank ingredient makes
  \<open>measure.strip()\<close> raise, and the whole lookup returns \<open>None\<close>, although the meal exists.
\<close>

theorem search_recipe_null_measure:
  assumes "fetch dish_name = Inr (JObj resp)" "jget resp (u ''meals'') = Some (JArr (JObj kvs # others))"
    and "1 \<le> i" "i \<le> 20" "jget kvs (ingr_key i) = Some (JStr g)" "py_strip g \<noteq> []"
    and "jget kvs (meas_key i) = Some JNull"
  shows "search_recipe fetch dish_name = None"
proof -
  have "i \<in> set [1..<21]" using assms(3,4) by simp
  from collect_ingredients_null_measure [OF this assms(5-7)] obtain e
    where "collect_ingredients (JObj kvs) [1..<21] = Inl e" ..
  with assms(1,2) show ?thesis by (simp add: search_recipe_def search_recipe_body_def del: upt_Suc)
qed

text \<open>
  C20. The lookup fails open: a failed request or decoding, or a response whose
  \<open>meals\<close> is missing, \<open>null\<close> or empty, gives \<open>None\<close>, never an exception.
\<close>

theorem search_recipe_fail_open:
  assumes "(\<exists>e. fetch dish_name = Inl e)
    \<or> (\<exists>resp. fetch dish_name = Inr (JObj resp) \<and> \<not> py_truthy (jget_or resp (u ''meals'') JNull))"
  shows "search_recipe fetch dish_name = None"
  using assms by (auto simp: search_recipe_def search_recipe_body_def jget_or_def split: option.splits)

text \<open>
  C21. A found recipe has at most 20 ingredient entries.
\<close>

theorem search_recipe_ingredients_bound:
  "search_recipe fetch dish_name = Some r \<Longrightarrow> length (r_ingredients r) \<le> 20"
  by (auto simp: search_recipe_def search_recipe_body_def split: sum.splits if_splits prod.splits
      dest!: collect_ingredients_length)

theorem search_recipe_found_witness:
  "search_recipe (\<lambda>_. Inr tacos_response) (u ''Tacos'') = Some
    \<lparr>r_name = JStr (u ''Tacos''), r_category = JStr [], r_cuisine = JStr [], r_instructions = JStr [],
     r_image = JStr [], r_video = JStr [], r_ingredients = [u ''8 Tortillas''], r_source = JStr []\<rparr>"
proof -
  have "ingredient_entries [(u ''strMeal'', JStr (u ''Tacos'')), (u ''strIngredient1'', JStr (u ''Tortillas'')),
      (u ''strMeasure1'', JStr (u ''8 ''))] [1..<21] = [u ''8 Tortillas'']"
    by (simp add: ingredient_entries_def jget_def ingr_key_def meas_key_def nat_str.simps jstr_or_empty_def
      u_def py_strip_def py_isspace_def upt_rec)
  then show ?thesis
    using search_recipe_found [of "\<lambda>_. Inr tacos_response" "u ''Tacos''"]
    by (simp add: tacos_response_def jget_def jget_or_def all_str_vals_def u_def)
qed
theorem search_recipe_null_measure_witness:
  "search_recipe (\<lambda>_. Inr (JObj [(u ''meals'', JArr [JObj [(u ''strIngredient1'', JStr (u ''Chicken'')),
      (u ''strMeasure1'', JNull)]])])) (u ''Chicken'') = None"
  by (rule search_recipe_null_measure [where i = 1 and g = "u ''Chicken''" and others = "[]"
      and resp = "[(u ''meals'', JArr [JObj [(u ''strIngredient1'', JStr (u ''Chicken'')), (u ''strMeasure1'', JNull)]])]"
      and kvs = "[(u ''strIngredient1'', JStr (u ''Chicken'')), (u ''strMeasure1'', JNull)]"])
    (simp_all add: jget_def ingr_key_def meas_key_def nat_str.simps u_def py_strip_def py_isspace_def)

theorem search_recipe_fail_open_witness:
  "search_recipe (\<lambda>_. Inl RequestException) (u ''Tacos'') = None"
  using search_recipe_fail_open [of "\<lambda>_. Inl RequestException" "u ''Tacos''"] by simp

theorem search_recipe_ingredients_bound_witness:
  "length (r_ingredients (the (search_recipe (\<lambda>_. Inr tacos_response) (u ''Tacos'')))) \<le> 20"
proof -
  obtain r where r: "search_recipe (\<lambda>_. Inr tacos_response) (u ''Tacos'') = Some r"
    using tacos_found by blast
  from search_recipe_ingredients_bound [OF r] r show ?thesis by simp
qed

end
