(* ===== verification/Page.thy ===== *)
theory Page
  imports Prompt Local Links Recipe
begin

text \<open>
  The Streamlit pages: one run of src/app/main.py (lines 498--756) and of
  src/app/cloud_app.py (lines 24--35 and 336--566) from the widget values to what the
  page shows.  Streamlit runs the whole script again after every interaction; a run
  sends the page its elements in order, nested in the containers (sidebar, columns,
  tabs, expanders) that are open when they are written.  A run is modelled as the
  elements it writes, in order and nested as on the page, together with the exception
  that ended it, if one did (Streamlit then shows the traceback below what was
  written).  The network, the vector store and the language model are the parameters
  of the run; spinners only show while the run waits and are not kept.
\<close>

subsection \<open>Page elements and the writer of a run\<close>

datatype elem =
    Title ustr | Subheader ustr | Header ustr | Markdown ustr | Html ustr | Caption ustr
  | Metric ustr ustr | Info ustr | Success ustr | Warning ustr | Error ustr | ExcWarning ustr py_exc
  | Image jval | Write jval | Widget ustr
  | Sidebar "elem list" | Columns "nat list" "elem list list" | Tabs "(ustr \<times> elem list) list"
  | Expander ustr bool "elem list"

text \<open>A block of the script: what it writes, and its value or the exception that left it.\<close>

type_synonym 'a st = "elem list \<times> (py_exc + 'a)"

definition st_emit :: "elem list \<Rightarrow> unit st" where
  "st_emit es = (es, Inr ())"

definition st_lift :: "py_exc + 'a \<Rightarrow> 'a st" where
  "st_lift r = ([], r)"

definition st_bind :: "'a st \<Rightarrow> ('a \<Rightarrow> 'b st) \<Rightarrow> 'b st" where
  "st_bind m f = (case m of (es, Inl e) \<Rightarrow> (es, Inl e) | (es, Inr a) \<Rightarrow> (case f a of (es', r) \<Rightarrow> (es @ es', r)))"

definition st_then :: "unit st \<Rightarrow> 'b st \<Rightarrow> 'b st" where
  "st_then m k = st_bind m (\<lambda>_. k)"

text \<open>Containers created together (\<open>st.columns\<close>, \<open>st.tabs\<close>) and filled one after the
  other by \<open>with\<close> blocks: after an exception the later ones stay empty.\<close>

fun st_fill :: "unit st list \<Rightarrow> elem list list \<times> (py_exc + unit)" where
  "st_fill [] = ([], Inr ())"
| "st_fill ((es, Inl e) # ms) = (es # map (\<lambda>_. []) ms, Inl e)"
| "st_fill ((es, Inr _) # ms) = (case st_fill ms of (ess, r) \<Rightarrow> (es # ess, r))"

definition st_columns_last :: "nat list \<Rightarrow> unit st list \<Rightarrow> 'a st \<Rightarrow> 'a st" where
  "st_columns_last ws ms m =
     (case st_fill ms of
        (ess, Inl e) \<Rightarrow> ([Columns ws (ess @ [[]])], Inl e)
      | (ess, Inr _) \<Rightarrow> (case m of (es, r) \<Rightarrow> ([Columns ws (ess @ [es])], r)))"

definition st_tabs :: "ustr list \<Rightarrow> unit st list \<Rightarrow> unit st" where
  "st_tabs names ms = (case st_fill ms of (ess, r) \<Rightarrow> ([Tabs (zip names ess)], r))"

subsection \<open>The widgets\<close>

text \<open>The values the widgets hold in a run.  main.py has a fifth selector, the search
  source; cloud_app.py ignores that field.\<close>

record page_input =
  movie_query :: ustr
  search_button :: bool
  mood :: ustr
  cuisine_pref :: ustr
  n_suggestions :: int
  enable_year_filter :: bool
  year_range :: "int \<times> int"
  search_source :: ustr

definition moods :: "ustr list" where
  "moods = [(u ''Romantic''), (u ''Adventurous''), (u ''Cozy & Comfort''), (u ''Fun & Energetic''), (u ''Chill & Relaxed''),
     (u ''Spooky''), (u ''Nostalgic'')]"

definition cuisines :: "ustr list" where
  "cuisines = [(u ''No Preference''), (u ''Italian''), (u ''Japanese''), (u ''Mexican''), (u ''Indian''), (u ''French''), (u ''American''),
     (u ''Korean''), (u ''Thai''), (u ''Mediterranean'')]"

definition search_sources :: "ustr list" where
  "search_sources = [src_both, src_tmdb, local_source]"

text \<open>The values the widgets of main.py can hold: a listed mood, cuisine and source,
  one to five results, and a year range inside the slider's bounds, which is
  \<open>(1900, 2025)\<close> while the year filter is off.  cloud_app.py's slider ends at 2026.\<close>

definition input_ok :: "int \<Rightarrow> page_input \<Rightarrow> bool" where
  "input_ok year_hi inp \<longleftrightarrow>
     mood inp \<in> set moods \<and> cuisine_pref inp \<in> set cuisines \<and>
     1 \<le> n_suggestions inp \<and> n_suggestions inp \<le> 5 \<and>
     (if enable_year_filter inp
      then 1900 \<le> fst (year_range inp) \<and> fst (year_range inp) \<le> snd (year_range inp) \<and> snd (year_range inp) \<le> year_hi
      else year_range inp = (1900, year_hi))"

definition input_ok_main :: "page_input \<Rightarrow> bool" where
  "input_ok_main inp \<longleftrightarrow> input_ok 2025 inp \<and> search_source inp \<in> set search_sources"

subsection \<open>One movie's tab\<close>

definition no_poster :: "elem list" where
  "no_poster = [Markdown (u ''### '' @ [127916]), Caption (u ''No poster available'')]"

definition poster_col :: "movie \<Rightarrow> elem list" where
  "poster_col m = (case m_poster m of Some p \<Rightarrow> (if p \<noteq> [] then [Image (JStr p)] else no_poster) | None \<Rightarrow> no_poster)"

definition info_col :: "unicode_db \<Rightarrow> movie \<Rightarrow> elem list" where
  "info_col db m =
     [Markdown ((u ''### '') @ py_str db (m_title m)),
      Markdown (([128197] @ u '' **Year:** '') @ py_str db (m_year m)),
      Markdown (([127917] @ u '' **Genre:** '') @ py_str db (m_genre m))] @
     (if py_truthy (m_rating m) \<and> m_rating m \<noteq> JStr (u ''N/A'')
      then [Markdown (([11088] @ u '' **Rating:** '') @ py_str db (m_rating m))] else []) @
     [Caption ((u ''Source: '') @ m_source m)] @
     (if py_truthy (m_overview m) then [Expander ([128214] @ u '' Overview'') False [Write (m_overview m)]] else [])"

definition pairing_header :: elem where
  "pairing_header = Markdown (u ''### '' @ [127829] @ u '' Food Pairing'')"

text \<open>main.py: the prompt is formatted and sent to the Ollama model, whose exceptions
  leave the run.\<close>

definition pairing_main :: "unicode_db \<Rightarrow> (ustr \<Rightarrow> py_exc + ustr) \<Rightarrow> ustr \<Rightarrow> ustr \<Rightarrow> movie \<Rightarrow> dishes st" where
  "pairing_main db llm md cp m =
     (let info = movie_info db (m_title m) (m_year m) (m_genre m) (m_overview m) in
      st_bind (st_lift (format_segs (prompt_kwargs db info (m_title m) md cp) prompt_template)) (\<lambda>prompt.
      st_bind (st_lift (llm prompt)) (\<lambda>response.
      st_then (st_emit [pairing_header, Markdown response]) (st_lift (Inr (extract_dish_name db response))))))"

text \<open>cloud_app.py: the prompt goes through \<open>invoke_llm\<close>, which always returns a text.\<close>

definition pairing_cloud :: "unicode_db \<Rightarrow> (ustr \<Rightarrow> ustr + ustr) \<Rightarrow> ustr \<Rightarrow> ustr \<Rightarrow> movie \<Rightarrow> dishes st" where
  "pairing_cloud db client md cp m =
     (let info = movie_info db (m_title m) (m_year m) (m_genre m) (m_overview m) in
      st_bind (st_lift (format_segs (prompt_kwargs db info (m_title m) md cp) cloud_prompt_template)) (\<lambda>prompt.
      (let response = invoke_llm client prompt in
       st_then (st_emit [pairing_header, Markdown response]) (st_lift (Inr (extract_dish_name db response))))))"

text \<open>\<open>dishes.get("main") or movie_query\<close>.\<close>

definition dish_or :: "ustr \<Rightarrow> ustr \<Rightarrow> ustr" where
  "dish_or d q = (if d \<noteq> [] then d else q)"

definition recipe_found :: "unicode_db \<Rightarrow> recipe \<Rightarrow> elem list" where
  "recipe_found db r =
     [Columns [1, 2]
       [(if py_truthy (r_image r) then [Image (r_image r)] else []) @
          [Caption (([127757] @ u '' '') @ py_str db (r_cuisine r) @ (u '' | '' @ [128194] @ u '' '') @ py_str db (r_category r))],
        [Markdown ((u ''### '' @ [127859] @ u '' '') @ py_str db (r_name r)),
         Expander ([128221] @ u '' Ingredients'') True (map (\<lambda>ing. Markdown ((u ''- '') @ ing)) (r_ingredients r)),
         Expander ([128104, 8205, 127859] @ u '' Cooking Instructions'') False [Write (r_instructions r)]] @
        (if py_truthy (r_video r) then [Markdown ((u ''['' @ [127909] @ u '' Watch Video Tutorial]('') @ py_str db (r_video r) @ (u '')''))]
         else [])]]"

definition recipe_missing :: "ustr \<Rightarrow> unit st" where
  "recipe_missing dish =
     st_then (st_emit [Info (([128214] @ u '' No exact recipe found for '' @ [39]) @ dish @ [39]), Markdown (u ''**Try searching manually:**'')])
     (st_bind (st_lift (get_youtube_link dish)) (\<lambda>yt.
      st_then (st_emit [Markdown ((u ''- ['' @ [127909] @ u '' YouTube: '') @ dish @ (u '' recipe]('') @ yt @ (u '')''))])
      (st_bind (st_lift (py_quote (dish @ (u '' recipe'')))) (\<lambda>q.
       st_emit [Markdown ((u ''- ['' @ [128269] @ u '' Google: '') @ dish @ (u '' recipe]('') @ (u ''https://www.google.com/search?q='') @ q @ (u '')''))]))))"

definition no_dish_warning :: elem where
  "no_dish_warning = Warning (u ''Could not extract dish name. Try searching manually!'')"

definition recipe_tab :: "unicode_db \<Rightarrow> (ustr \<Rightarrow> py_exc + jval) \<Rightarrow> ustr \<Rightarrow> dishes \<Rightarrow> unit st" where
  "recipe_tab db meal query d =
     (let dish = dish_or (main d) query in
      if dish \<noteq> [] then
        (case search_recipe_smart (search_recipe meal) db dish of
           Some r \<Rightarrow> st_emit (recipe_found db r)
         | None \<Rightarrow> recipe_missing dish)
      else st_emit [no_dish_warning])"

text \<open>The links of a dict written into four columns, the \<open>j\<close>-th into column \<open>j mod 4\<close>.\<close>

definition link_cols :: "(ustr \<times> ustr) list \<Rightarrow> elem" where
  "link_cols links =
     Columns [1, 1, 1, 1]
       (map (\<lambda>k. map (\<lambda>(j, (p, l)). Markdown ((u ''['') @ p @ (u '']('') @ l @ (u '')'')))
                   (filter (\<lambda>(j, _). j mod 4 = k) (enumerate 0 links))) [0..<4])"

definition order_extra :: "unicode_db \<Rightarrow> ustr \<Rightarrow> ustr \<Rightarrow> unit st" where
  "order_extra db head item =
     (if item \<noteq> [] then
        st_then (st_emit [Markdown (head @ item @ (u '':**''))])
          (st_bind (st_lift (get_order_links db item)) (\<lambda>links. st_emit [link_cols links]))
      else st_emit [])"

definition order_tab :: "unicode_db \<Rightarrow> ustr \<Rightarrow> dishes \<Rightarrow> unit st" where
  "order_tab db query d =
     (let dish = dish_or (main d) query in
      st_then (st_emit [Markdown ((u ''### '' @ [128722] @ u '' Order **'') @ dish @ (u ''** Online'')), Markdown (u ''Click any platform to order:'')])
      (st_bind (st_lift (get_order_links db dish)) (\<lambda>links.
       st_then (st_emit [link_cols links, Markdown (u ''---'')])
         (st_then (order_extra db (u ''**'' @ [129380] @ u '' Order '') (drink d)) (order_extra db (u ''**'' @ [127871] @ u '' Order '') (snack d))))))"

definition movie_tab :: "unicode_db \<Rightarrow> (ustr \<Rightarrow> py_exc + jval) \<Rightarrow> ustr \<Rightarrow> movie \<Rightarrow> dishes st \<Rightarrow> unit st" where
  "movie_tab db meal query m pairing =
     st_bind (st_columns_last [1, 1, 2] [st_emit (poster_col m), st_emit (info_col db m)] pairing) (\<lambda>d.
     st_then (st_emit [Markdown (u ''---''), Markdown (u ''### '' @ [127859] @ u '' Recipe & '' @ [128722] @ u '' Order Online'')])
       (st_tabs [([127859] @ u '' Cook It Yourself''), ([128722] @ u '' Order Online'')] [recipe_tab db meal query d, order_tab db query d]))"

subsection \<open>The results section\<close>

definition no_movies_msg :: "ustr \<Rightarrow> bool \<Rightarrow> int \<times> int \<Rightarrow> ustr" where
  "no_movies_msg q enable yr =
     ([10060] @ u '' No movies found for '' @ [39]) @ q @ [39] @
     (if enable then (u '' between '') @ py_str_int (fst yr) @ (u ''-'') @ py_str_int (snd yr) @ (u ''. Try disabling year filter!'')
      else (u ''! Try a different search.''))"

definition matches_header :: "bool \<Rightarrow> int \<times> int \<Rightarrow> ustr" where
  "matches_header enable yr =
     (if enable then ([127916] @ u '' Movie Matches ('') @ py_str_int (fst yr) @ (u '' - '') @ py_str_int (snd yr) @ (u '')'')
      else ([127916] @ u '' Movie Matches''))"

definition show_movies ::
    "unicode_db \<Rightarrow> (ustr \<Rightarrow> py_exc + jval) \<Rightarrow> page_input \<Rightarrow> (movie \<Rightarrow> dishes st) \<Rightarrow> movie list \<Rightarrow> unit st" where
  "show_movies db meal inp pairing movies =
     (if movies = [] then st_emit [Error (no_movies_msg (movie_query inp) (enable_year_filter inp) (year_range inp))]
      else
        st_then (st_emit [Markdown (u ''---''), Header (matches_header (enable_year_filter inp) (year_range inp))])
          (st_tabs (map (\<lambda>m. ([127916] @ u '' '') @ py_str db (m_title m)) movies)
             (map (\<lambda>m. movie_tab db meal (movie_query inp) m (pairing m)) movies)))"

text \<open>The warning \<open>search_tmdb\<close> wrote, if its request failed.\<close>

definition warn_elems :: "py_exc option \<Rightarrow> elem list" where
  "warn_elems w = (case w of None \<Rightarrow> [] | Some e \<Rightarrow> [ExcWarning ([9888, 65039] @ u '' TMDB search failed: '') e])"

subsection \<open>The run of main.py\<close>

record main_env =
  me_db :: unicode_db
  me_genres :: "py_exc + jval"
  me_fetch :: "tmdb_params \<Rightarrow> py_exc + jval"
  me_collection :: "ustr \<Rightarrow> int \<Rightarrow> py_exc + jval"
  me_llm :: "ustr \<Rightarrow> py_exc + ustr"
  me_meal :: "ustr \<Rightarrow> py_exc + jval"

definition results_main :: "main_env \<Rightarrow> (ustr \<times> jval) list \<Rightarrow> page_input \<Rightarrow> unit st" where
  "results_main env gmap inp =
     (if search_button inp \<and> movie_query inp \<noteq> [] then
        (case hybrid_search (me_db env) gmap (me_fetch env) (me_collection env) (movie_query inp)
                (n_suggestions inp) (search_source inp) (fst (year_range inp)) (snd (year_range inp))
                (enable_year_filter inp) of
           (w, r) \<Rightarrow>
             st_then (st_emit (warn_elems w))
               (st_bind (st_lift r)
                  (show_movies (me_db env) (me_meal env) inp
                     (pairing_main (me_db env) (me_llm env) (mood inp) (cuisine_pref inp)))))
      else st_emit [])"

definition how_it_works :: ustr where
  "how_it_works = ([10] @ u ''        ### '' @ [8505, 65039] @ u '' How it works'' @ [10] @ u ''        1. Search for a movie'' @ [10] @ u ''        2. AI suggests food pairings'' @ [10] @ u ''        3. Get recipes or order online!'' @ [10] @ u ''        '')"

definition sidebar_main :: "(ustr \<times> jval) list \<Rightarrow> elem" where
  "sidebar_main gmap =
     Sidebar [Header ([128202] @ u '' Stats & Info''), Metric (u ''TMDB API'') (if gmap \<noteq> [] then ([9989] @ u '' Connected'') else ([10060] @ u '' Failed'')),
       Metric (u ''Movies Available'') (u ''Millions '' @ [127760]), Markdown (u ''---''), Markdown how_it_works]"

definition search_bar :: "elem list" where
  "search_bar =
     [Columns [3, 1] [[Widget ([128269] @ u '' Search for a movie or describe what you want to watch:'')],
                      [Html (u ''<br>''), Widget ([127916] @ u '' Find Pairings!'')]]]"

definition year_widgets :: "page_input \<Rightarrow> elem list" where
  "year_widgets inp = Widget ([128197] @ u '' Year filter'') # (if enable_year_filter inp then [Widget (u ''Year range'')] else [])"

definition preferences_main :: "page_input \<Rightarrow> elem list" where
  "preferences_main inp =
     [Markdown (u ''### '' @ [127899, 65039] @ u '' Your Preferences''),
      Columns [1, 1, 1, 1, 1]
        [[Widget ([128522] @ u '' Mood'')], [Widget ([127860] @ u '' Cuisine'')], [Widget ([128202] @ u '' Results'')], year_widgets inp, [Widget ([128269] @ u '' Source'')]],
      Markdown (u ''---'')]"

definition footer_main :: "elem list" where
  "footer_main = [Markdown (u ''---''), Html ([10] @ u ''    <div style='' @ [39] @ u ''text-align: center; color: gray;'' @ [39] @ u ''>'' @ [10] @ u ''        Made with '' @ [10084, 65039] @ u '' using Streamlit + Ollama + ChromaDB + TMDB + TheMealDB<br>'' @ [10] @ u ''        '' @ [65533] @ u '' Hangry '' @ [8212] @ u '' Pick a Movie. We'' @ [39] @ u ''ll Fix Your Hangry.'' @ [10] @ u ''    </div>'' @ [10] @ u ''    '')]"

text \<open>A run of main.py: \<open>genre_map\<close> is fetched at module level, then the sidebar, the
  header, the widgets and the results are written; an exception ends the run before
  the footer.\<close>

definition page_main :: "main_env \<Rightarrow> page_input \<Rightarrow> elem list \<times> py_exc option" where
  "page_main env inp =
     (let gmap = get_tmdb_genres (me_db env) (me_genres env);
          top = [sidebar_main gmap, Title ([65533] @ u '' Hangry''), Subheader (u ''Pick a Movie. We'' @ [39] @ u ''ll Fix Your Hangry.''), Markdown (u ''---'')] @ search_bar @
                preferences_main inp
      in case results_main env gmap inp of
           (es, Inl e) \<Rightarrow> (top @ es, Some e)
         | (es, Inr _) \<Rightarrow> (top @ es @ footer_main, None))"

subsection \<open>The run of cloud_app.py\<close>

record cloud_env =
  ce_db :: unicode_db
  ce_groq_key :: ustr
  ce_tmdb_key :: ustr
  ce_genres :: "py_exc + jval"
  ce_fetch :: "tmdb_params \<Rightarrow> py_exc + jval"
  ce_client :: "ustr \<Rightarrow> ustr + ustr"
  ce_meal :: "ustr \<Rightarrow> py_exc + jval"

definition results_cloud :: "cloud_env \<Rightarrow> (ustr \<times> jval) list \<Rightarrow> page_input \<Rightarrow> unit st" where
  "results_cloud env gmap inp =
     (if search_button inp \<and> movie_query inp \<noteq> [] then
        (case search_tmdb_cloud (ce_db env) gmap (ce_fetch env) (movie_query inp) (n_suggestions inp)
                (fst (year_range inp)) (snd (year_range inp)) (enable_year_filter inp) of
           (w, movies) \<Rightarrow>
             st_then (st_emit (warn_elems w))
               (show_movies (ce_db env) (ce_meal env) inp
                  (pairing_cloud (ce_db env) (ce_client env) (mood inp) (cuisine_pref inp)) movies))
      else st_emit [])"

definition sidebar_cloud :: "(ustr \<times> jval) list \<Rightarrow> elem" where
  "sidebar_cloud gmap =
     Sidebar [Header ([128202] @ u '' Stats & Info''), Metric (u ''TMDB API'') (if gmap \<noteq> [] then ([9989] @ u '' Connected'') else ([10060] @ u '' Failed'')),
       Metric (u ''LLM'') (u ''Groq '' @ [9889] @ u '' Llama 3.3''), Metric (u ''Movies Available'') (u ''Millions '' @ [127760]), Markdown (u ''---''), Markdown how_it_works]"

definition preferences_cloud :: "page_input \<Rightarrow> elem list" where
  "preferences_cloud inp =
     [Markdown (u ''### '' @ [127899, 65039] @ u '' Your Preferences''),
      Columns [1, 1, 1, 1] [[Widget ([128522] @ u '' Mood'')], [Widget ([127860] @ u '' Cuisine'')], [Widget ([128202] @ u '' Results'')], year_widgets inp],
      Markdown (u ''---'')]"

definition footer_cloud :: "elem list" where
  "footer_cloud = [Markdown (u ''---''), Html ([10] @ u ''    <div style='' @ [39] @ u ''text-align: center; color: gray;'' @ [39] @ u ''>'' @ [10] @ u ''        Made with '' @ [10084, 65039] @ u '' using Streamlit + Groq + TMDB + TheMealDB<br>'' @ [10] @ u ''        '' @ [127829] @ u '' Hangry '' @ [8212] @ u '' Pick a Movie. We'' @ [39] @ u ''ll Fix Your Hangry.'' @ [10] @ u ''    </div>'' @ [10] @ u ''    '')]"

text \<open>A run of cloud_app.py: a missing key writes an error and \<open>st.stop()\<close> ends the run
  there; otherwise as main.py, with TMDB as the only source.\<close>

definition page_cloud :: "cloud_env \<Rightarrow> page_input \<Rightarrow> elem list \<times> py_exc option" where
  "page_cloud env inp =
     (if ce_groq_key env = [] then ([Error ([10060] @ u '' GROQ_API_KEY not set. Add it to '' @ [96] @ u ''.streamlit/secrets.toml'' @ [96] @ u '' or environment variables.''), Info (u ''Get a free key at [console.groq.com](https://console.groq.com)'')], None)
      else if ce_tmdb_key env = [] then ([Error ([10060] @ u '' TMDB_API_KEY not set. Add it to '' @ [96] @ u ''.streamlit/secrets.toml'' @ [96] @ u '' or environment variables.''), Info (u ''Get a free key at [themoviedb.org](https://www.themoviedb.org/settings/api)'')], None)
      else
        (let gmap = get_tmdb_genres (ce_db env) (ce_genres env);
             top = [sidebar_cloud gmap, Title ([127829] @ u '' Hangry''), Subheader (u ''Pick a Movie. We'' @ [39] @ u ''ll Fix Your Hangry.''), Markdown (u ''---'')] @ search_bar @
                   preferences_cloud inp
         in case results_cloud env gmap inp of
              (es, Inl e) \<Rightarrow> (top @ es, Some e)
            | (es, Inr _) \<Rightarrow> (top @ es @ footer_cloud, None)))"


subsection \<open>Reruns of main.py\<close>

text \<open>
  The events between two runs: a click on the button, which reruns the script with the
  button true and the other widgets as they were, and a change of any other widget,
  which reruns it with the button false (\<open>st.button\<close> is true only in the run its
  click starts).  The sessions are the inputs and pages the reruns reach from a first run.
\<close>

datatype ui_event = Click | Edit page_input

definition apply_event :: "page_input \<Rightarrow> ui_event \<Rightarrow> page_input" where
  "apply_event inp ev = (case ev of Click \<Rightarrow> inp\<lparr>search_button := True\<rparr> | Edit inp' \<Rightarrow> inp'\<lparr>search_button := False\<rparr>)"

inductive main_session :: "page_input \<Rightarrow> elem list \<times> py_exc option \<Rightarrow> bool" where
  start: "input_ok_main inp \<Longrightarrow> \<not> search_button inp \<Longrightarrow> main_session inp (page_main env inp)"
| rerun: "main_session inp pg \<Longrightarrow> input_ok_main (apply_event inp ev) \<Longrightarrow>
    main_session (apply_event inp ev) (page_main env (apply_event inp ev))"

text \<open>A page element that shows a search result: a tab, an error or a warning.\<close>

definition no_result_elem :: "elem \<Rightarrow> bool" where
  "no_result_elem e = (case e of Tabs _ \<Rightarrow> False | Error _ \<Rightarrow> False | ExcWarning _ _ \<Rightarrow> False | _ \<Rightarrow> True)"

text \<open>A run answers a search when it ended in an exception or shows the error that no
  movie was found or the header of the matches.\<close>

definition answered :: "page_input \<Rightarrow> elem list \<times> py_exc option \<Rightarrow> bool" where
  "answered inp pg \<longleftrightarrow>
     (case snd pg of
        Some _ \<Rightarrow> True
      | None \<Rightarrow> Error (no_movies_msg (movie_query inp) (enable_year_filter inp) (year_range inp)) \<in> set (fst pg) \<or>
                Header (matches_header (enable_year_filter inp) (year_range inp)) \<in> set (fst pg))"

subsection \<open>The properties' vocabulary\<close>

text \<open>A search for \<open>heat\<close> with default preferences, the same input before the click, and
  a run whose model fails while TMDB and the vector store answer.\<close>

definition demo_input :: page_input where
  "demo_input = \<lparr>movie_query = (u ''heat''), search_button = True, mood = (u ''Romantic''), cuisine_pref = (u ''Italian''),
     n_suggestions = 3, enable_year_filter = False, year_range = (1900, 2025), search_source = src_both\<rparr>"

definition failing_llm_env :: main_env where
  "failing_llm_env = \<lparr>me_db = ascii_db, me_genres = Inl RequestException, me_fetch = (\<lambda>_. Inr heat_response),
     me_collection = (\<lambda>_ _. Inr two_local_results), me_llm = (\<lambda>_. Inl RequestException),
     me_meal = (\<lambda>_. Inl RequestException)\<rparr>"

definition idle_input :: page_input where
  "idle_input = demo_input\<lparr>search_button := False\<rparr>"

subsection \<open>Properties of the pages\<close>


lemma st_simps [simp]:
  "st_then (es, Inr x) k = (case k of (es', r) \<Rightarrow> (es @ es', r))"
  "st_then ([], Inl e) k = ([], Inl e)"
  "st_bind (st_lift r) f = (case r of Inl e \<Rightarrow> ([], Inl e) | Inr a \<Rightarrow> f a)"
  by (simp_all add: st_then_def st_bind_def st_emit_def st_lift_def split: prod.split sum.split)

lemma snd_Inl_pair: "snd p = Inl e \<Longrightarrow> \<exists>es. p = (es, Inl e)"
  by (cases p) simp

lemma st_then_emit_snd [simp]: "snd (st_then (st_emit es) k) = snd k"
  by (cases k) (simp add: st_emit_def)

lemma recipe_missing_elems: "no_dish_warning \<notin> set (fst (recipe_missing dish))"
  by (simp add: recipe_missing_def no_dish_warning_def st_emit_def split: sum.split prod.split)

lemma recipe_found_elems: "no_dish_warning \<notin> set (recipe_found db r)"
  by (simp add: recipe_found_def no_dish_warning_def)

text \<open>
  C32. The recipe tab never shows the warning that no dish could be extracted: the
  results are only shown for a non-empty query, and the query replaces an empty dish,
  so the branch is dead and a failed extraction searches recipes for the movie query.
\<close>

theorem recipe_tab_no_warning:
  "query \<noteq> [] \<Longrightarrow> no_dish_warning \<notin> set (fst (recipe_tab db meal query d))"
  by (auto simp: recipe_tab_def dish_or_def Let_def st_emit_def recipe_missing_elems recipe_found_elems
      split: option.split)

theorem recipe_tab_no_warning_witness:
  "u ''Heat'' \<noteq> [] \<and> no_dish_warning \<notin> set (fst (recipe_tab ascii_db (\<lambda>_. Inl RequestException) (u ''Heat'') no_dishes))"
  using recipe_tab_no_warning [of "u ''Heat''" ascii_db "\<lambda>_. Inl RequestException" no_dishes] by (simp add: u_def)

lemma pairing_main_prompt:
  "\<exists>p. format_segs (prompt_kwargs db info title md cp) prompt_template = Inr p"
  using format_segs_fill [OF prompt_vars(1)] by blast

lemma pairing_main_llm_error:
  assumes "\<forall>p. llm p = Inl e"
  shows "snd (pairing_main db llm md cp m) = Inl e"
proof -
  let ?info = "movie_info db (m_title m) (m_year m) (m_genre m) (m_overview m)"
  obtain p where "format_segs (prompt_kwargs db ?info (m_title m) md cp) prompt_template = Inr p"
    using pairing_main_prompt by blast
  with assms show ?thesis by (simp add: pairing_main_def Let_def)
qed

lemma movie_tab_error:
  "snd pairing = Inl e \<Longrightarrow> snd (movie_tab db meal q m pairing) = Inl e"
  by (cases pairing) (simp add: movie_tab_def st_columns_last_def st_emit_def st_bind_def)

lemma st_tabs_first_error:
  "snd m = Inl e \<Longrightarrow> snd (st_tabs names (m # ms)) = Inl e"
  by (cases m) (simp add: st_tabs_def)

text \<open>
  C33. In main.py an exception of the language model ends the run: when the search
  found movies and the model raises, the page shows the exception and nothing after the
  first movie's pairing column (no recipe, no order links, no footer).
\<close>

theorem page_main_llm_error:
  assumes "search_button inp" "movie_query inp \<noteq> []"
    and "hybrid_search (me_db env) (get_tmdb_genres (me_db env) (me_genres env)) (me_fetch env) (me_collection env)
           (movie_query inp) (n_suggestions inp) (search_source inp) (fst (year_range inp)) (snd (year_range inp))
           (enable_year_filter inp) = (w, Inr (m # ms))"
    and "\<forall>p. me_llm env p = Inl e"
  shows "snd (page_main env inp) = Some e"
proof -
  let ?pair = "pairing_main (me_db env) (me_llm env) (mood inp) (cuisine_pref inp)"
  have "snd (movie_tab (me_db env) (me_meal env) (movie_query inp) m (?pair m)) = Inl e"
    by (rule movie_tab_error, rule pairing_main_llm_error) (use assms(4) in simp)
  then have "snd (st_tabs (map (\<lambda>m. ([127916] @ u '' '') @ py_str (me_db env) (m_title m)) (m # ms))
      (map (\<lambda>m. movie_tab (me_db env) (me_meal env) (movie_query inp) m (?pair m)) (m # ms))) = Inl e"
    by (simp add: st_tabs_first_error)
  then obtain es where "st_tabs (map (\<lambda>m. ([127916] @ u '' '') @ py_str (me_db env) (m_title m)) (m # ms))
      (map (\<lambda>m. movie_tab (me_db env) (me_meal env) (movie_query inp) m (?pair m)) (m # ms)) = (es, Inl e)"
    by (blast dest: snd_Inl_pair)
  then have "snd (show_movies (me_db env) (me_meal env) inp ?pair (m # ms)) = Inl e"
    unfolding show_movies_def by (simp add: st_emit_def)
  then have "snd (results_main env (get_tmdb_genres (me_db env) (me_genres env)) inp) = Inl e"
    using assms(1-3) by (simp add: results_main_def split: prod.split)
  then obtain es where "results_main env (get_tmdb_genres (me_db env) (me_genres env)) inp = (es, Inl e)"
    by (blast dest: snd_Inl_pair)
  then show ?thesis by (simp add: page_main_def Let_def)
qed

theorem page_main_llm_error_witness:
  "search_button demo_input \<and> movie_query demo_input \<noteq> [] \<and> (\<forall>p. me_llm failing_llm_env p = Inl RequestException) \<and>
   (\<exists>w m ms. hybrid_search ascii_db [] (\<lambda>_. Inr heat_response) (\<lambda>_ _. Inr two_local_results) (u ''heat'') 3 src_both
       1900 2025 False = (w, Inr (m # ms))) \<and>
   snd (page_main failing_llm_env demo_input) = Some RequestException"
proof -
  have g: "get_tmdb_genres ascii_db (Inl RequestException) = []" by (simp add: get_tmdb_genres_def)
  have "\<exists>w m ms. hybrid_search ascii_db [] (\<lambda>_. Inr heat_response) (\<lambda>_ _. Inr two_local_results) (u ''heat'') 3 src_both
       1900 2025 False = (w, Inr (m # ms))"
    by (simp add: hybrid_search_def search_tmdb_def search_tmdb_with_def search_local_def heat_response_def
        two_local_results_def jget_def u_def src_both_def src_tmdb_def local_source_def
        tmdb_movie_def year_str_of_def skip_year_def genre_names_def str_dict_get_def join_strs_def poster_of_def
        tmdb_request_def local_skip_def local_movie_def resolve_genres_def py_split_def py_strip_def
        py_isspace_def py_lower_def lower_cp_def resolve_genres_val_def py_take_def py_str_int_def nat_str.simps Let_def)
  then obtain w m ms where h: "hybrid_search ascii_db [] (\<lambda>_. Inr heat_response) (\<lambda>_ _. Inr two_local_results) (u ''heat'') 3 src_both
       1900 2025 False = (w, Inr (m # ms))" by blast
  have "snd (page_main failing_llm_env demo_input) = Some RequestException"
    by (rule page_main_llm_error [where w = w and m = m and ms = ms])
       (use h g in \<open>simp_all add: demo_input_def failing_llm_env_def u_def\<close>)
  with h show ?thesis by (auto simp: demo_input_def failing_llm_env_def u_def)
qed

lemma main_session_page: "main_session inp pg \<Longrightarrow> input_ok_main inp \<and> (\<exists>env. pg = page_main env inp)"
  by (induction rule: main_session.induct) auto

lemma apply_click_ok: "input_ok_main (apply_event inp Click) = input_ok_main inp"
  by (simp add: apply_event_def input_ok_main_def input_ok_def)

text \<open>
  C36. In every session whose last event was not a click, the run completes and the
  page shows no result: no tab, no error and no warning.  Changing any preference after
  a search clears the pairings.
\<close>

theorem edit_clears_results:
  "main_session inp pg \<Longrightarrow> \<not> search_button inp \<Longrightarrow> snd pg = None \<and> list_all no_result_elem (fst pg)"
  by (auto dest!: main_session_page simp: page_main_def Let_def results_main_def st_emit_def sidebar_main_def
      search_bar_def preferences_main_def footer_main_def no_result_elem_def)

lemma results_main_answered:
  assumes "search_button inp" "movie_query inp \<noteq> []"
  shows "answered inp (page_main env inp)"
proof -
  let ?g = "get_tmdb_genres (me_db env) (me_genres env)"
  obtain w r where h: "hybrid_search (me_db env) ?g (me_fetch env) (me_collection env) (movie_query inp)
      (n_suggestions inp) (search_source inp) (fst (year_range inp)) (snd (year_range inp)) (enable_year_filter inp) = (w, r)"
    by (rule prod.exhaust)
  let ?pair = "pairing_main (me_db env) (me_llm env) (mood inp) (cuisine_pref inp)"
  let ?names = "\<lambda>ms. map (\<lambda>m. ([127916] @ u '' '') @ py_str (me_db env) (m_title m)) ms"
  let ?tabs = "\<lambda>ms. map (\<lambda>m. movie_tab (me_db env) (me_meal env) (movie_query inp) m (?pair m)) ms"
  show ?thesis
  proof (cases r)
    case (Inl e)
    with h assms show ?thesis
      by (auto simp: answered_def page_main_def Let_def results_main_def st_emit_def split: prod.split sum.split)
  next
    case (Inr ms)
    show ?thesis
    proof (cases "ms = []")
      case True
      with h assms Inr show ?thesis
        by (auto simp: answered_def page_main_def Let_def results_main_def show_movies_def st_emit_def
            split: prod.split sum.split)
    next
      case False
      obtain tes tr where t: "st_tabs (?names ms) (?tabs ms) = (tes, tr)" by (rule prod.exhaust)
      with h assms Inr False show ?thesis
        by (auto simp: answered_def page_main_def Let_def results_main_def show_movies_def st_emit_def
            split: prod.split sum.split)
    qed
  qed
qed

text \<open>
  C35. From every session, a click with a non-empty query is answered: the rerun is a
  session, and its page shows the matches, the no-match error, or the exception that
  ended it.
\<close>

theorem click_answers:
  "main_session inp pg \<Longrightarrow> movie_query inp \<noteq> [] \<Longrightarrow>
   main_session (apply_event inp Click) (page_main env (apply_event inp Click)) \<and>
   answered (apply_event inp Click) (page_main env (apply_event inp Click))"
proof -
  assume s: "main_session inp pg" and q: "movie_query inp \<noteq> []"
  have "input_ok_main (apply_event inp Click)" using main_session_page [OF s] apply_click_ok by simp
  with s have "main_session (apply_event inp Click) (page_main env (apply_event inp Click))"
    by (rule main_session.rerun)
  moreover have "answered (apply_event inp Click) (page_main env (apply_event inp Click))"
    by (rule results_main_answered) (use q in \<open>simp_all add: apply_event_def\<close>)
  ultimately show ?thesis ..
qed

lemma idle_input_ok: "input_ok_main idle_input"
  by (simp add: idle_input_def demo_input_def input_ok_main_def input_ok_def moods_def cuisines_def
      search_sources_def u_def)

lemma idle_session: "main_session idle_input (page_main failing_llm_env idle_input)"
  by (rule main_session.start [OF idle_input_ok]) (simp add: idle_input_def)

theorem edit_clears_results_witness:
  "main_session idle_input (page_main failing_llm_env idle_input) \<and> \<not> search_button idle_input \<and>
   snd (page_main failing_llm_env idle_input) = None \<and> list_all no_result_elem (fst (page_main failing_llm_env idle_input))"
  using edit_clears_results [OF idle_session] idle_session by (simp add: idle_input_def)

theorem click_answers_witness:
  "main_session idle_input (page_main failing_llm_env idle_input) \<and> movie_query idle_input \<noteq> [] \<and>
   main_session (apply_event idle_input Click) (page_main failing_llm_env (apply_event idle_input Click)) \<and>
   answered (apply_event idle_input Click) (page_main failing_llm_env (apply_event idle_input Click))"
proof -
  have q: "movie_query idle_input \<noteq> []" by (simp add: idle_input_def demo_input_def u_def)
  show ?thesis using click_answers [OF idle_session q, of failing_llm_env] idle_session q by simp
qed

lemma order_extra_links:
  "item \<noteq> [] \<Longrightarrow> get_order_links db item = Inr links \<Longrightarrow>
   order_extra db head item = ([Markdown (head @ item @ (u '':**'')), link_cols links], Inr ())"
  by (simp add: order_extra_def st_emit_def)

text \<open>
  C34. When the model's response starts with the three labelled lines, the order tab
  shows the links of \<open>get_order_links\<close> for exactly the extracted main dish, drink and
  snack, each under its heading, and none of the three raises.
\<close>

theorem order_tab_extracted:
  assumes db: "\<forall>c. surrogate c \<longrightarrow> \<not> ucd_alnum db c"
    and ok: "py_chars_ok a" "py_chars_ok b" "py_chars_ok c"
    and a: "tidy db a" "a \<noteq> []" and b: "tidy db b" "b \<noteq> []" and c: "tidy db c" "c \<noteq> []"
    and rest: "rest = [] \<or> hd rest = NL"
  shows "\<exists>la lb lc. get_order_links db a = Inr la \<and> get_order_links db b = Inr lb \<and> get_order_links db c = Inr lc \<and>
    order_tab db q (extract_dish_name db (u ''MAIN DISH: '' @ a @ NL # u ''DRINK: '' @ b @ NL # u ''SNACK: '' @ c @ rest)) =
      ([Markdown ((u ''### '' @ [128722] @ u '' Order **'') @ a @ (u ''** Online'')), Markdown (u ''Click any platform to order:''), link_cols la,
        Markdown (u ''---''), Markdown ((u ''**'' @ [129380] @ u '' Order '') @ b @ (u '':**'')), link_cols lb,
        Markdown ((u ''**'' @ [127871] @ u '' Order '') @ c @ (u '':**'')), link_cols lc], Inr ())"
proof -
  have d: "extract_dish_name db (u ''MAIN DISH: '' @ a @ NL # u ''DRINK: '' @ b @ NL # u ''SNACK: '' @ c @ rest)
      = \<lparr>main = a, drink = b, snack = c\<rparr>"
    using extract_fields [of db a b c NL rest main_lbl] a b c rest by (simp add: lbl_sp)
  obtain la lb lc where l: "get_order_links db a = Inr la" "get_order_links db b = Inr lb" "get_order_links db c = Inr lc"
    using get_order_links_Inr [OF db ok(1)] get_order_links_Inr [OF db ok(2)] get_order_links_Inr [OF db ok(3)] by blast
  have "order_tab db q \<lparr>main = a, drink = b, snack = c\<rparr> =
      ([Markdown ((u ''### '' @ [128722] @ u '' Order **'') @ a @ (u ''** Online'')), Markdown (u ''Click any platform to order:''), link_cols la,
        Markdown (u ''---''), Markdown ((u ''**'' @ [129380] @ u '' Order '') @ b @ (u '':**'')), link_cols lb,
        Markdown ((u ''**'' @ [127871] @ u '' Order '') @ c @ (u '':**'')), link_cols lc], Inr ())"
    using l a(2) b(2) c(2) order_extra_links [OF b(2) l(2)] order_extra_links [OF c(2) l(3)]
    by (simp add: order_tab_def dish_or_def st_emit_def)
  with d l show ?thesis by auto
qed

theorem order_tab_extracted_witness:
  "ucd_alnum ascii_db = (\<lambda>_. False) \<and> py_chars_ok (u ''Pad Thai'') \<and> py_chars_ok (u ''Thai Iced Tea'') \<and>
   py_chars_ok (u ''Spring Rolls'') \<and> tidy ascii_db (u ''Pad Thai'') \<and> tidy ascii_db (u ''Thai Iced Tea'') \<and> tidy ascii_db (u ''Spring Rolls'') \<and>
   (\<exists>la lb lc. get_order_links ascii_db (u ''Pad Thai'') = Inr la \<and> get_order_links ascii_db (u ''Thai Iced Tea'') = Inr lb \<and>
    get_order_links ascii_db (u ''Spring Rolls'') = Inr lc \<and>
    order_tab ascii_db (u ''Heat'') (extract_dish_name ascii_db (u ''MAIN DISH: '' @ (u ''Pad Thai'') @ NL # u ''DRINK: '' @
      (u ''Thai Iced Tea'') @ NL # u ''SNACK: '' @ (u ''Spring Rolls'') @ [])) =
      ([Markdown ((u ''### '' @ [128722] @ u '' Order **'') @ (u ''Pad Thai'') @ (u ''** Online'')), Markdown (u ''Click any platform to order:''), link_cols la,
        Markdown (u ''---''), Markdown ((u ''**'' @ [129380] @ u '' Order '') @ (u ''Thai Iced Tea'') @ (u '':**'')), link_cols lb,
        Markdown ((u ''**'' @ [127871] @ u '' Order '') @ (u ''Spring Rolls'') @ (u '':**'')), link_cols lc], Inr ()))"
proof -
  have t: "tidy ascii_db (u ''Pad Thai'')" "tidy ascii_db (u ''Thai Iced Tea'')" "tidy ascii_db (u ''Spring Rolls'')"
    by (simp_all add: tidy_def u_def keep_char_def is_word_def ascii_alnum_def py_isspace_def py_strip_def)
  have o: "py_chars_ok (u ''Pad Thai'')" "py_chars_ok (u ''Thai Iced Tea'')" "py_chars_ok (u ''Spring Rolls'')"
    by (simp_all add: py_chars_ok_def u_def)
  have n: "(u ''Pad Thai'') \<noteq> []" "(u ''Thai Iced Tea'') \<noteq> []" "(u ''Spring Rolls'') \<noteq> []" by (simp_all add: u_def)
  have db: "\<forall>c. surrogate c \<longrightarrow> \<not> ucd_alnum ascii_db c" by (simp add: ascii_db_def)
  show ?thesis
    using order_tab_extracted [OF db o t(1) n(1) t(2) n(2) t(3) n(3), of "[]" "(u ''Heat'')"] t o
    by (simp add: ascii_db_def)
qed

end
