(* ===== verification/Config.thy ===== *)
theory Config
  imports Prelude
begin

text \<open>
  src/src/config.py: the module-level code that runs when the configuration is
  imported.  \<open>load_dotenv()\<close> adds the entries of \<open>.env\<close> to the environment, the paths
  are derived from the module's own file, four settings are read with \<open>os.getenv\<close>, and
  five directories are created with \<open>Path.mkdir(parents=True, exist_ok=True)\<close> before the
  confirmation line is printed.  The file system is a map from absolute paths (lists of
  names) to directories and regular files; \<open>os.mkdir\<close> resolves the parent as POSIX does
  and \<open>Path.mkdir\<close> is the recursion of Python's pathlib.  Permissions are not modelled.
\<close>

subsection \<open>The environment\<close>

type_synonym environ = "ustr \<Rightarrow> ustr option"

text \<open>python-dotenv: the entries of \<open>.env\<close> in file order, a key without \<open>=\<close> having no
  value; the last entry of a key wins, and \<open>load_dotenv()\<close> (\<open>override=False\<close>) sets only
  the variables the environment does not have.\<close>

definition dotenv_value :: "(ustr \<times> ustr option) list \<Rightarrow> ustr \<Rightarrow> ustr option" where
  "dotenv_value entries k = (case map_of (rev entries) k of Some (Some v) \<Rightarrow> Some v | _ \<Rightarrow> None)"

definition load_dotenv :: "(ustr \<times> ustr option) list \<Rightarrow> environ \<Rightarrow> environ" where
  "load_dotenv entries env = (\<lambda>k. case env k of Some v \<Rightarrow> Some v | None \<Rightarrow> dotenv_value entries k)"

definition py_getenv :: "environ \<Rightarrow> ustr \<Rightarrow> ustr \<Rightarrow> ustr" where
  "py_getenv env k d = (case env k of Some v \<Rightarrow> v | None \<Rightarrow> d)"

subsection \<open>Paths and the file system\<close>

type_synonym path = "ustr list"

datatype fnode = FDir | FFile

type_synonym fs = "path \<Rightarrow> fnode option"

datatype os_error = FileExistsError | FileNotFoundError | NotADirectoryError

text \<open>\<open>str(path)\<close> of an absolute path.\<close>

definition path_str :: "path \<Rightarrow> ustr" where
  "path_str p = u ''/'' @ py_join (u ''/'') p"

text \<open>Resolving a path as a directory: the first prefix that is missing gives
  \<open>ENOENT\<close>, the first one that is a file \<open>ENOTDIR\<close>.\<close>

definition dir_error :: "fs \<Rightarrow> path \<Rightarrow> os_error option" where
  "dir_error fs p =
     (case find (\<lambda>q. fs q \<noteq> Some FDir) (prefixes p) of
        None \<Rightarrow> None
      | Some q \<Rightarrow> Some (if fs q = None then FileNotFoundError else NotADirectoryError))"

text \<open>\<open>Path.is_dir()\<close>: \<open>False\<close> on any error of \<open>stat\<close>.\<close>

definition is_dir :: "fs \<Rightarrow> path \<Rightarrow> bool" where
  "is_dir fs p \<longleftrightarrow> dir_error fs p = None"

definition os_mkdir :: "fs \<Rightarrow> path \<Rightarrow> os_error + fs" where
  "os_mkdir fs p =
     (case dir_error fs (butlast p) of
        Some e \<Rightarrow> Inl e
      | None \<Rightarrow> (if p = [] \<or> fs p \<noteq> None then Inl FileExistsError else Inr (fs(p \<mapsto> FDir))))"

text \<open>\<open>Path.mkdir(parents=False, exist_ok=True)\<close>: the \<open>except OSError\<close> clause accepts
  an error when the path is a directory; \<open>FileNotFoundError\<close> is re-raised.\<close>

definition mkdir_exist_ok :: "fs \<Rightarrow> path \<Rightarrow> fs \<times> os_error option" where
  "mkdir_exist_ok fs p =
     (case os_mkdir fs p of
        Inr fs' \<Rightarrow> (fs', None)
      | Inl FileNotFoundError \<Rightarrow> (fs, Some FileNotFoundError)
      | Inl FileExistsError \<Rightarrow> (if is_dir fs p then (fs, None) else (fs, Some FileExistsError))
      | Inl NotADirectoryError \<Rightarrow> (if is_dir fs p then (fs, None) else (fs, Some NotADirectoryError)))"

text \<open>\<open>Path.mkdir(parents=True, exist_ok=True)\<close>: on \<open>FileNotFoundError\<close> the parent is
  created first (unless the path is its own parent), then the path itself; the
  directories made before an error stay.\<close>

function path_mkdir :: "fs \<Rightarrow> path \<Rightarrow> fs \<times> os_error option" where
  "path_mkdir fs p =
     (case os_mkdir fs p of
        Inr fs' \<Rightarrow> (fs', None)
      | Inl FileNotFoundError \<Rightarrow>
          (if butlast p = p then (fs, Some FileNotFoundError)
           else (case path_mkdir fs (butlast p) of
                   (fs1, Some e) \<Rightarrow> (fs1, Some e)
                 | (fs1, None) \<Rightarrow> mkdir_exist_ok fs1 p))
      | Inl FileExistsError \<Rightarrow> (if is_dir fs p then (fs, None) else (fs, Some FileExistsError))
      | Inl NotADirectoryError \<Rightarrow> (if is_dir fs p then (fs, None) else (fs, Some NotADirectoryError)))"
  by pat_completeness auto
termination
  by (relation "measure (\<lambda>(fs, p). length p)") (simp_all, metis butlast.simps(1) diff_Suc_less length_greater_0_conv)

declare path_mkdir.simps [simp del]

subsection \<open>The module\<close>

record config =
  project_root :: path
  data_dir :: path
  vectorstore_dir :: path
  imdb_data_path :: path
  recipes_data_path :: path
  food_pairings_path :: path
  ollama_base_url :: ustr
  llm_model :: ustr
  openai_api_key :: "ustr option"
  chroma_db_path :: ustr
  embedding_model :: ustr

text \<open>The module-level assignments, for the environment after \<open>load_dotenv()\<close> and the
  absolute path of config.py (\<open>Path(__file__).parent.parent\<close> is the project root).\<close>

definition config_values :: "environ \<Rightarrow> path \<Rightarrow> config" where
  "config_values env file =
     (let root = butlast (butlast file);
          data = root @ [u ''data''];
          vectorstore = root @ [u ''vectorstore'']
      in \<lparr>project_root = root, data_dir = data, vectorstore_dir = vectorstore,
          imdb_data_path = data @ [u ''imdb''], recipes_data_path = data @ [u ''recipes''],
          food_pairings_path = data @ [u ''food_pairings''],
          ollama_base_url = py_getenv env (u ''OLLAMA_BASE_URL'') (u ''http://localhost:11434''),
          llm_model = py_getenv env (u ''LLM_MODEL'') (u ''llama3''),
          openai_api_key = env (u ''OPENAI_API_KEY''),
          chroma_db_path = py_getenv env (u ''CHROMA_DB_PATH'') (path_str vectorstore),
          embedding_model = u ''all-MiniLM-L6-v2''\<rparr>)"

definition config_dirs :: "config \<Rightarrow> path list" where
  "config_dirs c = [data_dir c, vectorstore_dir c, imdb_data_path c, recipes_data_path c, food_pairings_path c]"

text \<open>\<open>for directory in [...]: directory.mkdir(parents=True, exist_ok=True)\<close>.\<close>

fun mkdir_all :: "fs \<Rightarrow> path list \<Rightarrow> fs \<times> os_error option" where
  "mkdir_all fs [] = (fs, None)"
| "mkdir_all fs (d # ds) =
     (case path_mkdir fs d of
        (fs', Some e) \<Rightarrow> (fs', Some e)
      | (fs', None) \<Rightarrow> mkdir_all fs' ds)"

definition config_loaded :: "config \<Rightarrow> ustr" where
  "config_loaded c = [0x2705] @ u '' Config loaded! Project root: '' @ path_str (project_root c)"

text \<open>Importing the module: the environment and file system after it, the lines it
  printed, and the configuration or the exception that made the import fail.\<close>

definition config_module ::
    "(ustr \<times> ustr option) list \<Rightarrow> environ \<Rightarrow> path \<Rightarrow> fs \<Rightarrow> environ \<times> fs \<times> ustr list \<times> (os_error + config)" where
  "config_module dotenv env file fs =
     (let env' = load_dotenv dotenv env;
          c = config_values env' file
      in case mkdir_all fs (config_dirs c) of
           (fs', Some e) \<Rightarrow> (env', fs', [], Inl e)
         | (fs', None) \<Rightarrow> (env', fs', [config_loaded c], Inr c))"

text \<open>A project checked out at \<open>/home/src\<close>, with config.py at \<open>/home/src/src/config.py\<close>
  and no data directories yet.\<close>

definition demo_fs :: fs where
  "demo_fs = [[] \<mapsto> FDir, [u ''home''] \<mapsto> FDir, [u ''home'', u ''src''] \<mapsto> FDir,
     [u ''home'', u ''src'', u ''src''] \<mapsto> FDir, [u ''home'', u ''src'', u ''src'', u ''config.py''] \<mapsto> FFile]"

definition demo_config_file :: path where
  "demo_config_file = [u ''home'', u ''src'', u ''src'', u ''config.py'']"

subsection \<open>Resolution and \<open>mkdir\<close>\<close>

lemma find_append_None: "find P xs = None \<Longrightarrow> find P (xs @ ys) = find P ys"
  by (induction xs) (auto split: if_splits)

lemma dir_error_None: "dir_error fs p = None \<longleftrightarrow> (\<forall>q. prefix q p \<longrightarrow> fs q = Some FDir)"
proof -
  have "dir_error fs p = None \<longleftrightarrow> find (\<lambda>q. fs q \<noteq> Some FDir) (prefixes p) = None"
    by (simp add: dir_error_def split: option.split)
  then show ?thesis by (auto simp: find_None_iff)
qed

lemma is_dir_iff: "is_dir fs p \<longleftrightarrow> (\<forall>q. prefix q p \<longrightarrow> fs q = Some FDir)"
  by (simp add: is_dir_def dir_error_None)

lemma prefix_snoc_iff: "prefix q (p @ [x]) \<longleftrightarrow> prefix q p \<or> q = p @ [x]"
  by (metis prefix_order.dual_order.refl prefix_snoc)

lemma is_dir_snoc: "is_dir fs (p @ [x]) \<longleftrightarrow> is_dir fs p \<and> fs (p @ [x]) = Some FDir"
  by (auto simp: is_dir_iff prefix_snoc_iff)

lemma is_dir_butlast: "p \<noteq> [] \<Longrightarrow> is_dir fs p \<longleftrightarrow> is_dir fs (butlast p) \<and> fs p = Some FDir"
  by (metis append_butlast_last_id is_dir_snoc)

lemma is_dir_upd: "is_dir fs q \<Longrightarrow> is_dir (fs(p \<mapsto> FDir)) q"
  by (simp add: is_dir_iff)

lemma path_mkdir_new:
  assumes "is_dir fs (butlast p)" "p \<noteq> []" "fs p \<noteq> Some FFile"
  shows "path_mkdir fs p = (fs(p \<mapsto> FDir), None)"
proof (cases "fs p")
  case None
  with assms show ?thesis by (simp add: path_mkdir.simps os_mkdir_def is_dir_def)
next
  case (Some n)
  with assms have "n = FDir" by (cases n) auto
  with Some assms have "is_dir fs p" using is_dir_butlast by blast
  with Some assms \<open>n = FDir\<close> show ?thesis
    by (simp add: path_mkdir.simps os_mkdir_def is_dir_def fun_upd_idem)
qed

lemma path_mkdir_file:
  assumes "is_dir fs (butlast p)" "p \<noteq> []" "fs p = Some FFile"
  shows "path_mkdir fs p = (fs, Some FileExistsError)"
proof -
  have "\<not> is_dir fs p" using assms is_dir_butlast by fastforce
  with assms show ?thesis by (simp add: path_mkdir.simps os_mkdir_def is_dir_def)
qed

lemma mkdir_all_new:
  "is_dir fs (butlast d) \<Longrightarrow> d \<noteq> [] \<Longrightarrow> fs d \<noteq> Some FFile \<Longrightarrow> mkdir_all fs (d # ds) = mkdir_all (fs(d \<mapsto> FDir)) ds"
  by (simp add: path_mkdir_new)

text \<open>\<open>mkdir\<close> only adds directories: every path keeps its entry or becomes a directory.\<close>

definition grows :: "fs \<Rightarrow> fs \<Rightarrow> bool" where
  "grows fs fs' \<longleftrightarrow> (\<forall>q. fs' q = fs q \<or> fs' q = Some FDir)"

lemma grows_refl [simp]: "grows fs fs"
  by (simp add: grows_def)

lemma grows_upd [simp]: "grows fs (fs(p \<mapsto> FDir))"
  by (simp add: grows_def)

lemma grows_trans: "grows fs fs1 \<Longrightarrow> grows fs1 fs2 \<Longrightarrow> grows fs fs2"
  unfolding grows_def by metis

lemma grows_is_dir: "grows fs fs' \<Longrightarrow> is_dir fs q \<Longrightarrow> is_dir fs' q"
  unfolding grows_def is_dir_iff by metis

lemma os_mkdir_Inr: "os_mkdir fs p = Inr fs' \<Longrightarrow> fs' = fs(p \<mapsto> FDir) \<and> is_dir fs' p"
  by (cases p rule: rev_cases)
     (auto simp: os_mkdir_def is_dir_snoc is_dir_def [symmetric] split: option.splits if_splits intro: is_dir_upd)

lemma mkdir_exist_ok_ok: "mkdir_exist_ok fs p = (fs', r) \<Longrightarrow> grows fs fs' \<and> (r = None \<longrightarrow> is_dir fs' p)"
  by (auto simp: mkdir_exist_ok_def dest: os_mkdir_Inr split: sum.splits os_error.splits if_splits)

lemma path_mkdir_ok: "path_mkdir fs p = (fs', r) \<Longrightarrow> grows fs fs' \<and> (r = None \<longrightarrow> is_dir fs' p)"
proof (induction fs p arbitrary: fs' r rule: path_mkdir.induct)
  case (1 fs p)
  show ?case
  proof (cases "os_mkdir fs p")
    case (Inr fs1)
    from os_mkdir_Inr [OF Inr] have "fs1 = fs(p \<mapsto> FDir)" "is_dir fs1 p" by auto
    moreover from "1.prems" Inr have "fs' = fs1" "r = None" by (auto simp: path_mkdir.simps [of fs p])
    ultimately show ?thesis by (metis grows_upd)
  next
    case (Inl e)
    show ?thesis
    proof (cases "e = FileNotFoundError \<and> butlast p \<noteq> p")
      case True
      obtain fs1 r1 where p1: "path_mkdir fs (butlast p) = (fs1, r1)" by (rule prod.exhaust)
      have g1: "grows fs fs1" using "1.IH" [OF Inl, of fs1 r1] True p1 by simp
      show ?thesis
      proof (cases r1)
        case None
        with "1.prems" Inl True p1 have "mkdir_exist_ok fs1 p = (fs', r)" by (simp add: path_mkdir.simps [of fs p])
        with g1 show ?thesis by (auto dest: mkdir_exist_ok_ok intro: grows_trans)
      next
        case (Some e1)
        with "1.prems" Inl True p1 g1 show ?thesis by (auto simp: path_mkdir.simps [of fs p])
      qed
    next
      case False
      with "1.prems" Inl show ?thesis by (cases e) (auto simp: path_mkdir.simps [of fs p] split: if_splits)
    qed
  qed
qed

lemma mkdir_all_ok: "mkdir_all fs ds = (fs', None) \<Longrightarrow> grows fs fs' \<and> list_all (is_dir fs') ds"
proof (induction fs ds rule: mkdir_all.induct)
  case (2 fs d ds)
  obtain fs1 r1 where p1: "path_mkdir fs d = (fs1, r1)" by (rule prod.exhaust)
  with "2.prems" have r1: "r1 = None" and rest: "mkdir_all fs1 ds = (fs', None)" by (auto split: option.splits)
  from path_mkdir_ok [OF p1] r1 have "grows fs fs1" "is_dir fs1 d" by auto
  with "2.IH" [OF p1 [unfolded r1, symmetric] refl rest] show ?case by (auto intro: grows_trans grows_is_dir)
qed simp

lemma config_module_Inr:
  "config_module dotenv env mfile fs = (env', fs', out, Inr c) \<Longrightarrow>
   c = config_values (load_dotenv dotenv env) mfile \<and> mkdir_all fs (config_dirs c) = (fs', None)"
  by (auto simp: config_module_def Let_def split: prod.splits option.splits)

lemma config_dirs_values:
  "config_dirs (config_values env mfile) =
     [butlast (butlast mfile) @ [u ''data''], butlast (butlast mfile) @ [u ''vectorstore''],
      butlast (butlast mfile) @ [u ''data'', u ''imdb''], butlast (butlast mfile) @ [u ''data'', u ''recipes''],
      butlast (butlast mfile) @ [u ''data'', u ''food_pairings'']]"
  by (simp add: config_dirs_def config_values_def Let_def)

lemma mkdir_config_dirs:
  assumes "is_dir fs root"
    and "list_all (\<lambda>d. fs d \<noteq> Some FFile) [root @ [u ''data''], root @ [u ''vectorstore''],
      root @ [u ''data'', u ''imdb''], root @ [u ''data'', u ''recipes''], root @ [u ''data'', u ''food_pairings'']]"
  shows "mkdir_all fs [root @ [u ''data''], root @ [u ''vectorstore''],
      root @ [u ''data'', u ''imdb''], root @ [u ''data'', u ''recipes''], root @ [u ''data'', u ''food_pairings'']]
    = (fs(root @ [u ''data''] \<mapsto> FDir, root @ [u ''vectorstore''] \<mapsto> FDir, root @ [u ''data'', u ''imdb''] \<mapsto> FDir,
          root @ [u ''data'', u ''recipes''] \<mapsto> FDir, root @ [u ''data'', u ''food_pairings''] \<mapsto> FDir), None)"
  using assms by (simp add: path_mkdir_new is_dir_upd is_dir_snoc butlast_append u_def)

subsection \<open>Importing the configuration\<close>

lemma config_module_run:
  assumes "is_dir fs (butlast (butlast mfile))"
    and "list_all (\<lambda>d. fs d \<noteq> Some FFile) (config_dirs (config_values (load_dotenv dotenv env) mfile))"
  shows "config_module dotenv env mfile fs =
    (load_dotenv dotenv env,
     (\<lambda>p. if p \<in> set (config_dirs (config_values (load_dotenv dotenv env) mfile)) then Some FDir else fs p),
     [config_loaded (config_values (load_dotenv dotenv env) mfile)], Inr (config_values (load_dotenv dotenv env) mfile))"
proof -
  let ?r = "butlast (butlast mfile)"
  have "mkdir_all fs (config_dirs (config_values (load_dotenv dotenv env) mfile)) =
    ((\<lambda>p. if p \<in> set (config_dirs (config_values (load_dotenv dotenv env) mfile)) then Some FDir else fs p), None)"
    using mkdir_config_dirs [of fs ?r] assms unfolding config_dirs_values by (auto simp: fun_eq_iff)
  then show ?thesis by (simp add: config_module_def Let_def)
qed

text \<open>A second import finds the directories and changes nothing (\<open>exist_ok=True\<close>).\<close>

lemma config_module_idem:
  assumes "is_dir fs (butlast (butlast mfile))"
    and "list_all (\<lambda>d. fs d \<noteq> Some FFile) (config_dirs (config_values (load_dotenv dotenv env) mfile))"
    and "config_module dotenv env mfile fs = (env', fs', out, r)"
  shows "config_module dotenv env mfile fs' = (env', fs', out, r)"
proof -
  let ?ds = "config_dirs (config_values (load_dotenv dotenv env) mfile)"
  have fs': "fs' = (\<lambda>p. if p \<in> set ?ds then Some FDir else fs p)"
    using config_module_run [OF assms(1,2)] assms(3) by simp
  have "length (butlast (butlast mfile)) < length d" if "d \<in> set ?ds" for d
    using that by (auto simp: config_dirs_values)
  then have "is_dir fs' (butlast (butlast mfile))"
    using assms(1) unfolding is_dir_iff fs' by (fastforce dest: prefix_length_le)
  moreover have "list_all (\<lambda>d. fs' d \<noteq> Some FFile) ?ds" by (simp add: fs' list_all_iff)
  ultimately show ?thesis
    using config_module_run [of fs' mfile dotenv env] config_module_run [OF assms(1,2)] assms(3)
    by (auto simp: fs' fun_eq_iff)
qed

text \<open>A regular file where the data directory should be makes the import fail with
  \<open>FileExistsError\<close> (\<open>exist_ok\<close> only accepts a directory), before anything is created
  or printed.\<close>

lemma config_module_data_file:
  "is_dir fs (butlast (butlast mfile)) \<Longrightarrow> fs (butlast (butlast mfile) @ [u ''data'']) = Some FFile \<Longrightarrow>
   config_module dotenv env mfile fs = (load_dotenv dotenv env, fs, [], Inl FileExistsError)"
  by (simp add: config_module_def Let_def config_dirs_values path_mkdir_file)

text \<open>
  C8. When the project root is a directory and none of the five data directories is a
  regular file, importing config.py succeeds: it creates exactly the missing ones of the
  five directories, changes nothing else, prints the confirmation line with the project
  root, and yields the settings read from the environment after \<open>load_dotenv()\<close>.
\<close>

theorem config_module_ok:
  assumes "is_dir fs (butlast (butlast mfile))"
    and "list_all (\<lambda>d. fs d \<noteq> Some FFile) (config_dirs (config_values (load_dotenv dotenv env) mfile))"
  shows "config_module dotenv env mfile fs =
    (load_dotenv dotenv env,
     (\<lambda>p. if p \<in> set (config_dirs (config_values (load_dotenv dotenv env) mfile)) then Some FDir else fs p),
     [config_loaded (config_values (load_dotenv dotenv env) mfile)], Inr (config_values (load_dotenv dotenv env) mfile))"
  using assms by (rule config_module_run)

theorem config_module_ok_witness:
  "config_module [] (\<lambda>_. None) demo_config_file demo_fs =
    (load_dotenv [] (\<lambda>_. None),
     (\<lambda>p. if p \<in> set (config_dirs (config_values (load_dotenv [] (\<lambda>_. None)) demo_config_file)) then Some FDir else demo_fs p),
     [config_loaded (config_values (load_dotenv [] (\<lambda>_. None)) demo_config_file)],
     Inr (config_values (load_dotenv [] (\<lambda>_. None)) demo_config_file))"
  by (rule config_module_ok)
     (simp_all add: demo_fs_def demo_config_file_def config_dirs_values is_dir_def dir_error_def u_def)

end
