(* ===== verification/Apps.thy ===== *)
theory Apps
  imports Page Config
begin

text \<open>
  The two small Streamlit scripts besides the application: the first prototype
  src/src/app.py, a page of placeholders, and the smoke test src/app/test_app.py, which
  reports whether the vector store directory exists.  Both are modelled as the page
  elements they write, with the conventions of Page (spinners are not modelled; a widget
  is its label); the smoke test reads the file system of Config.
\<close>

subsection \<open>The placeholder app (src/src/app.py)\<close>

text \<open>The values of the two check boxes, the text input and the button in a run.\<close>

record ph_input =
  cook_at_home :: bool
  show_prices :: bool
  movie_name :: ustr
  suggest_button :: bool

definition ph_sidebar :: elem where
  "ph_sidebar = Sidebar [Header (u ''Options''), Widget (u ''I want to cook at home''), Widget (u ''Compare delivery prices'')]"

definition ph_top :: "elem list" where
  "ph_top = [Title ([127916, 127829] @ u '' Date Night AI''), Markdown (u ''*Your AI assistant for the perfect movie night!*''), ph_sidebar, Markdown (u ''---''), Widget ([127909] @ u '' What movie are you watching tonight?''), Widget ([128302] @ u '' Get Suggestions!'')]"

definition ph_price_columns :: elem where
  "ph_price_columns = Columns [1, 1, 1] [[Metric (u ''Uber Eats'') (u ''$--'')], [Metric (u ''Wolt'') (u ''$--'')], [Metric (u ''JustEat'') (u ''$--'')]]"

definition ph_movie_header :: "ustr \<Rightarrow> elem" where
  "ph_movie_header name = Subheader (([127916] @ u '' Movie: '') @ name)"

definition ph_recipe_header :: elem where
  "ph_recipe_header = Subheader ([128104, 8205, 127859] @ u '' Recipe'')"

definition ph_name_warning :: elem where
  "ph_name_warning = Warning (u ''Please enter a movie name!'')"

text \<open>The body written after a click with a non-empty movie name (lines 32--62).\<close>

definition ph_suggestions :: "ph_input \<Rightarrow> elem list" where
  "ph_suggestions inp =
     [Markdown (u ''---''), ph_movie_header (movie_name inp), Info (u ''Movie details will appear here once we connect the IMDB database!''), Subheader ([127869, 65039] @ u '' Food Pairing Suggestion''), Success (u ''Food pairing suggestions will appear here once we build the RAG system!'')] @
     (if cook_at_home inp then [ph_recipe_header, Warning (u ''Recipes will appear here once we add the recipe database!'')] else []) @
     (if show_prices inp then [Subheader ([128176] @ u '' Price Comparison''), ph_price_columns, Info (u ''Price comparison will work once we add the delivery APIs!'')] else [])"

definition ph_footer :: "elem list" where
  "ph_footer = [Markdown (u ''---''), Markdown (u ''*Built with '' @ [10084, 65039] @ u '' using LangChain, ChromaDB, and Streamlit*'')]"

definition placeholder_page :: "ph_input \<Rightarrow> elem list" where
  "placeholder_page inp =
     ph_top @
     (if suggest_button inp then (if movie_name inp \<noteq> [] then ph_suggestions inp else [ph_name_warning]) else []) @
     ph_footer"

subsection \<open>The smoke test (src/app/test_app.py)\<close>

text \<open>\<open>os.path.exists\<close>: \<open>stat\<close> succeeds, for a directory or a file.\<close>

definition path_exists :: "fs \<Rightarrow> path \<Rightarrow> bool" where
  "path_exists fs p \<longleftrightarrow> dir_error fs (butlast p) = None \<and> fs p \<noteq> None"

text \<open>\<open>os.listdir\<close>: the names the operating system lists for a directory, in its
  order (the parameter \<open>names\<close>); any other path raises.\<close>

definition os_listdir :: "fs \<Rightarrow> (path \<Rightarrow> ustr list) \<Rightarrow> path \<Rightarrow> os_error + ustr list" where
  "os_listdir fs names p =
     (case dir_error fs p of None \<Rightarrow> Inr (names p) | Some e \<Rightarrow> Inl e)"

definition smoke_db_path :: "path \<Rightarrow> path" where
  "smoke_db_path file = butlast (butlast file) @ [(u ''vectorstore'')]"

definition smoke_top :: "elem list" where
  "smoke_top = [Title ([127916] @ u '' Test App''), Write (JStr (u ''If you see this, Streamlit works! '' @ [9989]))]"

definition smoke_found :: "ustr list \<Rightarrow> elem list" where
  "smoke_found files = [Success (([9989] @ u '' vectorstore found with '') @ nat_str (length files) @ (u '' files'')), Write (JArr (map JStr files))]"

definition smoke_missing :: "path \<Rightarrow> elem" where
  "smoke_missing db_path = Error (([10060] @ u '' vectorstore NOT found at: '') @ path_str db_path)"

text \<open>A run of the smoke test for the absolute path of test_app.py: the elements and
  the exception that ended it.\<close>

definition smoke_page :: "fs \<Rightarrow> (path \<Rightarrow> ustr list) \<Rightarrow> path \<Rightarrow> elem list \<times> os_error option" where
  "smoke_page fs names file =
     (let db_path = smoke_db_path file
      in if path_exists fs db_path then
           (case os_listdir fs names db_path of
              Inl e \<Rightarrow> (smoke_top, Some e)
            | Inr files \<Rightarrow> (smoke_top @ smoke_found files, None))
         else (smoke_top @ [smoke_missing db_path], None))"

text \<open>The smoke test of a checkout at \<open>/home/src\<close>.\<close>

definition demo_test_file :: path where
  "demo_test_file = [u ''home'', u ''src'', u ''app'', u ''test_app.py'']"

subsection \<open>Properties of the placeholder app\<close>

text \<open>
  C10. The placeholder page answers the button: after a click with an empty movie name
  it shows only the warning, after a click with a name the movie's placeholder, the
  recipe placeholder exactly when cooking at home is ticked and the price metrics
  exactly when price comparison is ticked; without a click it shows none of them.
\<close>

theorem placeholder_page_answers:
  "(ph_name_warning \<in> set (placeholder_page inp) \<longleftrightarrow> suggest_button inp \<and> movie_name inp = []) \<and>
   (ph_movie_header (movie_name inp) \<in> set (placeholder_page inp) \<longleftrightarrow> suggest_button inp \<and> movie_name inp \<noteq> []) \<and>
   (ph_recipe_header \<in> set (placeholder_page inp) \<longleftrightarrow>
      suggest_button inp \<and> movie_name inp \<noteq> [] \<and> cook_at_home inp) \<and>
   (ph_price_columns \<in> set (placeholder_page inp) \<longleftrightarrow>
      suggest_button inp \<and> movie_name inp \<noteq> [] \<and> show_prices inp)"
  by (simp add: placeholder_page_def ph_suggestions_def ph_top_def ph_footer_def ph_sidebar_def ph_price_columns_def
      ph_movie_header_def ph_recipe_header_def ph_name_warning_def u_def)

subsection \<open>Properties of the smoke test\<close>

lemma dir_error_snoc:
  "is_dir fs p \<Longrightarrow>
   dir_error fs (p @ [x]) = (case fs (p @ [x]) of Some FDir \<Rightarrow> None | None \<Rightarrow> Some FileNotFoundError
                                                | Some FFile \<Rightarrow> Some NotADirectoryError)"
proof -
  assume "is_dir fs p"
  then have "find (\<lambda>q. fs q \<noteq> Some FDir) (prefixes p) = None"
    by (auto simp: is_dir_iff find_None_iff)
  then show ?thesis
    by (simp add: dir_error_def find_append_None split: option.split fnode.split)
qed

text \<open>When the vector store is a directory, the test lists it.\<close>

lemma smoke_page_dir:
  "is_dir fs (smoke_db_path tfile) \<Longrightarrow>
   smoke_page fs names tfile = (smoke_top @ smoke_found (names (smoke_db_path tfile)), None)"
  using is_dir_butlast [of "smoke_db_path tfile" fs]
  by (simp add: smoke_page_def path_exists_def os_listdir_def is_dir_def smoke_db_path_def)

text \<open>When it is a regular file, \<open>os.path.exists\<close> accepts it and \<open>os.listdir\<close> raises
  \<open>NotADirectoryError\<close>: the test ends after its title, without the message of either branch.\<close>

lemma smoke_page_file:
  "is_dir fs (butlast (butlast tfile)) \<Longrightarrow> fs (smoke_db_path tfile) = Some FFile \<Longrightarrow>
   smoke_page fs names tfile = (smoke_top, Some NotADirectoryError)"
  by (simp add: smoke_page_def path_exists_def os_listdir_def smoke_db_path_def dir_error_snoc is_dir_def [symmetric])

end
