(* ===== verification/Setup.thy ===== *)
theory Setup
  imports Page Config
begin

text \<open>
  The module-level setup of the two application scripts that Page takes as parameters:
  main.py loads the \<open>.env\<close> of its project root, opens the vector store under that root
  and reads the TMDB key; cloud_app.py reads its two keys from Streamlit's secrets, then
  from the environment.  The environment, \<open>load_dotenv\<close> and \<open>os.getenv\<close> are Config's.
\<close>

subsection \<open>main.py\<close>

text \<open>\<open>project_root = os.path.dirname(os.path.dirname(os.path.abspath(__file__)))\<close>, for the
  absolute path of main.py.\<close>

definition main_project_root :: "path \<Rightarrow> path" where
  "main_project_root file = butlast (butlast file)"

text \<open>\<open>load_dotenv(os.path.join(project_root, ".env"))\<close>: the entries of that file are
  \<open>dotenv_at\<close> of its path.\<close>

definition main_environ :: "(path \<Rightarrow> (ustr \<times> ustr option) list) \<Rightarrow> environ \<Rightarrow> path \<Rightarrow> environ" where
  "main_environ dotenv_at env file = load_dotenv (dotenv_at (main_project_root file @ [u ''.env''])) env"

text \<open>\<open>load_db\<close>: the path the vector store is opened at.\<close>

definition main_db_path :: "path \<Rightarrow> path" where
  "main_db_path file = main_project_root file @ [u ''vectorstore'']"

definition main_tmdb_key :: "environ \<Rightarrow> ustr" where
  "main_tmdb_key env = py_getenv env (u ''TMDB_API_KEY'') []"

subsection \<open>cloud_app.py\<close>

text \<open>\<open>st.secrets.get(key, default)\<close> over the string entries of secrets.toml.\<close>

definition secrets_get :: "(ustr \<Rightarrow> ustr option) \<Rightarrow> ustr \<Rightarrow> ustr \<Rightarrow> ustr" where
  "secrets_get secrets k d = (case secrets k of Some v \<Rightarrow> v | None \<Rightarrow> d)"

definition cloud_key :: "(ustr \<Rightarrow> ustr option) \<Rightarrow> environ \<Rightarrow> ustr \<Rightarrow> ustr" where
  "cloud_key secrets env k = secrets_get secrets k (py_getenv env k [])"

text \<open>A run of cloud_app.py with the keys read at its top; the other parameters of the
  run are those of \<open>env\<close>.\<close>

definition cloud_run :: "(ustr \<Rightarrow> ustr option) \<Rightarrow> environ \<Rightarrow> cloud_env \<Rightarrow> page_input \<Rightarrow> elem list \<times> py_exc option" where
  "cloud_run secrets env ce inp =
     page_cloud (ce\<lparr>ce_groq_key := cloud_key secrets env (u ''GROQ_API_KEY''),
                    ce_tmdb_key := cloud_key secrets env (u ''TMDB_API_KEY'')\<rparr>) inp"

subsection \<open>Properties of the setup\<close>

text \<open>main.py opens the vector store where config.py's default \<open>CHROMA_DB_PATH\<close> points,
  for scripts of the same checkout (main.py never reads that setting).\<close>

lemma main_db_path_config:
  "main_project_root mfile = butlast (butlast cfile) \<Longrightarrow>
   env (u ''CHROMA_DB_PATH'') = None \<Longrightarrow>
   chroma_db_path (config_values env cfile) = path_str (main_db_path mfile)"
  by (simp add: config_values_def main_db_path_def py_getenv_def Let_def)

text \<open>A key in the secrets wins over the environment; with the Groq key in neither, the
  run shows only the error and the hint, without an exception.\<close>

lemma cloud_key_secrets: "secrets k = Some v \<Longrightarrow> cloud_key secrets env k = v"
  by (simp add: cloud_key_def secrets_get_def)

lemma cloud_run_no_groq_key:
  "secrets (u ''GROQ_API_KEY'') = None \<Longrightarrow> env (u ''GROQ_API_KEY'') = None \<Longrightarrow>
   \<exists>msg hint. cloud_run secrets env ce inp = ([Error msg, Info hint], None)"
  by (simp add: cloud_run_def page_cloud_def cloud_key_def secrets_get_def py_getenv_def)

end
