(* ===== verification/Spec2Isabelle.thy ===== *)
theory Spec2Isabelle
  imports Apps Setup
begin

text \<open>
  \<^bold>\<open>A verification development of just-hangry.\<close>

  The program is a Streamlit app in two variants, src/app/main.py (local Ollama model,
  ChromaDB vector store and TMDB) and src/app/cloud_app.py (Groq and TMDB), with a
  configuration module src/src/config.py, the first prototype page src/src/app.py and
  the smoke test src/app/test_app.py.  A run of
  either script reads the widgets, searches movies, asks a language model for a dish,
  drink and snack per movie, extracts the three names from the answer, looks a recipe
  up on TheMealDB with a fallback strategy, and writes delivery and video links.  Every
  component is modelled from the source as executable HOL functions; every exception
  the code can raise is a value of \<open>py_exc\<close> in a sum type.

  \<^bold>\<open>Theories and the code they model.\<close>
  \<^item> Prelude: Python strings as lists of code points (\<open>ustr\<close>) with \<open>strip\<close>, \<open>split\<close>,
    \<open>join\<close>, \<open>replace\<close>, \<open>lower\<close> and \<open>str(int)\<close>; the exceptions; the Unicode character
    database as the parameter \<open>unicode_db\<close> (\<open>ascii_db\<close> is the one the examples use).
  \<^item> Regex: the backtracking semantics of the three \<open>re.search\<close> patterns of
    \<open>extract_dish_name\<close>.
  \<^item> Extract: \<open>extract_dish_name\<close> (main.py 442--494, the same code in cloud_app.py):
    the primary regex pass, the markdown fallback, the final cleaning.
  \<^item> Resolver: \<open>clean_dish_name\<close> and \<open>search_recipe_smart\<close> (main.py 219--278) with the
    lookup as a parameter, refined against a stream of candidate queries; the step-2
    \<open>while\<close> loop also as \<open>while_option\<close> over its mutable state (\<open>trim_while\<close>).
  \<^item> Json: the values \<open>response.json()\<close> returns and the operations the code applies to
    them (\<open>get\<close>, indexing, slicing, \<open>str\<close>, \<open>repr\<close>, \<open>int()\<close>) with Python's exceptions.
  \<^item> Recipe: \<open>search_recipe\<close> (main.py 281--313) over the decoded TheMealDB response.
  \<^item> Links: \<open>get_order_links\<close> and \<open>get_youtube_link\<close> (main.py 315--329), with
    \<open>urllib.parse.quote\<close> as strict UTF-8 encoding and percent-encoding.
  \<^item> Movies: \<open>search_tmdb\<close>, \<open>get_tmdb_genres\<close>, \<open>get_trending_movies\<close>,
    \<open>resolve_genres\<close> (main.py 50--147) and cloud_app.py's \<open>search_tmdb\<close> (66--145),
    which differs only in the genre key.
  \<^item> Local: \<open>search_local\<close> and \<open>hybrid_search\<close> (main.py 334--396), with Python's
    \<open>float()\<close> of a string modelled down to the rounding to a double.
  \<^item> Prompt: the two prompt templates (main.py 403--438, cloud_app.py 258--284),
    \<open>str.format\<close>, and cloud_app.py's \<open>invoke_llm\<close> (46--57).
  \<^item> Page: one run of each script (main.py 498--756, cloud_app.py 24--35 and
    336--566) as the nested page elements it writes in order, with the exception that
    ended it; and main.py's reruns as the step relation \<open>main_session\<close>.
  \<^item> Config: the import of config.py (\<open>config_module\<close>): \<open>load_dotenv\<close>, the settings read
    with \<open>os.getenv\<close>, and the five \<open>Path.mkdir(parents=True, exist_ok=True)\<close> calls
    over a file system that maps absolute paths to directories and regular files
    (\<open>os_mkdir\<close> resolves the parent as POSIX does, \<open>path_mkdir\<close> is pathlib's recursion).
  \<^item> Apps: src/src/app.py as \<open>placeholder_page\<close> and test_app.py as \<open>smoke_page\<close>,
    which reads Config's file system.
  \<^item> Setup: the module-level setup of main.py (lines 10--12, 28--29, 46: the \<open>.env\<close> of
    the project root, the vector store path, the TMDB key) and of cloud_app.py (lines
    22--25: keys from \<open>st.secrets\<close>, then the environment) feeding Page's parameters.

  \<^bold>\<open>How the components interact.\<close>  The page calls \<open>hybrid_search\<close> (main.py) or
  \<open>search_tmdb_cloud\<close> (cloud_app.py); for each movie it formats the prompt, calls the
  model, and passes the answer to \<open>extract_dish_name\<close>; the main dish, or the query if
  it is empty, goes to \<open>search_recipe_smart\<close> with \<open>search_recipe\<close> as its lookup and to
  \<open>get_order_links\<close>.  The composition is modelled literally: \<open>movie_tab\<close> calls the
  same definitions the components are proved about.  config.py creates the directories
  the smoke test and main.py's vector store expect under the same project root; the
  theorem of this theory composes the two runs.

  \<^bold>\<open>Parameters.\<close>  What lies outside the repository is a parameter of the functions
  that use it: the HTTP requests (\<open>fetch\<close>, \<open>me_meal\<close>, \<open>me_genres\<close>, returning the
  decoded JSON value or the exception), the ChromaDB query, the language model, and
  the Unicode database, the entries of \<open>.env\<close>, the names \<open>os.listdir\<close> returns.
  Properties hold for every value of these parameters unless a hypothesis restricts it.
  No loop of the code can run forever, so no fuel is needed: the loops over lists and
  ranges are structurally recursive functions; the \<open>while len(words) > 1\<close> loop pops a
  word per round, and \<open>trim_while\<close> is proved to stop (C27); \<open>path_mkdir\<close> recurses on
  the parent, a shorter path (its termination proof).

  \<^bold>\<open>What the lemma groups show.\<close>  Extract: the labelled-line formats are extracted
  exactly, fields are always in cleaned form, and the regex quirks (empty value, last
  markdown line wins).  Resolver: the lookups issued are the candidate stream up to the
  first hit, exactly \<open>max 1 n\<close> plus the long words when all miss and never more than
  \<open>max 1 (2n)\<close>; the step-2 \<open>while\<close> loop stops.  Recipe: the found recipe's fields, the null
  measure failure, at most 20 ingredients.  Links: the order links decode to the cleaned
  name, the YouTube link's query is URL-safe and decodes to the raw name and
  \<open>recipe\<close>, and raises on a lone surrogate.  Movies:
  the result bound \<open>max 1 n_results\<close>, the year filter, the integer-genre bug of main.py,
  the equivalence of the two variants up to the genre.  Local: the year filter skips an
  integer year exactly outside the range (through \<open>int(float(str(n)))\<close>, exact below
  \<open>2^53\<close>), \<open>hybrid_search\<close> returns distinct titles, the uncaught \<open>OverflowError\<close>,
  source selection.  Prompt and Page: the example response is
  extracted, prompts always format, the dead warning of the recipe tab, the model
  exception ending a main.py run, the order tab's links for the extracted dishes, every
  click answered, every non-click rerun clearing the results.  Config: a successful import
  creates exactly the missing data directories, a second one changes nothing, a regular
  file in the way ends it with \<open>FileExistsError\<close>.  Apps: the placeholder page answers the
  button; the smoke test crashes on a regular file named vectorstore.

  \<^bold>\<open>Not modelled.\<close>  File permissions and the parsing of the \<open>.env\<close> file (its
  entries are a parameter, as is the search of python-dotenv's \<open>find_dotenv\<close>); the
  objects \<open>chromadb.PersistentClient\<close>, \<open>OllamaLLM\<close> and \<open>Groq\<close> (the services they
  reach are Page's parameters); \<open>time.sleep\<close>.  cloud_app.py's copies of the helper
  functions and of the results section (lines 123--334 and 426--566) are the same code as
  main.py's and are modelled by the same definitions, whose map names main.py (cloud_app.py
  writes \<open>except Exception:\<close> where main.py has a bare \<open>except:\<close>; the two differ only on
  \<open>KeyboardInterrupt\<close> and \<open>SystemExit\<close>, which no modelled call raises).  The first copies of
  \<open>search_local\<close> and \<open>hybrid_search\<close> in main.py (lines 152--212) are replaced by the
  later ones when the module runs and are not mapped.  \<open>st.set_page_config\<close>, spinners,
  the cached resource loaders, the Groq response whose content is \<open>None\<close>, and the text
  of exception messages (an exception is its class) are not modelled.
\<close>

text \<open>
  C31. Importing config.py prepares the smoke test: after an import that succeeded, the
  smoke test of the same checkout finds the vector store directory and lists it.
\<close>

theorem config_then_smoke_test:
  assumes "config_module dotenv env cfile fs = (env', fs', out, Inr c)"
    and "butlast (butlast tfile) = project_root c"
  shows "smoke_page fs' names tfile = (smoke_top @ smoke_found (names (vectorstore_dir c)), None)"
proof -
  from config_module_Inr [OF assms(1)]
  have c: "c = config_values (load_dotenv dotenv env) cfile" and m: "mkdir_all fs (config_dirs c) = (fs', None)"
    by auto
  from mkdir_all_ok [OF m] have "is_dir fs' (vectorstore_dir c)" by (simp add: config_dirs_def)
  moreover have "smoke_db_path tfile = vectorstore_dir c"
    using assms(2) by (simp add: c smoke_db_path_def config_values_def Let_def u_def)
  ultimately show ?thesis by (simp add: smoke_page_dir)
qed

theorem config_then_smoke_test_witness:
  "\<exists>env' fs' out c. config_module [] (\<lambda>_. None) demo_config_file demo_fs = (env', fs', out, Inr c) \<and>
     butlast (butlast demo_test_file) = project_root c \<and>
     smoke_page fs' (\<lambda>_. []) demo_test_file = (smoke_top @ smoke_found [], None)"
proof -
  let ?c = "config_values (load_dotenv [] (\<lambda>_. None)) demo_config_file"
  obtain fs' where run: "config_module [] (\<lambda>_. None) demo_config_file demo_fs = (load_dotenv [] (\<lambda>_. None), fs', [config_loaded ?c], Inr ?c)"
    using config_module_run [of demo_fs demo_config_file "[]" "\<lambda>_. None"]
    by (simp add: demo_fs_def demo_config_file_def config_dirs_values is_dir_def dir_error_def u_def)
  have root: "butlast (butlast demo_test_file) = project_root ?c"
    by (simp add: demo_test_file_def demo_config_file_def config_values_def Let_def)
  show ?thesis using config_then_smoke_test [OF run root, of "\<lambda>_. []"] run root by auto
qed

end
